theory Spec2Isabelle
  imports Complex_Main
begin

section \<open>Python values, numpy arrays and errors\<close>

text \<open>
  Exceptions of the source are values of the type \<open>error\<close>; a function that can raise
  returns \<open>error + 'a\<close> with \<open>Inl\<close> for the exception. Floating-point numbers are
  idealised as the reals (and complex numbers), so every equation proved below is an
  equation of exact arithmetic.
\<close>

datatype error =
    AssertionError string
  | AttributeError string
  | IndexError
  | ValueError string
  | UnboundLocalError string

text \<open>
  A Python object handed to the mesh: a numpy array (its \<open>shape\<close> and its entries
  in flattening order) or a plain Python float, which is not an array and has neither
  \<open>.size\<close> nor \<open>.shape\<close>.
\<close>

datatype pyobj = Ndarray (shape: "nat list") (flat: "real list") | PyFloat real

text \<open>numpy keeps \<open>size = prod shape\<close> for every array it builds.\<close>

definition wf_ndarray :: "pyobj \<Rightarrow> bool" where
  "wf_ndarray a = (case a of Ndarray sh d \<Rightarrow> length d = prod_list sh | PyFloat _ \<Rightarrow> True)"

subsection \<open>Elementwise arithmetic of 1D arrays\<close>

definition vsub :: "'a::minus list \<Rightarrow> 'a list \<Rightarrow> 'a list" where
  "vsub xs ys = map2 (-) xs ys"

definition vadd :: "'a::plus list \<Rightarrow> 'a list \<Rightarrow> 'a list" where
  "vadd xs ys = map2 (+) xs ys"

definition vmul :: "'a::times list \<Rightarrow> 'a list \<Rightarrow> 'a list" where
  "vmul xs ys = map2 (*) xs ys"

definition smul :: "'a::times \<Rightarrow> 'a list \<Rightarrow> 'a list" where
  "smul c xs = map (\<lambda>x. c * x) xs"

definition vneg :: "'a::uminus list \<Rightarrow> 'a list" where
  "vneg xs = map uminus xs"

text \<open>\<open>x.cumsum()\<close>: the running sums.\<close>

fun cumsum_from :: "real \<Rightarrow> real list \<Rightarrow> real list" where
  "cumsum_from a [] = []"
| "cumsum_from a (x # xs) = (a + x) # cumsum_from (a + x) xs"

definition cumsum :: "real list \<Rightarrow> real list" where
  "cumsum xs = cumsum_from 0 xs"

text \<open>\<open>np.kron\<close> of two 1D arrays: every entry of the first times the whole second.\<close>

definition kron1 :: "real list \<Rightarrow> real list \<Rightarrow> real list" where
  "kron1 xs ys = concat (map (\<lambda>x. map (\<lambda>y. x * y) ys) xs)"

text \<open>\<open>max(x)\<close> of a non-empty array.\<close>

definition amax :: "real list \<Rightarrow> real" where
  "amax xs = fold max (tl xs) (hd xs)"

section \<open>The cylindrical 1D mesh\<close>

text \<open>
  \<open>Cyl1DMesh.__init__\<close> stores \<open>self._h = [mkvc(x) for x in h]\<close> and \<open>self._z0\<close>.
  The stored origin is the single entry of \<open>z0\<close> (an array of size one), or 0.
\<close>

record Cyl1DMesh =
  mesh_h :: "real list list"
  mesh_z0 :: real

text \<open>The checks of \<open>__init__\<close> in the order of the source.\<close>

definition check_z0 :: "pyobj option \<Rightarrow> error + unit" where
  "check_z0 z0 =
     (case z0 of
        None \<Rightarrow> Inr ()
      | Some (PyFloat _) \<Rightarrow> Inl (AttributeError ''size'')
      | Some (Ndarray sh d) \<Rightarrow>
          if length d = 1 then Inr () else Inl (AssertionError ''z0.size must equal 1''))"

fun check_h :: "nat \<Rightarrow> pyobj list \<Rightarrow> error + unit" where
  "check_h i [] = Inr ()"
| "check_h i (PyFloat _ # hs) =
     Inl (AssertionError (''h['' @ [char_of (48 + i)] @ ''] is not a numpy array.''))"
| "check_h i (Ndarray sh d # hs) =
     (if length sh = 1 then check_h (Suc i) hs
      else Inl (AssertionError (''h['' @ [char_of (48 + i)] @ ''] must be a 1D numpy array.'')))"

text \<open>
  \<open>mkvc\<close> (of \<open>SimPEG.utils\<close>, which is not among the sources) flattens an array to
  1D in column-major order, \<open>x.flatten(order='F')\<close>; it is only ever reached with arrays.
  An array is stored here in row-major order: \<open>order_F_index sh p 0\<close> is the place in
  \<open>flat\<close> of the entry that comes \<open>p\<close>-th in column-major order (the first index runs
  fastest). An array of at most one dimension is its own flattening.
\<close>

fun order_F_index :: "nat list \<Rightarrow> nat \<Rightarrow> nat \<Rightarrow> nat" where
  "order_F_index [] p acc = acc"
| "order_F_index (n # sh) p acc = order_F_index sh (p div n) (acc * n + p mod n)"

fun mkvc :: "pyobj \<Rightarrow> real list" where
  "mkvc (Ndarray sh d) =
     (if length sh \<le> 1 then d else map (\<lambda>p. d ! order_F_index sh p 0) [0..<length d])"
| "mkvc (PyFloat x) = [x]"

definition Cyl1DMesh_init :: "pyobj list \<Rightarrow> pyobj option \<Rightarrow> error + Cyl1DMesh" where
  "Cyl1DMesh_init h z0 =
     (if length h \<noteq> 2 then Inl (AssertionError ''len(h) must equal 2'')
      else case check_z0 z0 of
        Inl e \<Rightarrow> Inl e
      | Inr _ \<Rightarrow>
          (case check_h 0 h of
             Inl e \<Rightarrow> Inl e
           | Inr _ \<Rightarrow>
               Inr \<lparr>mesh_h = map mkvc h,
                    mesh_z0 = (case z0 of None \<Rightarrow> 0 | Some z \<Rightarrow> hd (flat z))\<rparr>))"

subsection \<open>Mesh properties and counting\<close>

definition hr :: "Cyl1DMesh \<Rightarrow> real list" where
  "hr m = mesh_h m ! 0"

definition hz :: "Cyl1DMesh \<Rightarrow> real list" where
  "hz m = mesh_h m ! 1"

definition nCr :: "Cyl1DMesh \<Rightarrow> nat" where
  "nCr m = length (hr m)"

definition nCz :: "Cyl1DMesh \<Rightarrow> nat" where
  "nCz m = length (hz m)"

definition nC :: "Cyl1DMesh \<Rightarrow> nat" where
  "nC m = nCr m * nCz m"

definition nNr :: "Cyl1DMesh \<Rightarrow> nat" where
  "nNr m = length (hr m)"

definition nNz :: "Cyl1DMesh \<Rightarrow> nat" where
  "nNz m = length (hz m) + 1"

definition nN :: "Cyl1DMesh \<Rightarrow> nat" where
  "nN m = nNr m * nNz m"

definition nFr :: "Cyl1DMesh \<Rightarrow> nat" where
  "nFr m = nNr m * nCz m"

definition nFz :: "Cyl1DMesh \<Rightarrow> nat" where
  "nFz m = nNz m * nCr m"

definition nF :: "Cyl1DMesh \<Rightarrow> nat" where
  "nF m = nFr m + nFz m"

definition nE :: "Cyl1DMesh \<Rightarrow> nat" where
  "nE m = nN m"

subsection \<open>Vectors\<close>

definition vectorNr :: "Cyl1DMesh \<Rightarrow> real list" where
  "vectorNr m = cumsum (hr m)"

definition vectorNz :: "Cyl1DMesh \<Rightarrow> real list" where
  "vectorNz m = map (\<lambda>x. x + mesh_z0 m) (0 # cumsum (hz m))"

definition vectorCCr :: "Cyl1DMesh \<Rightarrow> real list" where
  "vectorCCr m = 0 # vsub (tl (cumsum (hr m))) (map (\<lambda>x. x / 2) (tl (hr m)))"

definition vectorCCz :: "Cyl1DMesh \<Rightarrow> real list" where
  "vectorCCz m = map (\<lambda>x. x + mesh_z0 m) (vsub (cumsum (hz m)) (map (\<lambda>x. x / 2) (hz m)))"

subsection \<open>Geometries\<close>

text \<open>
  \<open>pi*(self.vectorNr**2 - np.r_[0, self.vectorNr[:-1]]**2)\<close>, the annulus areas; the
  source writes the expression out in \<open>area\<close> and again in \<open>vol\<close>.
\<close>

definition annulus :: "real list \<Rightarrow> real list" where
  "annulus v = smul pi (vsub (map (\<lambda>x. x ^ 2) v) (map (\<lambda>x. x ^ 2) (0 # butlast v)))"

definition area :: "Cyl1DMesh \<Rightarrow> real list" where
  "area m =
     (let areaR = kron1 (hz m) (smul (2 * pi) (vectorNr m));
          areaZ = kron1 (map (\<lambda>_. 1) (vectorNz m)) (annulus (vectorNr m))
      in areaR @ areaZ)"

definition vol :: "Cyl1DMesh \<Rightarrow> real list" where
  "vol m = (let az = annulus (vectorNr m) in kron1 (hz m) az)"

text \<open>A valid mesh: at least one radial cell, every width positive.\<close>

definition valid_mesh :: "Cyl1DMesh \<Rightarrow> bool" where
  "valid_mesh m =
     (length (mesh_h m) = 2 \<and> hr m \<noteq> [] \<and> list_all (\<lambda>x. 0 < x) (hr m)
        \<and> list_all (\<lambda>x. 0 < x) (hz m))"

section \<open>Sparse matrices\<close>

text \<open>
  A \<open>scipy.sparse\<close> matrix: its shape and its entries by row and column index.
\<close>

record 'a spmat =
  nrows :: nat
  ncols :: nat
  entry :: "nat \<Rightarrow> nat \<Rightarrow> 'a"

text \<open>
  \<open>sp.spdiags(data, diags, m, n)\<close>: on the diagonal with offset \<open>diags[k]\<close> (column minus
  row), the entry in column \<open>j\<close> is \<open>data[k][j]\<close>.
\<close>

definition spdiags :: "real list list \<Rightarrow> int list \<Rightarrow> nat \<Rightarrow> nat \<Rightarrow> real spmat" where
  "spdiags dat diags m n =
     \<lparr>nrows = m, ncols = n,
      entry = (\<lambda>i j. if i < m \<and> j < n
                 then (\<Sum>k\<leftarrow>[0..<length diags].
                         if int j - int i = diags ! k \<and> j < length (dat ! k) then dat ! k ! j else 0)
                 else 0)\<rparr>"

text \<open>\<open>A[i, j] = v\<close>; an index outside the shape raises IndexError.\<close>

definition setitem :: "'a spmat \<Rightarrow> nat \<Rightarrow> nat \<Rightarrow> 'a \<Rightarrow> error + 'a spmat" where
  "setitem A i j v =
     (if i < nrows A \<and> j < ncols A
      then Inr (A\<lparr>entry := (\<lambda>r c. if r = i \<and> c = j then v else entry A r c)\<rparr>)
      else Inl IndexError)"

definition eye :: "nat \<Rightarrow> real spmat" where
  "eye n = \<lparr>nrows = n, ncols = n, entry = (\<lambda>i j. if i = j \<and> i < n then 1 else 0)\<rparr>"

definition kron :: "real spmat \<Rightarrow> real spmat \<Rightarrow> real spmat" where
  "kron A B =
     \<lparr>nrows = nrows A * nrows B, ncols = ncols A * ncols B,
      entry = (\<lambda>i j. entry A (i div nrows B) (j div ncols B)
                       * entry B (i mod nrows B) (j mod ncols B))\<rparr>"

text \<open>\<open>sp.vstack((A, B))\<close>, for two blocks with the same number of columns.\<close>

definition vstack :: "'a spmat \<Rightarrow> 'a spmat \<Rightarrow> 'a spmat" where
  "vstack A B =
     \<lparr>nrows = nrows A + nrows B, ncols = ncols A,
      entry = (\<lambda>i j. if i < nrows A then entry A i j else entry B (i - nrows A) j)\<rparr>"

text \<open>\<open>A.T\<close>.\<close>

definition spT :: "'a spmat \<Rightarrow> 'a spmat" where
  "spT A = \<lparr>nrows = ncols A, ncols = nrows A, entry = (\<lambda>i j. entry A j i)\<rparr>"

text \<open>\<open>A * x\<close> for a sparse matrix and a 1D array, and \<open>A * B\<close> for two sparse matrices.\<close>

definition spmv :: "('a::comm_ring_1) spmat \<Rightarrow> 'a list \<Rightarrow> 'a list" where
  "spmv A x = map (\<lambda>i. \<Sum>j<ncols A. entry A i j * x ! j) [0..<nrows A]"

definition spmm :: "('a::comm_ring_1) spmat \<Rightarrow> 'a spmat \<Rightarrow> 'a spmat" where
  "spmm A B =
     \<lparr>nrows = nrows A, ncols = ncols B,
      entry = (\<lambda>i j. \<Sum>k<ncols A. entry A i k * entry B k j)\<rparr>"

text \<open>
  \<open>sdiag\<close> (of \<open>SimPEG.utils\<close>, which is not among the sources) builds the sparse
  diagonal matrix of a vector.
\<close>

definition sdiag :: "('a::zero) list \<Rightarrow> 'a spmat" where
  "sdiag v =
     \<lparr>nrows = length v, ncols = length v,
      entry = (\<lambda>i j. if i = j \<and> i < length v then v ! i else 0)\<rparr>"

subsection \<open>Averaging operators of the mesh\<close>

definition aveE2CC :: "Cyl1DMesh \<Rightarrow> error + real spmat" where
  "aveE2CC m =
     (let az = spdiags (replicate 2 (replicate (nNz m) 0.5)) [-1, 0] (nNz m) (nCz m);
          ar = spdiags (replicate 2 (replicate (nCr m) 0.5)) [0, 1] (nCr m) (nCr m)
      in case setitem ar 0 0 1 of
           Inl e \<Rightarrow> Inl e
         | Inr ar' \<Rightarrow> Inr (spT (kron az ar')))"

definition aveF2CC :: "Cyl1DMesh \<Rightarrow> error + real spmat" where
  "aveF2CC m =
     (let az = spdiags (replicate 2 (replicate (nNz m) 0.5)) [-1, 0] (nNz m) (nCz m);
          ar = spdiags (replicate 2 (replicate (nCr m) 0.5)) [0, 1] (nCr m) (nCr m)
      in case setitem ar 0 0 1 of
           Inl e \<Rightarrow> Inl e
         | Inr ar' \<Rightarrow>
             (let Afr = kron (eye (nCz m)) ar';
                  Afz = kron az (eye (nCr m))
              in Inr (spT (vstack Afr Afz))))"

subsection \<open>Mass matrices\<close>

text \<open>\<open>x.repeat(n)\<close> of a 1D array: every entry \<open>n\<close> times in a row.\<close>

definition repeat :: "nat \<Rightarrow> 'a list \<Rightarrow> 'a list" where
  "repeat n xs = concat (map (replicate n) xs)"

text \<open>
  \<open>getMass(materialProp, loc)\<close>: \<open>materialProp\<close> is \<open>None\<close>, a Python float or a numpy
  array, as the docstring has it.
\<close>

definition getMass :: "Cyl1DMesh \<Rightarrow> pyobj option \<Rightarrow> string \<Rightarrow> error + real spmat" where
  "getMass m materialProp loc =
     (let mp = (case materialProp of
                  None \<Rightarrow> replicate (nC m) 1
                | Some (PyFloat c) \<Rightarrow> map (\<lambda>x. x * c) (replicate (nC m) 1)
                | Some (Ndarray sh d) \<Rightarrow>
                    if sh = [nCz m] then repeat (nCr m) d else mkvc (Ndarray sh d))
      in if length mp \<noteq> nC m then Inl (AssertionError ''materialProp incorrect shape'')
         else case (if loc = ''e'' then aveE2CC m
                    else if loc = ''f'' then aveF2CC m
                    else Inl (ValueError ''Invalid loc'')) of
                Inl e \<Rightarrow> Inl e
              | Inr Av \<Rightarrow> Inr (sdiag (spmv (spT Av) (vmul (vol m) mp))))"

definition getEdgeMass :: "Cyl1DMesh \<Rightarrow> pyobj option \<Rightarrow> error + real spmat" where
  "getEdgeMass m materialProp = getMass m materialProp ''e''"

definition getFaceMass :: "Cyl1DMesh \<Rightarrow> pyobj option \<Rightarrow> error + real spmat" where
  "getFaceMass m materialProp = getMass m materialProp ''f''"

subsection \<open>Notions of the specification of the mesh\<close>

text \<open>The sum of row \<open>i\<close> of a matrix: what the operator yields on the constant field 1.\<close>

definition rowsum :: "real spmat \<Rightarrow> nat \<Rightarrow> real" where
  "rowsum A i = (\<Sum>j<ncols A. entry A i j)"

text \<open>
  The two 1D stencils of the averaging operators, named: the vertical one, and the radial
  one after the boundary fix-up \<open>ar[0,0] = 1\<close>.
\<close>

definition az_mat :: "Cyl1DMesh \<Rightarrow> real spmat" where
  "az_mat m = spdiags (replicate 2 (replicate (nNz m) (1/2))) [-1, 0] (nNz m) (nCz m)"

definition ar_fix :: "nat \<Rightarrow> real spmat" where
  "ar_fix n = (let ar = spdiags (replicate 2 (replicate n (1/2))) [0, 1] n n
               in ar\<lparr>entry := (\<lambda>r c. if r = 0 \<and> c = 0 then 1 else entry ar r c)\<rparr>)"

text \<open>
  The constructor's contract in the words of the specification: a width sequence is a 1D
  array, the origin is a single scalar.
\<close>

definition is_1D_array :: "pyobj \<Rightarrow> bool" where
  "is_1D_array a = (case a of Ndarray sh d \<Rightarrow> length sh = 1 | PyFloat _ \<Rightarrow> False)"

definition is_single_scalar :: "pyobj \<Rightarrow> bool" where
  "is_single_scalar a = (case a of Ndarray sh d \<Rightarrow> length d = 1 | PyFloat _ \<Rightarrow> False)"

text \<open>
  The material property of \<open>getMass\<close> in the words of the specification: unspecified is
  uniform 1, a scalar is broadcast, a per-cell array (of size \<open>nC\<close>) is taken as the vector
  of its entries, a per-layer array (of size \<open>nCz\<close>) gives every cell the value of its
  vertical layer, any other size is a shape mismatch.
\<close>

definition broadcast_prop :: "Cyl1DMesh \<Rightarrow> pyobj option \<Rightarrow> real list option" where
  "broadcast_prop m materialProp =
     (case materialProp of
        None \<Rightarrow> Some (replicate (nC m) 1)
      | Some (PyFloat c) \<Rightarrow> Some (replicate (nC m) c)
      | Some (Ndarray sh d) \<Rightarrow>
          let p = mkvc (Ndarray sh d)
          in if length p = nC m then Some p
             else if length p = nCz m then Some (map (\<lambda>k. p ! (k div nCr m)) [0..<nC m])
             else None)"

definition mass_matrix :: "Cyl1DMesh \<Rightarrow> real spmat \<Rightarrow> real list \<Rightarrow> real spmat" where
  "mass_matrix m Av p = sdiag (spmv (spT Av) (vmul (vol m) p))"

definition getMass_spec :: "Cyl1DMesh \<Rightarrow> pyobj option \<Rightarrow> string \<Rightarrow> error + real spmat" where
  "getMass_spec m materialProp loc =
     (case broadcast_prop m materialProp of
        None \<Rightarrow> Inl (AssertionError ''materialProp incorrect shape'')
      | Some p \<Rightarrow>
          if loc = ''e'' then map_sum id (\<lambda>Av. mass_matrix m Av p) (aveE2CC m)
          else if loc = ''f'' then map_sum id (\<lambda>Av. mass_matrix m Av p) (aveF2CC m)
          else Inl (ValueError ''Invalid loc''))"

text \<open>
  The arrays on which \<open>getMass\<close> follows the specification: a numpy array has as many
  entries as its shape says, and an array of size \<open>nCz\<close> (and not \<open>nC\<close>) is
  one-dimensional, since the source tests \<open>materialProp.shape == (self.nCz,)\<close> where
  its docstring says \<open>materialProp.size = self.nCz\<close>.
\<close>

definition materialProp_ok :: "Cyl1DMesh \<Rightarrow> pyobj option \<Rightarrow> bool" where
  "materialProp_ok m materialProp =
     (case materialProp of
        Some (Ndarray sh d) \<Rightarrow>
          length d = prod_list sh \<and> (sh = [length d] \<or> length d \<noteq> nCz m \<or> length d = nC m)
      | _ \<Rightarrow> True)"

section \<open>The NSEM receivers\<close>

subsection \<open>Complex arrays\<close>

text \<open>
  What \<open>eval\<close> and \<open>evalDeriv\<close> return: a real 1D array (one component of the
  data), a complex 1D array, or a complex 2D array given by its rows.
\<close>

datatype pyarr = RealArr "real list" | CplxArr "complex list" | CplxMat "complex list list"

text \<open>
  \<open>mu_0\<close> of \<open>scipy.constants\<close>, which is not among the sources; the proofs only
  use that it is a real number and, in examples, that it is not zero.
\<close>

definition mu_0 :: real where
  "mu_0 = 4 * pi / 10 ^ 7"

text \<open>\<open>x / mu_0\<close>, \<open>1. / x\<close>, \<open>-A\<close> and the row vector times a matrix, \<open>x.T * A\<close>.\<close>

definition vdivs :: "complex list \<Rightarrow> real \<Rightarrow> complex list" where
  "vdivs x c = map (\<lambda>z. z / of_real c) x"

definition recip :: "complex list \<Rightarrow> complex list" where
  "recip x = map (\<lambda>z. 1 / z) x"

definition spneg :: "complex spmat \<Rightarrow> complex spmat" where
  "spneg A = A\<lparr>entry := (\<lambda>i j. - entry A i j)\<rparr>"

definition vecmat :: "complex list \<Rightarrow> complex spmat \<Rightarrow> complex list" where
  "vecmat x A = map (\<lambda>j. \<Sum>i<nrows A. x ! i * entry A i j) [0..<ncols A]"

text \<open>\<open>'xx' in self.orientation\<close>: the substring test of Python strings.\<close>

fun py_in :: "string \<Rightarrow> string \<Rightarrow> bool" where
  "py_in p [] = (p = [])"
| "py_in p (c # s) = (take (length p) (c # s) = p \<or> py_in p s)"

text \<open>
  \<open>getattr(z, self.component)\<close> of a complex array: its real or its imaginary part; any
  other attribute name is not modelled and raises.
\<close>

definition getattr_component :: "complex list \<Rightarrow> string \<Rightarrow> error + pyarr" where
  "getattr_component z c =
     (if c = ''real'' then Inr (RealArr (map Re z))
      else if c = ''imag'' then Inr (RealArr (map Im z))
      else Inl (AttributeError c))"

text \<open>
  \<open>x.reshape((2, n)).T\<close>: row \<open>i\<close> of the result holds entry \<open>i\<close> of the first half
  and entry \<open>i\<close> of the second half of \<open>x\<close>; numpy refuses an \<open>x\<close> that has not \<open>2 n\<close>
  entries.
\<close>

definition reshape2T :: "nat \<Rightarrow> complex list \<Rightarrow> error + complex list list" where
  "reshape2T n x =
     (if length x = 2 * n then Inr (map (\<lambda>i. [x ! i, x ! (n + i)]) [0..<n])
      else Inl (ValueError ''cannot reshape array''))"

subsection \<open>The collaborators: locations, mesh and fields\<close>

text \<open>
  Receiver locations are a 2D array (receiver by coordinate) or a 3D array whose last axis
  holds the numerator and the denominator location; slicing yields 1D or 2D arrays.
\<close>

datatype locarr = Loc1 "real list" | Loc2 "real list list" | Loc3 "real list list list"

text \<open>
  The mesh of the receivers (a \<open>discretize\<close> mesh, not among the sources) is used through
  \<open>getInterpolationMat(locs, kind)\<close> and \<open>nE\<close>. The fields object \<open>f\<close> (not among the
  sources either) is used through \<open>f[src, name]\<close> and through its derivative operators
  \<open>f._e_pxDeriv_u(src, v, adjoint)\<close> and so on, where \<open>adjoint\<close> is false when omitted.
\<close>

record rxmesh =
  getInterpolationMat :: "locarr \<Rightarrow> string \<Rightarrow> complex spmat"
  mesh_nE :: nat

record 's fields =
  getitem :: "'s \<Rightarrow> string \<Rightarrow> complex list"
  e_pxDeriv_u :: "'s \<Rightarrow> complex list \<Rightarrow> bool \<Rightarrow> complex list"
  e_pyDeriv_u :: "'s \<Rightarrow> complex list \<Rightarrow> bool \<Rightarrow> complex list"
  b_pxDeriv_u :: "'s \<Rightarrow> complex list \<Rightarrow> bool \<Rightarrow> complex list"
  b_pyDeriv_u :: "'s \<Rightarrow> complex list \<Rightarrow> bool \<Rightarrow> complex list"
  eDeriv_u :: "'s \<Rightarrow> complex list \<Rightarrow> bool \<Rightarrow> complex list"
  bDeriv_u :: "'s \<Rightarrow> complex list \<Rightarrow> bool \<Rightarrow> complex list"

text \<open>
  A receiver object: its properties, the hidden \<open>_mesh\<close>, \<open>_src\<close>, \<open>_f\<close> that
  \<open>eval\<close> and \<open>evalDeriv\<close> rebind on every call, and the interpolation matrices it has
  cached so far (\<open>None\<close> before the first use).
\<close>

record 's rx =
  locs :: locarr
  orientation :: string
  component :: string
  rx_mesh :: rxmesh
  rx_src :: 's
  rx_f :: "'s fields"
  cPex :: "complex spmat option"
  cPey :: "complex spmat option"
  cPbx :: "complex spmat option"
  cPby :: "complex spmat option"
  cPbz :: "complex spmat option"
  cPbx_num :: "complex spmat option"
  cPby_num :: "complex spmat option"

text \<open>\<open>self._src = src; self._mesh = mesh; self._f = f\<close>.\<close>

definition rebind :: "'s rx \<Rightarrow> 's \<Rightarrow> rxmesh \<Rightarrow> 's fields \<Rightarrow> 's rx" where
  "rebind self src mesh f = self\<lparr>rx_src := src, rx_mesh := mesh, rx_f := f\<rparr>"

subsection \<open>\<open>BaseRxNSEM_Point\<close>: projections and field components\<close>

definition loc_numerator :: "'s rx \<Rightarrow> locarr" where
  "loc_numerator self =
     (case locs self of Loc3 a \<Rightarrow> Loc2 (map (map (\<lambda>t. t ! 0)) a) | l \<Rightarrow> l)"

definition loc_denominator :: "'s rx \<Rightarrow> locarr" where
  "loc_denominator self =
     (case locs self of Loc3 a \<Rightarrow> Loc2 (map (map (\<lambda>t. t ! 1)) a) | l \<Rightarrow> l)"

definition Pex :: "'s rx \<Rightarrow> complex spmat" where
  "Pex self =
     (case cPex self of
        None \<Rightarrow> getInterpolationMat (rx_mesh self) (loc_numerator self) ''Ex''
      | Some P \<Rightarrow> P)"

definition Pey :: "'s rx \<Rightarrow> complex spmat" where
  "Pey self =
     (case cPey self of
        None \<Rightarrow> getInterpolationMat (rx_mesh self) (loc_numerator self) ''Ey''
      | Some P \<Rightarrow> P)"

definition Pbx :: "'s rx \<Rightarrow> complex spmat" where
  "Pbx self =
     (case cPbx self of
        None \<Rightarrow> getInterpolationMat (rx_mesh self) (loc_denominator self) ''Fx''
      | Some P \<Rightarrow> P)"

definition Pby :: "'s rx \<Rightarrow> complex spmat" where
  "Pby self =
     (case cPby self of
        None \<Rightarrow> getInterpolationMat (rx_mesh self) (loc_denominator self) ''Fy''
      | Some P \<Rightarrow> P)"

definition Pbz :: "'s rx \<Rightarrow> complex spmat" where
  "Pbz self =
     (case cPbz self of
        None \<Rightarrow> getInterpolationMat (rx_mesh self) (loc_numerator self) ''Fz''
      | Some P \<Rightarrow> P)"

text \<open>\<open>self._f[self._src, name]\<close>.\<close>

definition f_get :: "'s rx \<Rightarrow> string \<Rightarrow> complex list" where
  "f_get self name = getitem (rx_f self) (rx_src self) name"

text \<open>The components of the fields; \<open>px\<close> and \<open>py\<close> are the two polarizations.\<close>

definition ex_px :: "'s rx \<Rightarrow> complex list" where
  "ex_px self = spmv (Pex self) (f_get self ''e_px'')"

definition ey_px :: "'s rx \<Rightarrow> complex list" where
  "ey_px self = spmv (Pey self) (f_get self ''e_px'')"

definition ex_py :: "'s rx \<Rightarrow> complex list" where
  "ex_py self = spmv (Pex self) (f_get self ''e_py'')"

definition ey_py :: "'s rx \<Rightarrow> complex list" where
  "ey_py self = spmv (Pey self) (f_get self ''e_py'')"

definition hx_px :: "'s rx \<Rightarrow> complex list" where
  "hx_px self = vdivs (spmv (Pbx self) (f_get self ''b_px'')) mu_0"

definition hy_px :: "'s rx \<Rightarrow> complex list" where
  "hy_px self = vdivs (spmv (Pby self) (f_get self ''b_px'')) mu_0"

definition hz_px :: "'s rx \<Rightarrow> complex list" where
  "hz_px self = vdivs (spmv (Pbz self) (f_get self ''b_px'')) mu_0"

definition hx_py :: "'s rx \<Rightarrow> complex list" where
  "hx_py self = vdivs (spmv (Pbx self) (f_get self ''b_py'')) mu_0"

definition hy_py :: "'s rx \<Rightarrow> complex list" where
  "hy_py self = vdivs (spmv (Pby self) (f_get self ''b_py'')) mu_0"

definition hz_py :: "'s rx \<Rightarrow> complex list" where
  "hz_py self = vdivs (spmv (Pbz self) (f_get self ''b_py'')) mu_0"

text \<open>The derivatives of the components.\<close>

definition ex_px_u :: "'s rx \<Rightarrow> complex list \<Rightarrow> complex list" where
  "ex_px_u self vec = spmv (Pex self) (e_pxDeriv_u (rx_f self) (rx_src self) vec False)"

definition ey_px_u :: "'s rx \<Rightarrow> complex list \<Rightarrow> complex list" where
  "ey_px_u self vec = spmv (Pey self) (e_pxDeriv_u (rx_f self) (rx_src self) vec False)"

definition ex_py_u :: "'s rx \<Rightarrow> complex list \<Rightarrow> complex list" where
  "ex_py_u self vec = spmv (Pex self) (e_pyDeriv_u (rx_f self) (rx_src self) vec False)"

definition ey_py_u :: "'s rx \<Rightarrow> complex list \<Rightarrow> complex list" where
  "ey_py_u self vec = spmv (Pey self) (e_pyDeriv_u (rx_f self) (rx_src self) vec False)"

definition hx_px_u :: "'s rx \<Rightarrow> complex list \<Rightarrow> complex list" where
  "hx_px_u self vec = vdivs (spmv (Pbx self) (b_pxDeriv_u (rx_f self) (rx_src self) vec False)) mu_0"

definition hy_px_u :: "'s rx \<Rightarrow> complex list \<Rightarrow> complex list" where
  "hy_px_u self vec = vdivs (spmv (Pby self) (b_pxDeriv_u (rx_f self) (rx_src self) vec False)) mu_0"

definition hz_px_u :: "'s rx \<Rightarrow> complex list \<Rightarrow> complex list" where
  "hz_px_u self vec = vdivs (spmv (Pbz self) (b_pxDeriv_u (rx_f self) (rx_src self) vec False)) mu_0"

definition hx_py_u :: "'s rx \<Rightarrow> complex list \<Rightarrow> complex list" where
  "hx_py_u self vec = vdivs (spmv (Pbx self) (b_pyDeriv_u (rx_f self) (rx_src self) vec False)) mu_0"

definition hy_py_u :: "'s rx \<Rightarrow> complex list \<Rightarrow> complex list" where
  "hy_py_u self vec = vdivs (spmv (Pby self) (b_pyDeriv_u (rx_f self) (rx_src self) vec False)) mu_0"

definition hz_py_u :: "'s rx \<Rightarrow> complex list \<Rightarrow> complex list" where
  "hz_py_u self vec = vdivs (spmv (Pbz self) (b_pyDeriv_u (rx_f self) (rx_src self) vec False)) mu_0"

text \<open>The determinant of the horizontal magnetic fields and its derivative.\<close>

definition Hd :: "'s rx \<Rightarrow> complex spmat" where
  "Hd self =
     sdiag (recip (vsub (spmv (sdiag (hx_px self)) (hy_py self))
                        (spmv (sdiag (hx_py self)) (hy_px self))))"

definition Hd_uV :: "'s rx \<Rightarrow> complex list \<Rightarrow> complex list" where
  "Hd_uV self v =
     vsub (vsub (vadd (spmv (sdiag (hy_py self)) (hx_px_u self v))
                      (spmv (sdiag (hx_px self)) (hy_py_u self v)))
                (spmv (sdiag (hx_py self)) (hy_px_u self v)))
          (spmv (sdiag (hy_px self)) (hx_py_u self v))"

text \<open>The adjoint versions.\<close>

definition aex_px :: "'s rx \<Rightarrow> complex list" where
  "aex_px self = vecmat (f_get self ''e_px'') (spT (Pex self))"

definition aey_px :: "'s rx \<Rightarrow> complex list" where
  "aey_px self = vecmat (f_get self ''e_px'') (spT (Pey self))"

definition aex_py :: "'s rx \<Rightarrow> complex list" where
  "aex_py self = vecmat (f_get self ''e_py'') (spT (Pex self))"

definition aey_py :: "'s rx \<Rightarrow> complex list" where
  "aey_py self = vecmat (f_get self ''e_py'') (spT (Pey self))"

definition ahx_px :: "'s rx \<Rightarrow> complex list" where
  "ahx_px self = vecmat (vdivs (f_get self ''b_px'') mu_0) (spT (Pbx self))"

definition ahy_px :: "'s rx \<Rightarrow> complex list" where
  "ahy_px self = vecmat (vdivs (f_get self ''b_px'') mu_0) (spT (Pby self))"

definition ahz_px :: "'s rx \<Rightarrow> complex list" where
  "ahz_px self = vecmat (vdivs (f_get self ''b_px'') mu_0) (spT (Pbz self))"

definition ahx_py :: "'s rx \<Rightarrow> complex list" where
  "ahx_py self = vecmat (vdivs (f_get self ''b_py'') mu_0) (spT (Pbx self))"

definition ahy_py :: "'s rx \<Rightarrow> complex list" where
  "ahy_py self = vecmat (vdivs (f_get self ''b_py'') mu_0) (spT (Pby self))"

definition ahz_py :: "'s rx \<Rightarrow> complex list" where
  "ahz_py self = vecmat (vdivs (f_get self ''b_py'') mu_0) (spT (Pbz self))"

definition aex_px_u :: "'s rx \<Rightarrow> complex list \<Rightarrow> complex list" where
  "aex_px_u self vec = e_pxDeriv_u (rx_f self) (rx_src self) (spmv (spT (Pex self)) vec) True"

definition aey_px_u :: "'s rx \<Rightarrow> complex list \<Rightarrow> complex list" where
  "aey_px_u self vec = e_pxDeriv_u (rx_f self) (rx_src self) (spmv (spT (Pey self)) vec) True"

definition aex_py_u :: "'s rx \<Rightarrow> complex list \<Rightarrow> complex list" where
  "aex_py_u self vec = e_pyDeriv_u (rx_f self) (rx_src self) (spmv (spT (Pex self)) vec) True"

definition aey_py_u :: "'s rx \<Rightarrow> complex list \<Rightarrow> complex list" where
  "aey_py_u self vec = e_pyDeriv_u (rx_f self) (rx_src self) (spmv (spT (Pey self)) vec) True"

definition ahx_px_u :: "'s rx \<Rightarrow> complex list \<Rightarrow> complex list" where
  "ahx_px_u self vec =
     vdivs (b_pxDeriv_u (rx_f self) (rx_src self) (spmv (spT (Pbx self)) vec) True) mu_0"

definition ahy_px_u :: "'s rx \<Rightarrow> complex list \<Rightarrow> complex list" where
  "ahy_px_u self vec =
     vdivs (b_pxDeriv_u (rx_f self) (rx_src self) (spmv (spT (Pby self)) vec) True) mu_0"

definition ahz_px_u :: "'s rx \<Rightarrow> complex list \<Rightarrow> complex list" where
  "ahz_px_u self vec =
     vdivs (b_pxDeriv_u (rx_f self) (rx_src self) (spmv (spT (Pbz self)) vec) True) mu_0"

definition ahx_py_u :: "'s rx \<Rightarrow> complex list \<Rightarrow> complex list" where
  "ahx_py_u self vec =
     vdivs (b_pyDeriv_u (rx_f self) (rx_src self) (spmv (spT (Pbx self)) vec) True) mu_0"

definition ahy_py_u :: "'s rx \<Rightarrow> complex list \<Rightarrow> complex list" where
  "ahy_py_u self vec =
     vdivs (b_pyDeriv_u (rx_f self) (rx_src self) (spmv (spT (Pby self)) vec) True) mu_0"

definition ahz_py_u :: "'s rx \<Rightarrow> complex list \<Rightarrow> complex list" where
  "ahz_py_u self vec =
     vdivs (b_pyDeriv_u (rx_f self) (rx_src self) (spmv (spT (Pbz self)) vec) True) mu_0"

definition aHd :: "'s rx \<Rightarrow> complex spmat" where
  "aHd self =
     sdiag (recip (vsub (spmv (sdiag (ahx_px self)) (ahy_py self))
                        (spmv (sdiag (ahx_py self)) (ahy_px self))))"

definition aHd_uV :: "'s rx \<Rightarrow> complex list \<Rightarrow> complex list" where
  "aHd_uV self x =
     vsub (vsub (vadd (ahx_px_u self (spmv (sdiag (ahy_py self)) x))
                      (ahx_px_u self (spmv (sdiag (ahy_py self)) x)))
                (ahy_px_u self (spmv (sdiag (ahx_py self)) x)))
          (ahx_py_u self (spmv (sdiag (ahy_px self)) x))"

subsection \<open>\<open>Point_impedance1D\<close>\<close>

text \<open>
  A value returned by \<open>eval(..., True)\<close> used as a complex vector again: numpy promotes a
  real array in complex arithmetic, and \<open>sdiag\<close> flattens what it is given.
\<close>

fun cvec_of :: "pyarr \<Rightarrow> complex list" where
  "cvec_of (CplxArr z) = z"
| "cvec_of (RealArr x) = map complex_of_real x"
| "cvec_of (CplxMat M) = concat (transpose M)"

text \<open>\<open>self.locs[:, -1]\<close>, the last coordinate of every location.\<close>

fun last_col :: "locarr \<Rightarrow> locarr" where
  "last_col (Loc2 a) = Loc1 (map last a)"
| "last_col (Loc3 a) = Loc2 (map last a)"
| "last_col (Loc1 a) = Loc1 a"

definition Pex_1D :: "'s rx \<Rightarrow> complex spmat" where
  "Pex_1D self =
     (case cPex self of
        None \<Rightarrow> getInterpolationMat (rx_mesh self) (last_col (locs self)) ''Fx''
      | Some P \<Rightarrow> P)"

definition Pbx_1D :: "'s rx \<Rightarrow> complex spmat" where
  "Pbx_1D self =
     (case cPbx self of
        None \<Rightarrow> getInterpolationMat (rx_mesh self) (last_col (locs self)) ''Ex''
      | Some P \<Rightarrow> P)"

definition ex_1D :: "'s rx \<Rightarrow> complex list" where
  "ex_1D self = spmv (Pex_1D self) (f_get self ''e_1d'')"

definition hx_1D :: "'s rx \<Rightarrow> complex list" where
  "hx_1D self = vdivs (spmv (Pbx_1D self) (f_get self ''b_1d'')) mu_0"

definition ex_u_1D :: "'s rx \<Rightarrow> complex list \<Rightarrow> complex list" where
  "ex_u_1D self v = spmv (Pex_1D self) (eDeriv_u (rx_f self) (rx_src self) v False)"

definition hx_u_1D :: "'s rx \<Rightarrow> complex list \<Rightarrow> complex list" where
  "hx_u_1D self v = vdivs (spmv (Pbx_1D self) (bDeriv_u (rx_f self) (rx_src self) v False)) mu_0"

definition aex_u_1D :: "'s rx \<Rightarrow> complex list \<Rightarrow> complex list" where
  "aex_u_1D self v = eDeriv_u (rx_f self) (rx_src self) (spmv (spT (Pex_1D self)) v) True"

definition ahx_u_1D :: "'s rx \<Rightarrow> complex list \<Rightarrow> complex list" where
  "ahx_u_1D self v =
     vdivs (bDeriv_u (rx_f self) (rx_src self) (spmv (spT (Pbx_1D self)) v) True) mu_0"

definition Hd_1D :: "'s rx \<Rightarrow> complex spmat" where
  "Hd_1D self = sdiag (recip (hx_1D self))"

definition Point_impedance1D_eval ::
  "'s rx \<Rightarrow> 's \<Rightarrow> rxmesh \<Rightarrow> 's fields \<Rightarrow> bool \<Rightarrow> error + pyarr" where
  "Point_impedance1D_eval self0 src mesh f return_complex =
     (let self = rebind self0 src mesh f;
          rx_eval_complex = spmv (spneg (Hd_1D self)) (ex_1D self)
      in if return_complex then Inr (CplxArr rx_eval_complex)
         else getattr_component rx_eval_complex (component self))"

definition Point_impedance1D_evalDeriv ::
  "'s rx \<Rightarrow> 's \<Rightarrow> rxmesh \<Rightarrow> 's fields \<Rightarrow> complex list \<Rightarrow> bool \<Rightarrow> error + pyarr" where
  "Point_impedance1D_evalDeriv self0 src mesh f v adjoint =
     (let self = rebind self0 src mesh f in
      if adjoint then
        (case Point_impedance1D_eval self src mesh f True of
           Inl e \<Rightarrow> Inl e
         | Inr r \<Rightarrow>
             (let Z1d = cvec_of r;
                  aZ_N_uV = (\<lambda>x. vneg (aex_u_1D self x));
                  aZ_D_uV = (\<lambda>x. ahx_u_1D self x);
                  rx_deriv = vsub (aZ_N_uV (spmv (spT (Hd_1D self)) v))
                                  (aZ_D_uV (spmv (spmm (spT (sdiag Z1d)) (spT (Hd_1D self))) v))
              in if component self = ''imag'' then Inr (CplxArr (smul \<i> rx_deriv))
                 else if component self = ''real'' then Inr (CplxArr rx_deriv)
                 else Inl (UnboundLocalError ''rx_deriv_component'')))
      else
        (case Point_impedance1D_eval self src mesh f True of
           Inl e \<Rightarrow> Inl e
         | Inr r \<Rightarrow>
             (let Z1d = cvec_of r;
                  Z_N_uV = vneg (ex_u_1D self v);
                  Z_D_uV = hx_u_1D self v;
                  rx_deriv = spmv (Hd_1D self) (vsub Z_N_uV (spmv (sdiag Z1d) Z_D_uV))
              in getattr_component rx_deriv (component self))))"

subsection \<open>\<open>Point_impedance3D\<close>\<close>

text \<open>The branches on the orientation; a branch that is not taken leaves its variables unassigned.\<close>

definition Point_impedance3D_Zij :: "'s rx \<Rightarrow> error + complex list" where
  "Point_impedance3D_Zij self =
     (if py_in ''xx'' (orientation self) then
       Inr (vsub (vmul (ex_px self) (hy_py self))
                        (vmul (ex_py self) (hy_px self)))
     else if py_in ''xy'' (orientation self) then
       Inr (vadd (vmul (vneg (ex_px self)) (hx_py self))
                        (vmul (ex_py self) (hx_px self)))
     else if py_in ''yx'' (orientation self) then
       Inr (vsub (vmul (ey_px self) (hy_py self))
                        (vmul (ey_py self) (hy_px self)))
     else if py_in ''yy'' (orientation self) then
       Inr (vadd (vmul (vneg (ey_px self)) (hx_py self))
                        (vmul (ey_py self) (hx_px self)))
     else Inl (UnboundLocalError ''Zij''))"

definition Point_impedance3D_adjoint_branch ::
  "'s rx \<Rightarrow> error + complex spmat \<times> (complex list \<Rightarrow> complex list)" where
  "Point_impedance3D_adjoint_branch self =
     (if py_in ''xx'' (orientation self) then
       Inr (sdiag (spmv (aHd self)
                    (vsub (spmv (sdiag (ahy_py self)) (aex_px self))
                        (spmv (sdiag (ahy_px self)) (aex_py self)))),
             \<lambda>x. vsub (vsub (vadd (aex_px_u self (spmv (sdiag (ahy_py self)) x))
                        (ahy_py_u self (spmv (sdiag (aex_px self)) x)))
                        (ahy_px_u self (spmv (sdiag (aex_py self)) x)))
                        (aex_py_u self (spmv (sdiag (ahy_px self)) x)))
     else if py_in ''xy'' (orientation self) then
       Inr (sdiag (spmv (aHd self)
                    (vadd (spmv (spneg (sdiag (ahx_py self))) (aex_px self))
                        (spmv (sdiag (ahx_px self)) (aex_py self)))),
             \<lambda>x. vadd (vadd (vsub (vneg (aex_px_u self (spmv (sdiag (ahx_py self)) x)))
                        (ahx_py_u self (spmv (sdiag (aex_px self)) x)))
                        (ahx_px_u self (spmv (sdiag (aex_py self)) x)))
                        (aex_py_u self (spmv (sdiag (ahx_px self)) x)))
     else if py_in ''yx'' (orientation self) then
       Inr (sdiag (spmv (aHd self)
                    (vsub (spmv (sdiag (ahy_py self)) (aey_px self))
                        (spmv (sdiag (ahy_px self)) (aey_py self)))),
             \<lambda>x. vsub (vsub (vadd (aey_px_u self (spmv (sdiag (ahy_py self)) x))
                        (ahy_py_u self (spmv (sdiag (aey_px self)) x)))
                        (ahy_px_u self (spmv (sdiag (aey_py self)) x)))
                        (aey_py_u self (spmv (sdiag (ahy_px self)) x)))
     else if py_in ''yy'' (orientation self) then
       Inr (sdiag (spmv (aHd self)
                    (vadd (spmv (spneg (sdiag (ahx_py self))) (aey_px self))
                        (spmv (sdiag (ahx_px self)) (aey_py self)))),
             \<lambda>x. vadd (vadd (vsub (vneg (aey_px_u self (spmv (sdiag (ahx_py self)) x)))
                        (ahx_py_u self (spmv (sdiag (aey_px self)) x)))
                        (ahx_px_u self (spmv (sdiag (aey_py self)) x)))
                        (aey_py_u self (spmv (sdiag (ahx_px self)) x)))
     else Inl (UnboundLocalError ''ZijN_uV''))"

definition Point_impedance3D_ZijN_uV :: "'s rx \<Rightarrow> complex list \<Rightarrow> error + complex list" where
  "Point_impedance3D_ZijN_uV self v =
     (if py_in ''xx'' (orientation self) then
       Inr (vsub (vsub (vadd (spmv (sdiag (hy_py self)) (ex_px_u self v))
                        (spmv (sdiag (ex_px self)) (hy_py_u self v)))
                        (spmv (sdiag (ex_py self)) (hy_px_u self v)))
                        (spmv (sdiag (hy_px self)) (ex_py_u self v)))
     else if py_in ''xy'' (orientation self) then
       Inr (vadd (vadd (vsub (spmv (spneg (sdiag (hx_py self))) (ex_px_u self v))
                        (spmv (sdiag (ex_px self)) (hx_py_u self v)))
                        (spmv (sdiag (ex_py self)) (hx_px_u self v)))
                        (spmv (sdiag (hx_px self)) (ex_py_u self v)))
     else if py_in ''yx'' (orientation self) then
       Inr (vsub (vsub (vadd (spmv (sdiag (hy_py self)) (ey_px_u self v))
                        (spmv (sdiag (ey_px self)) (hy_py_u self v)))
                        (spmv (sdiag (ey_py self)) (hy_px_u self v)))
                        (spmv (sdiag (hy_px self)) (ey_py_u self v)))
     else if py_in ''yy'' (orientation self) then
       Inr (vadd (vadd (vsub (spmv (spneg (sdiag (hx_py self))) (ey_px_u self v))
                        (spmv (sdiag (ey_px self)) (hx_py_u self v)))
                        (spmv (sdiag (ey_py self)) (hx_px_u self v)))
                        (spmv (sdiag (hx_px self)) (ey_py_u self v)))
     else Inl (UnboundLocalError ''ZijN_uV''))"

definition Point_impedance3D_eval ::
  "'s rx \<Rightarrow> 's \<Rightarrow> rxmesh \<Rightarrow> 's fields \<Rightarrow> bool \<Rightarrow> error + pyarr" where
  "Point_impedance3D_eval self0 src mesh f return_complex =
     (let self = rebind self0 src mesh f in
        (case Point_impedance3D_Zij self of
           Inl e \<Rightarrow> Inl e
         | Inr Zij \<Rightarrow>
             (let rx_eval_complex = spmv (Hd self) Zij
              in if return_complex then Inr (CplxArr rx_eval_complex)
                 else getattr_component rx_eval_complex (component self))))"

definition Point_impedance3D_evalDeriv ::
  "'s rx \<Rightarrow> 's \<Rightarrow> rxmesh \<Rightarrow> 's fields \<Rightarrow> complex list \<Rightarrow> bool \<Rightarrow> error + pyarr" where
  "Point_impedance3D_evalDeriv self0 src mesh f v adjoint =
     (let self = rebind self0 src mesh f in
      if adjoint then
        (case Point_impedance3D_adjoint_branch self of
           Inl e \<Rightarrow> Inl e
         | Inr (Zij, ZijN_uV) \<Rightarrow>
             (let rx_deriv_real =
                    vsub (ZijN_uV (spmv (aHd self) v))
                         (aHd_uV self (spmv (spmm (spT Zij) (aHd self)) v))
              in case reshape2T (mesh_nE (rx_mesh self)) rx_deriv_real of
                   Inl e \<Rightarrow> Inl e
                 | Inr rx_deriv_real \<Rightarrow>
                     if component self = ''imag''
                     then Inr (CplxMat (map (map (\<lambda>z. \<i> * z)) rx_deriv_real))
                     else if component self = ''real'' then Inr (CplxMat rx_deriv_real)
                     else Inl (UnboundLocalError ''rx_deriv_component'')))
      else
        (let ZijN_uV = Point_impedance3D_ZijN_uV self v
         in case Point_impedance3D_eval self src mesh f True of
              Inl e \<Rightarrow> Inl e
            | Inr r \<Rightarrow>
                (case ZijN_uV of
                   Inl e \<Rightarrow> Inl e
                 | Inr ZijN_uV \<Rightarrow>
                     (let Zij = cvec_of r;
                          rx_deriv_real =
                            spmv (Hd self) (vsub ZijN_uV (spmv (sdiag Zij) (Hd_uV self v)))
                      in getattr_component rx_deriv_real (component self)))))"

subsection \<open>\<open>Point_tipper3D\<close>\<close>

text \<open>The branches on the orientation; a branch that is not taken leaves its variables unassigned.\<close>

definition Point_tipper3D_Tij :: "'s rx \<Rightarrow> error + complex list" where
  "Point_tipper3D_Tij self =
     (let Tij = (if py_in ''zx'' (orientation self) then
                   Inr (vadd (vmul (vneg (hy_px self)) (hz_py self))
                                (vmul (hy_py self) (hz_px self)))
                 else Inl (UnboundLocalError ''Tij''))
      in if py_in ''zy'' (orientation self) then
           Inr (vsub (vmul (hx_px self) (hz_py self))
                        (vmul (hx_py self) (hz_px self)))
         else Tij)"

definition Point_tipper3D_adjoint_branch ::
  "'s rx \<Rightarrow> error + complex spmat \<times> (complex list \<Rightarrow> complex list)" where
  "Point_tipper3D_adjoint_branch self =
     (if py_in ''zx'' (orientation self) then
       Inr (sdiag (spmv (aHd self)
                    (vadd (spmv (spneg (sdiag (ahz_py self))) (ahy_px self))
                        (spmv (sdiag (ahz_px self)) (ahy_py self)))),
             \<lambda>x. vadd (vadd (vsub (vneg (ahz_py_u self (spmv (sdiag (ahy_px self)) x)))
                        (ahy_px_u self (spmv (sdiag (ahz_py self)) x)))
                        (ahy_py_u self (spmv (sdiag (ahz_px self)) x)))
                        (ahz_px_u self (spmv (sdiag (ahy_py self)) x)))
     else if py_in ''zy'' (orientation self) then
       Inr (sdiag (spmv (aHd self)
                    (vsub (spmv (sdiag (ahz_py self)) (ahx_px self))
                        (spmv (sdiag (ahz_px self)) (ahx_py self)))),
             \<lambda>x. vsub (vsub (vadd (ahx_px_u self (spmv (sdiag (ahz_py self)) x))
                        (ahz_py_u self (spmv (sdiag (ahx_px self)) x)))
                        (ahx_py_u self (spmv (sdiag (ahz_px self)) x)))
                        (ahz_px_u self (spmv (sdiag (ahx_py self)) x)))
     else Inl (UnboundLocalError ''TijN_uV''))"

definition Point_tipper3D_TijN_uV :: "'s rx \<Rightarrow> complex list \<Rightarrow> error + complex list" where
  "Point_tipper3D_TijN_uV self v =
     (if py_in ''zx'' (orientation self) then
       Inr (vadd (vadd (vsub (spmv (spneg (sdiag (hy_px self))) (hz_py_u self v))
                        (spmv (sdiag (hz_py self)) (hy_px_u self v)))
                        (spmv (sdiag (hy_py self)) (hz_px_u self v)))
                        (spmv (sdiag (hz_px self)) (hy_py_u self v)))
     else if py_in ''zy'' (orientation self) then
       Inr (vsub (vsub (vadd (spmv (sdiag (hz_py self)) (hx_px_u self v))
                        (spmv (sdiag (hx_px self)) (hz_py_u self v)))
                        (spmv (sdiag (hx_py self)) (hz_px_u self v)))
                        (spmv (sdiag (hz_px self)) (hx_py_u self v)))
     else Inl (UnboundLocalError ''TijN_uV''))"

definition Point_tipper3D_eval ::
  "'s rx \<Rightarrow> 's \<Rightarrow> rxmesh \<Rightarrow> 's fields \<Rightarrow> bool \<Rightarrow> error + pyarr" where
  "Point_tipper3D_eval self0 src mesh f return_complex =
     (let self = rebind self0 src mesh f in
        (case Point_tipper3D_Tij self of
           Inl e \<Rightarrow> Inl e
         | Inr Tij \<Rightarrow>
             (let rx_eval_complex = spmv (Hd self) Tij
              in if return_complex then Inr (CplxArr rx_eval_complex)
                 else getattr_component rx_eval_complex (component self))))"

definition Point_tipper3D_evalDeriv ::
  "'s rx \<Rightarrow> 's \<Rightarrow> rxmesh \<Rightarrow> 's fields \<Rightarrow> complex list \<Rightarrow> bool \<Rightarrow> error + pyarr" where
  "Point_tipper3D_evalDeriv self0 src mesh f v adjoint =
     (let self = rebind self0 src mesh f in
      if adjoint then
        (case Point_tipper3D_adjoint_branch self of
           Inl e \<Rightarrow> Inl e
         | Inr (Tij, TijN_uV) \<Rightarrow>
             (let rx_deriv_real =
                    vsub (TijN_uV (spmv (aHd self) v))
                         (aHd_uV self (spmv (spmm (spT Tij) (aHd self)) v))
              in case reshape2T (mesh_nE (rx_mesh self)) rx_deriv_real of
                   Inl e \<Rightarrow> Inl e
                 | Inr rx_deriv_real \<Rightarrow>
                     if component self = ''imag''
                     then Inr (CplxMat (map (map (\<lambda>z. \<i> * z)) rx_deriv_real))
                     else if component self = ''real'' then Inr (CplxMat rx_deriv_real)
                     else Inl (UnboundLocalError ''rx_deriv_component'')))
      else
        (let TijN_uV = Point_tipper3D_TijN_uV self v
         in case Point_tipper3D_eval self src mesh f True of
              Inl e \<Rightarrow> Inl e
            | Inr r \<Rightarrow>
                (case TijN_uV of
                   Inl e \<Rightarrow> Inl e
                 | Inr TijN_uV \<Rightarrow>
                     (let Tij = cvec_of r;
                          rx_deriv_real =
                            spmv (Hd self) (vsub TijN_uV (spmv (sdiag Tij) (Hd_uV self v)))
                      in getattr_component rx_deriv_real (component self)))))"

subsection \<open>\<open>Point_horizontalmagvar3D\<close>: numerator-side magnetic fields\<close>

definition Pbx_num :: "'s rx \<Rightarrow> complex spmat" where
  "Pbx_num self =
     (case cPbx_num self of
        None \<Rightarrow> getInterpolationMat (rx_mesh self) (loc_numerator self) ''Fx''
      | Some P \<Rightarrow> P)"

definition Pby_num :: "'s rx \<Rightarrow> complex spmat" where
  "Pby_num self =
     (case cPby_num self of
        None \<Rightarrow> getInterpolationMat (rx_mesh self) (loc_numerator self) ''Fy''
      | Some P \<Rightarrow> P)"

definition hx_num_px :: "'s rx \<Rightarrow> complex list" where
  "hx_num_px self = vdivs (spmv (Pbx_num self) (f_get self ''b_px'')) mu_0"

definition hy_num_px :: "'s rx \<Rightarrow> complex list" where
  "hy_num_px self = vdivs (spmv (Pby_num self) (f_get self ''b_px'')) mu_0"

definition hx_num_py :: "'s rx \<Rightarrow> complex list" where
  "hx_num_py self = vdivs (spmv (Pbx_num self) (f_get self ''b_py'')) mu_0"

definition hy_num_py :: "'s rx \<Rightarrow> complex list" where
  "hy_num_py self = vdivs (spmv (Pby_num self) (f_get self ''b_py'')) mu_0"

definition hx_num_px_u :: "'s rx \<Rightarrow> complex list \<Rightarrow> complex list" where
  "hx_num_px_u self vec = vdivs (spmv (Pbx_num self) (b_pxDeriv_u (rx_f self) (rx_src self) vec False)) mu_0"

definition hy_num_px_u :: "'s rx \<Rightarrow> complex list \<Rightarrow> complex list" where
  "hy_num_px_u self vec = vdivs (spmv (Pby_num self) (b_pxDeriv_u (rx_f self) (rx_src self) vec False)) mu_0"

definition hx_num_py_u :: "'s rx \<Rightarrow> complex list \<Rightarrow> complex list" where
  "hx_num_py_u self vec = vdivs (spmv (Pbx_num self) (b_pyDeriv_u (rx_f self) (rx_src self) vec False)) mu_0"

definition hy_num_py_u :: "'s rx \<Rightarrow> complex list \<Rightarrow> complex list" where
  "hy_num_py_u self vec = vdivs (spmv (Pby_num self) (b_pyDeriv_u (rx_f self) (rx_src self) vec False)) mu_0"

definition ahx_num_px :: "'s rx \<Rightarrow> complex list" where
  "ahx_num_px self = vecmat (vdivs (f_get self ''b_px'') mu_0) (spT (Pbx_num self))"

definition ahy_num_px :: "'s rx \<Rightarrow> complex list" where
  "ahy_num_px self = vecmat (vdivs (f_get self ''b_px'') mu_0) (spT (Pby_num self))"

definition ahx_num_py :: "'s rx \<Rightarrow> complex list" where
  "ahx_num_py self = vecmat (vdivs (f_get self ''b_py'') mu_0) (spT (Pbx_num self))"

definition ahy_num_py :: "'s rx \<Rightarrow> complex list" where
  "ahy_num_py self = vecmat (vdivs (f_get self ''b_py'') mu_0) (spT (Pby_num self))"

definition ahx_num_px_u :: "'s rx \<Rightarrow> complex list \<Rightarrow> complex list" where
  "ahx_num_px_u self vec =
     vdivs (b_pxDeriv_u (rx_f self) (rx_src self) (spmv (spT (Pbx_num self)) vec) True) mu_0"

definition ahy_num_px_u :: "'s rx \<Rightarrow> complex list \<Rightarrow> complex list" where
  "ahy_num_px_u self vec =
     vdivs (b_pxDeriv_u (rx_f self) (rx_src self) (spmv (spT (Pby_num self)) vec) True) mu_0"

definition ahx_num_py_u :: "'s rx \<Rightarrow> complex list \<Rightarrow> complex list" where
  "ahx_num_py_u self vec =
     vdivs (b_pyDeriv_u (rx_f self) (rx_src self) (spmv (spT (Pbx_num self)) vec) True) mu_0"

definition ahy_num_py_u :: "'s rx \<Rightarrow> complex list \<Rightarrow> complex list" where
  "ahy_num_py_u self vec =
     vdivs (b_pyDeriv_u (rx_f self) (rx_src self) (spmv (spT (Pby_num self)) vec) True) mu_0"

text \<open>
  \<open>self._sDiag(t)\<close> is \<open>sdiag(mkvc(t, 2))\<close>; the class overrides \<open>_Hd\<close>, \<open>_Hd_uV\<close>,
  \<open>_aHd\<close> and \<open>_aHd_uV\<close> of the base class with it.
\<close>

definition sDiag :: "complex list \<Rightarrow> complex spmat" where
  "sDiag t = sdiag t"

definition Hd_hmv :: "'s rx \<Rightarrow> complex spmat" where
  "Hd_hmv self =
     sDiag (recip (vsub (spmv (sDiag (hx_px self)) (hy_py self))
                        (spmv (sDiag (hx_py self)) (hy_px self))))"

definition Hd_uV_hmv :: "'s rx \<Rightarrow> complex list \<Rightarrow> complex list" where
  "Hd_uV_hmv self v =
     vsub (vsub (vadd (spmv (sDiag (hy_py self)) (hx_px_u self v))
                      (spmv (sDiag (hx_px self)) (hy_py_u self v)))
                (spmv (sDiag (hx_py self)) (hy_px_u self v)))
          (spmv (sDiag (hy_px self)) (hx_py_u self v))"

definition aHd_hmv :: "'s rx \<Rightarrow> complex spmat" where
  "aHd_hmv self =
     sDiag (recip (vsub (spmv (sDiag (ahx_px self)) (ahy_py self))
                        (spmv (sDiag (ahx_py self)) (ahy_px self))))"

definition aHd_uV_hmv :: "'s rx \<Rightarrow> complex list \<Rightarrow> complex list" where
  "aHd_uV_hmv self x =
     vsub (vsub (vadd (ahx_px_u self (spmv (sDiag (ahy_py self)) x))
                      (ahx_px_u self (spmv (sDiag (ahy_py self)) x)))
                (ahy_px_u self (spmv (sDiag (ahx_py self)) x)))
          (ahx_py_u self (spmv (sDiag (ahy_px self)) x))"

subsection \<open>\<open>Point_horizontalmagvar3D: evaluation\<close>\<close>

text \<open>The branches on the orientation; a branch that is not taken leaves its variables unassigned.\<close>

definition Point_horizontalmagvar3D_Mij :: "'s rx \<Rightarrow> error + complex list \<times> complex" where
  "Point_horizontalmagvar3D_Mij self =
     (if py_in ''xx'' (orientation self) then
       Inr (vsub (vmul (hx_num_px self) (hy_py self))
                        (vmul (hx_num_py self) (hy_px self)),
             1)
     else if py_in ''xy'' (orientation self) then
       Inr (vadd (vmul (vneg (hx_num_px self)) (hx_py self))
                        (vmul (hx_num_py self) (hx_px self)),
             0)
     else if py_in ''yx'' (orientation self) then
       Inr (vsub (vmul (hy_num_px self) (hy_py self))
                        (vmul (hy_num_py self) (hy_px self)),
             0)
     else if py_in ''yy'' (orientation self) then
       Inr (vadd (vmul (vneg (hy_num_px self)) (hx_py self))
                        (vmul (hy_num_py self) (hx_px self)),
             1)
     else Inl (UnboundLocalError ''Mij''))"

definition Point_horizontalmagvar3D_adjoint_branch ::
  "'s rx \<Rightarrow> error + complex spmat \<times> (complex list \<Rightarrow> complex list)" where
  "Point_horizontalmagvar3D_adjoint_branch self =
     (if py_in ''xx'' (orientation self) then
       Inr (sDiag (spmv (aHd_hmv self)
                    (vsub (spmv (sDiag (ahy_py self)) (ahx_num_px self))
                        (spmv (sDiag (ahy_px self)) (ahx_num_py self)))),
             \<lambda>x. vsub (vsub (vadd (ahx_num_px_u self (spmv (sDiag (ahy_py self)) x))
                        (ahy_py_u self (spmv (sDiag (ahx_num_px self)) x)))
                        (ahy_px_u self (spmv (sDiag (ahx_num_py self)) x)))
                        (ahx_num_py_u self (spmv (sDiag (ahy_px self)) x)))
     else if py_in ''xy'' (orientation self) then
       Inr (sDiag (spmv (aHd_hmv self)
                    (vadd (spmv (spneg (sDiag (ahx_py self))) (ahx_num_px self))
                        (spmv (sDiag (ahx_px self)) (ahx_num_py self)))),
             \<lambda>x. vadd (vadd (vsub (vneg (ahx_num_px_u self (spmv (sDiag (ahx_py self)) x)))
                        (ahx_py_u self (spmv (sDiag (ahx_num_px self)) x)))
                        (ahx_px_u self (spmv (sDiag (ahx_num_py self)) x)))
                        (ahx_num_py_u self (spmv (sDiag (ahx_px self)) x)))
     else if py_in ''yx'' (orientation self) then
       Inr (sDiag (spmv (aHd_hmv self)
                    (vsub (spmv (sDiag (ahy_py self)) (ahy_num_px self))
                        (spmv (sDiag (ahy_px self)) (ahy_num_py self)))),
             \<lambda>x. vsub (vsub (vadd (ahy_num_px_u self (spmv (sDiag (ahy_py self)) x))
                        (ahy_py_u self (spmv (sDiag (ahy_num_px self)) x)))
                        (ahy_px_u self (spmv (sDiag (ahy_num_py self)) x)))
                        (ahy_num_py_u self (spmv (sDiag (ahy_px self)) x)))
     else if py_in ''yy'' (orientation self) then
       Inr (sDiag (spmv (aHd_hmv self)
                    (vadd (spmv (spneg (sDiag (ahx_py self))) (ahy_num_px self))
                        (spmv (sDiag (ahx_px self)) (ahy_num_py self)))),
             \<lambda>x. vadd (vadd (vsub (vneg (ahy_num_px_u self (spmv (sDiag (ahx_py self)) x)))
                        (ahx_py_u self (spmv (sDiag (ahy_num_px self)) x)))
                        (ahx_px_u self (spmv (sDiag (ahy_num_py self)) x)))
                        (ahy_num_py_u self (spmv (sDiag (ahx_px self)) x)))
     else Inl (UnboundLocalError ''MijN_uV''))"

definition Point_horizontalmagvar3D_MijN_uV :: "'s rx \<Rightarrow> complex list \<Rightarrow> error + complex list \<times> complex" where
  "Point_horizontalmagvar3D_MijN_uV self v =
     (if py_in ''xx'' (orientation self) then
       Inr (vsub (vsub (vadd (spmv (sDiag (hy_py self)) (hx_num_px_u self v))
                        (spmv (sDiag (hx_num_px self)) (hy_py_u self v)))
                        (spmv (sDiag (hx_num_py self)) (hy_px_u self v)))
                        (spmv (sDiag (hy_px self)) (hx_num_py_u self v)),
             1)
     else if py_in ''xy'' (orientation self) then
       Inr (vadd (vadd (vsub (spmv (spneg (sDiag (hx_py self))) (hx_num_px_u self v))
                        (spmv (sDiag (hx_num_px self)) (hx_py_u self v)))
                        (spmv (sDiag (hx_num_py self)) (hx_px_u self v)))
                        (spmv (sDiag (hx_px self)) (hx_num_py_u self v)),
             0)
     else if py_in ''yx'' (orientation self) then
       Inr (vsub (vsub (vadd (spmv (sDiag (hy_py self)) (hy_num_px_u self v))
                        (spmv (sDiag (hy_num_px self)) (hy_py_u self v)))
                        (spmv (sDiag (hy_num_py self)) (hy_px_u self v)))
                        (spmv (sDiag (hy_px self)) (hy_num_py_u self v)),
             0)
     else if py_in ''yy'' (orientation self) then
       Inr (vadd (vadd (vsub (spmv (spneg (sDiag (hx_py self))) (hy_num_px_u self v))
                        (spmv (sDiag (hy_num_px self)) (hx_py_u self v)))
                        (spmv (sDiag (hy_num_py self)) (hx_px_u self v)))
                        (spmv (sDiag (hx_px self)) (hy_num_py_u self v)),
             1)
     else Inl (UnboundLocalError ''MijN_uV''))"

definition Point_horizontalmagvar3D_eval ::
  "'s rx \<Rightarrow> 's \<Rightarrow> rxmesh \<Rightarrow> 's fields \<Rightarrow> bool \<Rightarrow> error + pyarr" where
  "Point_horizontalmagvar3D_eval self0 src mesh f return_complex =
     (let self = rebind self0 src mesh f in
        (case Point_horizontalmagvar3D_Mij self of
           Inl e \<Rightarrow> Inl e
         | Inr (Mij, schmucker_corr) \<Rightarrow>
             (let rx_eval_complex = map (\<lambda>z. z - schmucker_corr) (spmv (Hd_hmv self) Mij)
              in if return_complex then Inr (CplxArr rx_eval_complex)
                 else getattr_component rx_eval_complex (component self))))"

definition Point_horizontalmagvar3D_evalDeriv ::
  "'s rx \<Rightarrow> 's \<Rightarrow> rxmesh \<Rightarrow> 's fields \<Rightarrow> complex list \<Rightarrow> bool \<Rightarrow> error + pyarr" where
  "Point_horizontalmagvar3D_evalDeriv self0 src mesh f v adjoint =
     (let self = rebind self0 src mesh f in
      if adjoint then
        (case Point_horizontalmagvar3D_adjoint_branch self of
           Inl e \<Rightarrow> Inl e
         | Inr (Mij, MijN_uV) \<Rightarrow>
             (let rx_deriv_real =
                    vsub (MijN_uV (spmv (aHd_hmv self) v))
                         (aHd_uV_hmv self (spmv (spmm (spT Mij) (aHd_hmv self)) v))
              in case reshape2T (mesh_nE (rx_mesh self)) rx_deriv_real of
                   Inl e \<Rightarrow> Inl e
                 | Inr rx_deriv_real \<Rightarrow>
                     if component self = ''imag''
                     then Inr (CplxMat (map (map (\<lambda>z. \<i> * z)) rx_deriv_real))
                     else if component self = ''real'' then Inr (CplxMat rx_deriv_real)
                     else Inl (UnboundLocalError ''rx_deriv_component'')))
      else
        (let MijN_uV = Point_horizontalmagvar3D_MijN_uV self v
         in case Point_horizontalmagvar3D_eval self src mesh f True of
              Inl e \<Rightarrow> Inl e
            | Inr r \<Rightarrow>
                (case MijN_uV of
                   Inl e \<Rightarrow> Inl e
                 | Inr (MijN_uV, schmucker_corr) \<Rightarrow>
                     (let Mij = map (\<lambda>z. z + schmucker_corr) (cvec_of r);
                          rx_deriv_real =
                            spmv (Hd_hmv self) (vsub MijN_uV (spmv (sDiag Mij) (Hd_uV_hmv self v)))
                      in getattr_component rx_deriv_real (component self)))))"

subsection \<open>Notions of the specification of the receivers\<close>

text \<open>\<open>dot(u, v)\<close> of two 1D arrays, without conjugation.\<close>

definition dot :: "complex list \<Rightarrow> complex list \<Rightarrow> complex" where
  "dot u v = (\<Sum>i<length u. u ! i * v ! i)"

text \<open>
  The interpolated components of the two polarized fields by name, and their directional
  derivatives; the last four are sampled at the numerator location.
\<close>

datatype fcomp =
    Ex_px | Ey_px | Ex_py | Ey_py
  | Hx_px | Hy_px | Hz_px | Hx_py | Hy_py | Hz_py
  | Hx_num_px | Hy_num_px | Hx_num_py | Hy_num_py

fun interp :: "'s rx \<Rightarrow> fcomp \<Rightarrow> complex list" where
  "interp self Ex_px = ex_px self"
| "interp self Ey_px = ey_px self"
| "interp self Ex_py = ex_py self"
| "interp self Ey_py = ey_py self"
| "interp self Hx_px = hx_px self"
| "interp self Hy_px = hy_px self"
| "interp self Hz_px = hz_px self"
| "interp self Hx_py = hx_py self"
| "interp self Hy_py = hy_py self"
| "interp self Hz_py = hz_py self"
| "interp self Hx_num_px = hx_num_px self"
| "interp self Hy_num_px = hy_num_px self"
| "interp self Hx_num_py = hx_num_py self"
| "interp self Hy_num_py = hy_num_py self"

fun interp_u :: "'s rx \<Rightarrow> fcomp \<Rightarrow> complex list \<Rightarrow> complex list" where
  "interp_u self Ex_px v = ex_px_u self v"
| "interp_u self Ey_px v = ey_px_u self v"
| "interp_u self Ex_py v = ex_py_u self v"
| "interp_u self Ey_py v = ey_py_u self v"
| "interp_u self Hx_px v = hx_px_u self v"
| "interp_u self Hy_px v = hy_px_u self v"
| "interp_u self Hz_px v = hz_px_u self v"
| "interp_u self Hx_py v = hx_py_u self v"
| "interp_u self Hy_py v = hy_py_u self v"
| "interp_u self Hz_py v = hz_py_u self v"
| "interp_u self Hx_num_px v = hx_num_px_u self v"
| "interp_u self Hy_num_px v = hy_num_px_u self v"
| "interp_u self Hx_num_py v = hx_num_py_u self v"
| "interp_u self Hy_num_py v = hy_num_py_u self v"

text \<open>
  A signed combination of cross terms: a list of signed products of two components. Its
  value at receiver \<open>d\<close>, and its directional derivative there by the product rule.
\<close>

type_synonym cross_terms = "(complex \<times> fcomp \<times> fcomp) list"

definition comb :: "'s rx \<Rightarrow> cross_terms \<Rightarrow> nat \<Rightarrow> complex" where
  "comb self ts d = (\<Sum>(s, a, b)\<leftarrow>ts. s * (interp self a ! d * interp self b ! d))"

definition comb_u :: "'s rx \<Rightarrow> cross_terms \<Rightarrow> complex list \<Rightarrow> nat \<Rightarrow> complex" where
  "comb_u self ts v d =
     (\<Sum>(s, a, b)\<leftarrow>ts. s * (interp_u self a v ! d * interp self b ! d
                          + interp self a ! d * interp_u self b v ! d))"

text \<open>The determinant \<open>hx_px hy_py - hx_py hy_px\<close> and the tables of the three 3D variants.\<close>

definition det_terms :: cross_terms where
  "det_terms = [(1, Hx_px, Hy_py), (-1, Hx_py, Hy_px)]"

definition impedance_terms :: "string \<Rightarrow> cross_terms" where
  "impedance_terms ori =
     (if ori = ''xx'' then [(1, Ex_px, Hy_py), (-1, Ex_py, Hy_px)]
      else if ori = ''xy'' then [(-1, Ex_px, Hx_py), (1, Ex_py, Hx_px)]
      else if ori = ''yx'' then [(1, Ey_px, Hy_py), (-1, Ey_py, Hy_px)]
      else if ori = ''yy'' then [(-1, Ey_px, Hx_py), (1, Ey_py, Hx_px)]
      else [])"

definition tipper_terms :: "string \<Rightarrow> cross_terms" where
  "tipper_terms ori =
     (if ori = ''zx'' then [(-1, Hy_px, Hz_py), (1, Hy_py, Hz_px)]
      else if ori = ''zy'' then [(1, Hx_px, Hz_py), (-1, Hx_py, Hz_px)]
      else [])"

definition horizontalmagvar_terms :: "string \<Rightarrow> cross_terms" where
  "horizontalmagvar_terms ori =
     (if ori = ''xx'' then [(1, Hx_num_px, Hy_py), (-1, Hx_num_py, Hy_px)]
      else if ori = ''xy'' then [(-1, Hx_num_px, Hx_py), (1, Hx_num_py, Hx_px)]
      else if ori = ''yx'' then [(1, Hy_num_px, Hy_py), (-1, Hy_num_py, Hy_px)]
      else if ori = ''yy'' then [(-1, Hy_num_px, Hx_py), (1, Hy_num_py, Hx_px)]
      else [])"

text \<open>The Schmucker correction: 1 on the diagonal orientations, 0 off the diagonal.\<close>

definition schmucker :: "string \<Rightarrow> complex" where
  "schmucker ori = (if ori = ''xx'' \<or> ori = ''yy'' then 1 else 0)"

text \<open>
  The ratio \<open>Hd * N\<close> of a numerator table at receiver \<open>d\<close>, and the quotient rule
  \<open>Hd * (N' - ratio * D')\<close> for its directional derivative.
\<close>

definition ratio :: "'s rx \<Rightarrow> cross_terms \<Rightarrow> nat \<Rightarrow> complex" where
  "ratio self ts d = 1 / comb self det_terms d * comb self ts d"

definition ratio_u :: "'s rx \<Rightarrow> cross_terms \<Rightarrow> complex list \<Rightarrow> nat \<Rightarrow> complex" where
  "ratio_u self ts v d =
     1 / comb self det_terms d
       * (comb_u self ts v d - ratio self ts d * comb_u self det_terms v d)"

text \<open>The same for the 1D impedance \<open>Z = -Hd * ex\<close> with \<open>Hd = 1 / hx\<close>.\<close>

definition ratio_1D :: "'s rx \<Rightarrow> nat \<Rightarrow> complex" where
  "ratio_1D self d = 1 / hx_1D self ! d * (- ex_1D self ! d)"

definition ratio_u_1D :: "'s rx \<Rightarrow> complex list \<Rightarrow> nat \<Rightarrow> complex" where
  "ratio_u_1D self v d =
     1 / hx_1D self ! d * (- ex_u_1D self v ! d - ratio_1D self d * hx_u_1D self v ! d)"

text \<open>The real or the imaginary part, as the component selects.\<close>

definition part :: "string \<Rightarrow> complex \<Rightarrow> real" where
  "part c z = (if c = ''real'' then Re z else Im z)"

text \<open>
  The number of receivers, and the shape condition on the interpolation matrices: all have
  one row per receiver.
\<close>

definition nD :: "'s rx \<Rightarrow> nat" where
  "nD self = nrows (Pbx self)"

definition rows_agree :: "'s rx \<Rightarrow> bool" where
  "rows_agree self =
     (nrows (Pex self) = nD self \<and> nrows (Pey self) = nD self \<and> nrows (Pby self) = nD self
        \<and> nrows (Pbz self) = nD self \<and> nrows (Pbx_num self) = nD self
        \<and> nrows (Pby_num self) = nD self)"

definition nD_1D :: "'s rx \<Rightarrow> nat" where
  "nD_1D self = nrows (Pbx_1D self)"

definition rows_agree_1D :: "'s rx \<Rightarrow> bool" where
  "rows_agree_1D self = (nrows (Pex_1D self) = nD_1D self)"

text \<open>
  The adjoint versions of the components and of their derivatives by name, as the base
  class and the horizontal-magnetic-transfer class define them.
\<close>

fun ainterp :: "'s rx \<Rightarrow> fcomp \<Rightarrow> complex list" where
  "ainterp self Ex_px = aex_px self"
| "ainterp self Ey_px = aey_px self"
| "ainterp self Ex_py = aex_py self"
| "ainterp self Ey_py = aey_py self"
| "ainterp self Hx_px = ahx_px self"
| "ainterp self Hy_px = ahy_px self"
| "ainterp self Hz_px = ahz_px self"
| "ainterp self Hx_py = ahx_py self"
| "ainterp self Hy_py = ahy_py self"
| "ainterp self Hz_py = ahz_py self"
| "ainterp self Hx_num_px = ahx_num_px self"
| "ainterp self Hy_num_px = ahy_num_px self"
| "ainterp self Hx_num_py = ahx_num_py self"
| "ainterp self Hy_num_py = ahy_num_py self"

fun ainterp_u :: "'s rx \<Rightarrow> fcomp \<Rightarrow> complex list \<Rightarrow> complex list" where
  "ainterp_u self Ex_px y = aex_px_u self y"
| "ainterp_u self Ey_px y = aey_px_u self y"
| "ainterp_u self Ex_py y = aex_py_u self y"
| "ainterp_u self Ey_py y = aey_py_u self y"
| "ainterp_u self Hx_px y = ahx_px_u self y"
| "ainterp_u self Hy_px y = ahy_px_u self y"
| "ainterp_u self Hz_px y = ahz_px_u self y"
| "ainterp_u self Hx_py y = ahx_py_u self y"
| "ainterp_u self Hy_py y = ahy_py_u self y"
| "ainterp_u self Hz_py y = ahz_py_u self y"
| "ainterp_u self Hx_num_px y = ahx_num_px_u self y"
| "ainterp_u self Hy_num_px y = ahy_num_px_u self y"
| "ainterp_u self Hx_num_py y = ahx_num_py_u self y"
| "ainterp_u self Hy_num_py y = ahy_num_py_u self y"

text \<open>
  The hypothesis on a derivative operator of the fields object: from model space (size
  \<open>nU\<close>) to field space (size \<open>n\<close>) when \<open>adjoint\<close> is false, back when it is true, and the
  two are an exact forward/adjoint pair.
\<close>

definition adjoint_pair :: "(complex list \<Rightarrow> bool \<Rightarrow> complex list) \<Rightarrow> nat \<Rightarrow> nat \<Rightarrow> bool" where
  "adjoint_pair G nU n =
     (\<forall>x y. length x = nU \<and> length y = n
        \<longrightarrow> length (G x False) = n \<and> length (G y True) = nU
            \<and> dot y (G x False) = dot x (G y True))"

text \<open>
  The shapes of a 3D receiver's collaborators: one row per receiver in every interpolation
  matrix, one column per edge or per face, magnetic fields with one entry per face, and
  the four derivative operators exact pairs between model space and those spaces.
\<close>

definition shapes_3D :: "'s rx \<Rightarrow> nat \<Rightarrow> bool" where
  "shapes_3D self nU =
     (rows_agree self
      \<and> ncols (Pey self) = ncols (Pex self)
      \<and> ncols (Pby self) = ncols (Pbx self) \<and> ncols (Pbz self) = ncols (Pbx self)
      \<and> ncols (Pbx_num self) = ncols (Pbx self) \<and> ncols (Pby_num self) = ncols (Pbx self)
      \<and> length (f_get self ''b_px'') = ncols (Pbx self)
      \<and> length (f_get self ''b_py'') = ncols (Pbx self)
      \<and> adjoint_pair (e_pxDeriv_u (rx_f self) (rx_src self)) nU (ncols (Pex self))
      \<and> adjoint_pair (e_pyDeriv_u (rx_f self) (rx_src self)) nU (ncols (Pex self))
      \<and> adjoint_pair (b_pxDeriv_u (rx_f self) (rx_src self)) nU (ncols (Pbx self))
      \<and> adjoint_pair (b_pyDeriv_u (rx_f self) (rx_src self)) nU (ncols (Pbx self)))"

definition shapes_1D :: "'s rx \<Rightarrow> nat \<Rightarrow> bool" where
  "shapes_1D self nU =
     (rows_agree_1D self
      \<and> adjoint_pair (eDeriv_u (rx_f self) (rx_src self)) nU (ncols (Pex_1D self))
      \<and> adjoint_pair (bDeriv_u (rx_f self) (rx_src self)) nU (ncols (Pbx_1D self)))"

text \<open>\<open>1j * a\<close> for a returned array.\<close>

fun times_i :: "pyarr \<Rightarrow> pyarr" where
  "times_i (CplxArr z) = CplxArr (smul \<i> z)"
| "times_i (CplxMat M) = CplxMat (map (map (\<lambda>z. \<i> * z)) M)"
| "times_i (RealArr x) = CplxArr (smul \<i> (map complex_of_real x))"

text \<open>
  The \<open>(n, 2)\<close> array that separates the two polarizations of a flat model-space vector of
  size \<open>2 n\<close>, scaled by \<open>k\<close>: row \<open>i\<close> holds entry \<open>i\<close> of the first and of the second half.
\<close>

definition polarization_columns :: "nat \<Rightarrow> complex \<Rightarrow> complex list \<Rightarrow> complex list list" where
  "polarization_columns n k x = map (\<lambda>i. [k * x ! i, k * x ! (n + i)]) [0..<n]"

text \<open>
  The orientations the base class accepts (the choices of its \<open>orientation\<close> property),
  and the ones each 3D variant has a formula for.
\<close>

definition orientation_choices :: "string list" where
  "orientation_choices = [''xx'', ''xy'', ''yx'', ''yy'', ''zx'', ''zy'']"

definition tensor_orientations :: "string set" where
  "tensor_orientations = {''xx'', ''xy'', ''yx'', ''yy''}"

definition tipper_orientations :: "string set" where
  "tipper_orientations = {''zx'', ''zy''}"

text \<open>
  The vectors the adjoint mode feeds to the adjoint closures: the data vector \<open>u\<close> behind
  the determinant factor, \<open>Hd u\<close>, and behind the ratio of a table as well, \<open>R Hd u\<close>.
\<close>

definition over_det :: "'s rx \<Rightarrow> complex list \<Rightarrow> complex list" where
  "over_det self u = map (\<lambda>d. 1 / comb self det_terms d * u ! d) [0..<nD self]"

definition ratio_over_det :: "'s rx \<Rightarrow> cross_terms \<Rightarrow> complex list \<Rightarrow> complex list" where
  "ratio_over_det self ts u =
     map (\<lambda>d. ratio self ts d * (1 / comb self det_terms d * u ! d)) [0..<nD self]"

text \<open>
  The flat model-space vector of a 3D adjoint derivative, for a numerator closure \<open>aN\<close>:
  \<open>aN (Hd u) - _aHd_uV (R Hd u)\<close>; and the one of the 1D adjoint derivative,
  \<open>- _aex_u (u / hx) - _ahx_u (Z u / hx)\<close>.
\<close>

definition adjoint_flat ::
  "'s rx \<Rightarrow> cross_terms \<Rightarrow> (complex list \<Rightarrow> complex list) \<Rightarrow> complex list \<Rightarrow> complex list" where
  "adjoint_flat self ts aN u =
     vsub (aN (over_det self u)) (aHd_uV self (ratio_over_det self ts u))"

definition adjoint_flat_1D :: "'s rx \<Rightarrow> complex list \<Rightarrow> complex list" where
  "adjoint_flat_1D self u =
     vsub (vneg (aex_u_1D self (map (\<lambda>d. 1 / hx_1D self ! d * u ! d) [0..<nD_1D self])))
          (ahx_u_1D self
             (map (\<lambda>d. ratio_1D self d * (1 / hx_1D self ! d * u ! d)) [0..<nD_1D self]))"
subsection \<open>Small concrete collaborators\<close>

text \<open>
  One receiver on a mesh with one edge and two faces: \<open>Pex = [1]\<close>, \<open>Pey = [2]\<close>,
  \<open>Pbx = [1 0]\<close>, \<open>Pby = [0 1]\<close>, \<open>Pbz = [1 1]\<close>. The fields give \<open>ex_px = 1\<close>,
  \<open>ex_py = 0\<close>, \<open>hx_px = 0\<close>, \<open>hy_px = -1\<close>, \<open>hx_py = 1\<close>, \<open>hy_py = 0\<close>; model space has
  size 2, and the derivative operators are the matrices \<open>[1 0]\<close>, \<open>[0 1]\<close>, the identity and
  twice the identity with their transposes.
\<close>

definition ex_mesh :: rxmesh where
  "ex_mesh =
     \<lparr>getInterpolationMat = (\<lambda>loc kind.
          if kind = ''Ex'' then \<lparr>nrows = 1, ncols = 1, entry = (\<lambda>i j. 1)\<rparr>
          else if kind = ''Ey'' then \<lparr>nrows = 1, ncols = 1, entry = (\<lambda>i j. 2)\<rparr>
          else if kind = ''Fx'' then \<lparr>nrows = 1, ncols = 2, entry = (\<lambda>i j. if j = 0 then 1 else 0)\<rparr>
          else if kind = ''Fy'' then \<lparr>nrows = 1, ncols = 2, entry = (\<lambda>i j. if j = 1 then 1 else 0)\<rparr>
          else \<lparr>nrows = 1, ncols = 2, entry = (\<lambda>i j. 1)\<rparr>),
      mesh_nE = 1\<rparr>"

definition ex_fields :: "unit fields" where
  "ex_fields =
     \<lparr>getitem = (\<lambda>src name.
          if name = ''e_px'' then [1]
          else if name = ''e_py'' then [0]
          else if name = ''b_px'' then [0, - complex_of_real mu_0]
          else [complex_of_real mu_0, 0]),
      e_pxDeriv_u = (\<lambda>src v adjoint. if adjoint then [v ! 0, 0] else [v ! 0]),
      e_pyDeriv_u = (\<lambda>src v adjoint. if adjoint then [0, v ! 0] else [v ! 1]),
      b_pxDeriv_u = (\<lambda>src v adjoint. [v ! 0, v ! 1]),
      b_pyDeriv_u = (\<lambda>src v adjoint. [2 * v ! 0, 2 * v ! 1]),
      eDeriv_u = (\<lambda>src v adjoint. v),
      bDeriv_u = (\<lambda>src v adjoint. v)\<rparr>"

definition ex_rx :: "string \<Rightarrow> string \<Rightarrow> unit rx" where
  "ex_rx ori c =
     \<lparr>locs = Loc2 [[0, 0, 0]], orientation = ori, component = c,
      rx_mesh = ex_mesh, rx_src = (), rx_f = ex_fields,
      cPex = None, cPey = None, cPbx = None, cPby = None, cPbz = None,
      cPbx_num = None, cPby_num = None\<rparr>"

text \<open>
  One receiver of the 1D problem: both interpolation matrices are \<open>[1]\<close>, \<open>e_1d = [1]\<close>,
  \<open>b_1d = [mu_0]\<close>, model space has size 1, the derivative of \<open>e\<close> is the identity and
  the derivative of \<open>b\<close> is zero.
\<close>

definition ex1_mesh :: rxmesh where
  "ex1_mesh =
     \<lparr>getInterpolationMat = (\<lambda>loc kind. \<lparr>nrows = 1, ncols = 1, entry = (\<lambda>i j. 1)\<rparr>),
      mesh_nE = 1\<rparr>"

definition ex1_fields :: "unit fields" where
  "ex1_fields =
     \<lparr>getitem = (\<lambda>src name. if name = ''b_1d'' then [complex_of_real mu_0] else [1]),
      e_pxDeriv_u = (\<lambda>src v adjoint. v),
      e_pyDeriv_u = (\<lambda>src v adjoint. v),
      b_pxDeriv_u = (\<lambda>src v adjoint. v),
      b_pyDeriv_u = (\<lambda>src v adjoint. v),
      eDeriv_u = (\<lambda>src v adjoint. v),
      bDeriv_u = (\<lambda>src v adjoint. [0])\<rparr>"

definition ex1_rx :: "string \<Rightarrow> unit rx" where
  "ex1_rx c =
     \<lparr>locs = Loc2 [[0, 0, 0]], orientation = ''yx'', component = c,
      rx_mesh = ex1_mesh, rx_src = (), rx_f = ex1_fields,
      cPex = None, cPey = None, cPbx = None, cPby = None, cPbz = None,
      cPbx_num = None, cPby_num = None\<rparr>"

text \<open>
  The 3D receiver again with other fields: \<open>hx_px = 1\<close>, \<open>hy_px = 0\<close>, \<open>hx_py = 0\<close>,
  \<open>hy_py = 1\<close>.
\<close>

definition ex2_fields :: "unit fields" where
  "ex2_fields =
     \<lparr>getitem = (\<lambda>src name.
          if name = ''e_px'' then [1]
          else if name = ''e_py'' then [0]
          else if name = ''b_px'' then [complex_of_real mu_0, 0]
          else [0, complex_of_real mu_0]),
      e_pxDeriv_u = (\<lambda>src v adjoint. if adjoint then [v ! 0, 0] else [v ! 0]),
      e_pyDeriv_u = (\<lambda>src v adjoint. if adjoint then [0, v ! 0] else [v ! 1]),
      b_pxDeriv_u = (\<lambda>src v adjoint. [v ! 0, v ! 1]),
      b_pyDeriv_u = (\<lambda>src v adjoint. [2 * v ! 0, 2 * v ! 1]),
      eDeriv_u = (\<lambda>src v adjoint. v),
      bDeriv_u = (\<lambda>src v adjoint. v)\<rparr>"

definition ex2_rx :: "string \<Rightarrow> string \<Rightarrow> unit rx" where
  "ex2_rx ori c = (ex_rx ori c)\<lparr>rx_f := ex2_fields\<rparr>"

text \<open>
  One receiver on a mesh with two edges and two faces, so that model space has size 4:
  \<open>Pex = Pbx = [1 0]\<close>, \<open>Pey = Pby = [0 1]\<close>, \<open>Pbz = [1 1]\<close>. The fields give \<open>ex_px = 1\<close>,
  \<open>ex_py = 0\<close>, \<open>hx_px = 0\<close>, \<open>hy_px = -1\<close>, \<open>hx_py = 1\<close>, \<open>hy_py = 0\<close>. The derivative
  operators of the first polarization read the first half of a model-space vector and
  those of the second polarization the second half; their adjoints write there.
\<close>

definition ex4_mesh :: rxmesh where
  "ex4_mesh =
     \<lparr>getInterpolationMat = (\<lambda>loc kind.
          if kind = ''Ex'' \<or> kind = ''Fx'' then
            \<lparr>nrows = 1, ncols = 2, entry = (\<lambda>i j. if j = 0 then 1 else 0)\<rparr>
          else if kind = ''Ey'' \<or> kind = ''Fy'' then
            \<lparr>nrows = 1, ncols = 2, entry = (\<lambda>i j. if j = 1 then 1 else 0)\<rparr>
          else \<lparr>nrows = 1, ncols = 2, entry = (\<lambda>i j. 1)\<rparr>),
      mesh_nE = 2\<rparr>"

definition ex4_fields :: "unit fields" where
  "ex4_fields =
     \<lparr>getitem = (\<lambda>src name.
          if name = ''e_px'' then [1, 0]
          else if name = ''e_py'' then [0, 0]
          else if name = ''b_px'' then [0, - complex_of_real mu_0]
          else [complex_of_real mu_0, 0]),
      e_pxDeriv_u = (\<lambda>src v adjoint. if adjoint then [v ! 0, v ! 1, 0, 0] else [v ! 0, v ! 1]),
      e_pyDeriv_u = (\<lambda>src v adjoint. if adjoint then [0, 0, v ! 0, v ! 1] else [v ! 2, v ! 3]),
      b_pxDeriv_u = (\<lambda>src v adjoint. if adjoint then [v ! 0, v ! 1, 0, 0] else [v ! 0, v ! 1]),
      b_pyDeriv_u = (\<lambda>src v adjoint. if adjoint then [0, 0, v ! 0, v ! 1] else [v ! 2, v ! 3]),
      eDeriv_u = (\<lambda>src v adjoint. v),
      bDeriv_u = (\<lambda>src v adjoint. v)\<rparr>"

definition ex4_rx :: "string \<Rightarrow> string \<Rightarrow> unit rx" where
  "ex4_rx ori c =
     \<lparr>locs = Loc2 [[0, 0, 0]], orientation = ori, component = c,
      rx_mesh = ex4_mesh, rx_src = (), rx_f = ex4_fields,
      cPex = None, cPey = None, cPbx = None, cPby = None, cPbz = None,
      cPbx_num = None, cPby_num = None\<rparr>"
section \<open>Properties of the mesh\<close>

subsection \<open>Running sums, Kronecker products, annuli\<close>

lemma length_cumsum_from [simp]: "length (cumsum_from a xs) = length xs"
  by (induction xs arbitrary: a) auto

lemma cumsum_from_gt: "list_all (\<lambda>x. 0 < x) xs \<Longrightarrow> list_all (\<lambda>y. a < y) (cumsum_from a xs)"
proof (induction xs arbitrary: a)
  case Nil
  then show ?case by simp
next
  case (Cons x xs)
  then have "list_all (\<lambda>y. a + x < y) (cumsum_from (a + x) xs)" by simp
  then have "list_all (\<lambda>y. a < y) (cumsum_from (a + x) xs)"
    using Cons.prems by (auto simp: list_all_iff)
  with Cons.prems show ?case by simp
qed

lemma fold_max_cumsum_from:
  "list_all (\<lambda>x. 0 < x) xs \<Longrightarrow> fold max (cumsum_from b xs) b = b + sum_list xs"
proof (induction xs arbitrary: b)
  case Nil
  then show ?case by simp
next
  case (Cons x xs)
  then have "max (b + x) b = b + x" by simp
  with Cons show ?case by (simp add: add.assoc)
qed

lemma amax_cumsum:
  assumes "xs \<noteq> []" "list_all (\<lambda>x. 0 < x) xs"
  shows "amax (cumsum xs) = sum_list xs"
proof -
  obtain x ys where xs: "xs = x # ys" using assms(1) by (cases xs) auto
  with assms(2) have "list_all (\<lambda>x. 0 < x) ys" by simp
  from fold_max_cumsum_from [OF this, of x] show ?thesis
    by (simp add: xs amax_def cumsum_def)
qed

lemma map2_shift:
  "map2 g (y # ys) (a # butlast (y # ys)) = g y a # map2 g ys (y # butlast ys)"
  by (cases ys) auto

lemma telescope_cumsum_from:
  "sum_list (vsub (map f (cumsum_from a xs)) (map f (a # butlast (cumsum_from a xs))))
     = (f (a + sum_list xs) - f a :: real)"
proof (induction xs arbitrary: a)
  case Nil
  then show ?case by (simp add: vsub_def)
next
  case (Cons x xs)
  have "vsub (map f (cumsum_from a (x # xs))) (map f (a # butlast (cumsum_from a (x # xs))))
      = (f (a + x) - f a) #
        vsub (map f (cumsum_from (a + x) xs)) (map f ((a + x) # butlast (cumsum_from (a + x) xs)))"
    by (cases "cumsum_from (a + x) xs") (auto simp: vsub_def)
  then show ?case using Cons.IH [of "a + x"] by (simp add: add.assoc)
qed

lemma sum_list_smul: "sum_list (smul c xs) = c * sum_list (xs :: real list)"
  by (simp add: smul_def sum_list_const_mult)

lemma sum_list_annulus_cumsum: "sum_list (annulus (cumsum xs)) = pi * (sum_list xs)\<^sup>2"
  using telescope_cumsum_from [of "\<lambda>x. x\<^sup>2" 0 xs]
  by (simp add: annulus_def sum_list_smul cumsum_def)

lemma sum_list_kron1: "sum_list (kron1 xs ys) = sum_list xs * sum_list ys"
  by (induction xs) (auto simp: kron1_def sum_list_const_mult algebra_simps)

lemma length_kron1 [simp]: "length (kron1 xs ys) = length xs * length ys"
  by (induction xs) (auto simp: kron1_def)

lemma kron1_pos:
  "list_all (\<lambda>x. 0 < x) xs \<Longrightarrow> list_all (\<lambda>y. 0 < y) ys \<Longrightarrow> list_all (\<lambda>e. 0 < e) (kron1 xs ys)"
  by (auto simp: kron1_def list_all_iff)

lemma annulus_cumsum_from_pos:
  "0 \<le> a \<Longrightarrow> list_all (\<lambda>x. 0 < x) xs \<Longrightarrow>
   list_all (\<lambda>e. 0 < e)
     (vsub (map (\<lambda>x. x\<^sup>2) (cumsum_from a xs)) (map (\<lambda>x. x\<^sup>2) (a # butlast (cumsum_from a xs))))"
proof (induction xs arbitrary: a)
  case Nil
  then show ?case by (simp add: vsub_def)
next
  case (Cons x xs)
  have eq: "vsub (map (\<lambda>x. x\<^sup>2) (cumsum_from a (x # xs)))
             (map (\<lambda>x. x\<^sup>2) (a # butlast (cumsum_from a (x # xs))))
      = ((a + x)\<^sup>2 - a\<^sup>2) #
        vsub (map (\<lambda>x. x\<^sup>2) (cumsum_from (a + x) xs))
             (map (\<lambda>x. x\<^sup>2) ((a + x) # butlast (cumsum_from (a + x) xs)))"
    by (cases "cumsum_from (a + x) xs") (auto simp: vsub_def)
  have x: "0 < x" using Cons.prems by simp
  have "a\<^sup>2 < (a + x)\<^sup>2"
    using Cons.prems(1) x by (intro power_strict_mono) auto
  moreover have "list_all (\<lambda>e. 0 < e)
        (vsub (map (\<lambda>x. x\<^sup>2) (cumsum_from (a + x) xs))
             (map (\<lambda>x. x\<^sup>2) ((a + x) # butlast (cumsum_from (a + x) xs))))"
    using Cons.IH [of "a + x"] Cons.prems x by simp
  ultimately show ?case unfolding eq by simp
qed

lemma annulus_cumsum_pos:
  "list_all (\<lambda>x. 0 < x) xs \<Longrightarrow> list_all (\<lambda>e. 0 < e) (annulus (cumsum xs))"
  using annulus_cumsum_from_pos [of 0 xs]
  by (auto simp: annulus_def cumsum_def smul_def list_all_iff)

lemma vol_sum: 
  assumes "valid_mesh m"
  shows "sum_list (vol m) = pi * (amax (vectorNr m))\<^sup>2 * sum_list (hz m)"
proof -
  have "amax (vectorNr m) = sum_list (hr m)"
    using assms by (simp add: valid_mesh_def vectorNr_def amax_cumsum)
  then show ?thesis
    by (simp add: vol_def sum_list_kron1 vectorNr_def sum_list_annulus_cumsum)
qed

lemma vol_pos: "valid_mesh m \<Longrightarrow> list_all (\<lambda>v. 0 < v) (vol m)"
  by (simp add: vol_def valid_mesh_def vectorNr_def kron1_pos annulus_cumsum_pos)

lemma area_pos: 
  assumes "valid_mesh m" shows "list_all (\<lambda>a. 0 < a) (area m)"
proof -
  have hrp: "list_all (\<lambda>x. 0 < x) (hr m)" and hzp: "list_all (\<lambda>x. 0 < x) (hz m)"
    using assms by (simp_all add: valid_mesh_def)
  have "list_all (\<lambda>y. 0 < y) (cumsum (hr m))"
    using cumsum_from_gt [OF hrp, of 0] by (simp add: cumsum_def)
  then have "list_all (\<lambda>y. 0 < y) (smul (2 * pi) (vectorNr m))"
    by (auto simp: smul_def vectorNr_def list_all_iff)
  then have r: "list_all (\<lambda>e. 0 < e) (kron1 (hz m) (smul (2 * pi) (vectorNr m)))"
    using hzp by (rule kron1_pos [rotated])
  have "list_all (\<lambda>x. 0 < x) (map (\<lambda>_. 1::real) (vectorNz m))"
    by (simp add: list_all_iff)
  then have z: "list_all (\<lambda>e. 0 < e) (kron1 (map (\<lambda>_. 1) (vectorNz m)) (annulus (vectorNr m)))"
    using annulus_cumsum_pos [OF hrp] by (simp add: kron1_pos vectorNr_def)
  show ?thesis using r z by (simp add: area_def)
qed

subsection \<open>Column sums of the averaging stencils\<close>

lemma sum_lessThan_add:
  "(\<Sum>e<a + b. g e) = (\<Sum>e<a. g e) + (\<Sum>e<(b::nat). g (a + e) :: 'a::comm_monoid_add)"
  by (induction b) (auto simp: add.assoc)

lemma sum_div_mod:
  "(\<Sum>j<a * b. f (j div b) (j mod b)) = (\<Sum>p<(a::nat). \<Sum>q<(b::nat). f p q :: 'a::comm_monoid_add)"
proof (induction a)
  case 0
  then show ?case by simp
next
  case (Suc a)
  have "(\<Sum>j<Suc a * b. f (j div b) (j mod b))
      = (\<Sum>j<a * b. f (j div b) (j mod b)) + (\<Sum>q<b. f ((a * b + q) div b) ((a * b + q) mod b))"
    using sum_lessThan_add [where g = "\<lambda>j. f (j div b) (j mod b)" and a = "a * b" and b = b]
    by (simp add: add.commute)
  also have "(\<Sum>q<b. f ((a * b + q) div b) ((a * b + q) mod b)) = (\<Sum>q<b. f a q)"
    by (rule sum.cong) auto
  finally show ?case using Suc by simp
qed

lemma kron_col_sum:
  "(\<Sum>e<nrows A * nrows B. entry (kron A B) e c)
     = (\<Sum>p<nrows A. entry A p (c div ncols B)) * (\<Sum>q<nrows B. entry B q (c mod ncols B))"
proof -
  have "(\<Sum>e<nrows A * nrows B. entry (kron A B) e c)
      = (\<Sum>p<nrows A. \<Sum>q<nrows B. entry A p (c div ncols B) * entry B q (c mod ncols B))"
    using sum_div_mod [where f = "\<lambda>p q. entry A p (c div ncols B) * entry B q (c mod ncols B)"
        and a = "nrows A" and b = "nrows B"]
    by (simp add: kron_def)
  then show ?thesis by (simp add: sum_product)
qed

lemma az_col_sum:
  assumes "j < n"
  shows "(\<Sum>p<Suc n. entry (spdiags (replicate 2 (replicate (Suc n) (1/2))) [-1, 0] (Suc n) n) p j) = 1"
proof -
  have "(\<Sum>p<Suc n. entry (spdiags (replicate 2 (replicate (Suc n) (1/2))) [-1, 0] (Suc n) n) p j)
      = (\<Sum>p<Suc n. (if p = Suc j then 1/2 else 0) + (if p = j then 1/2 else (0::real)))"
    using assms by (intro sum.cong) (auto simp: spdiags_def upt_rec nth_Cons')
  also have "\<dots> = 1" using assms by (simp add: sum.distrib)
  finally show ?thesis .
qed

lemma ar_col_sum:
  assumes "j < n"
  shows "(\<Sum>q<n. entry (ar_fix n) q j) = 1"
proof (cases j)
  case 0
  have "(\<Sum>q<n. entry (ar_fix n) q j) = (\<Sum>q<n. if q = 0 then (1::real) else 0)"
    using assms 0 by (intro sum.cong) (auto simp: ar_fix_def spdiags_def upt_rec nth_Cons')
  also have "\<dots> = 1" using assms by simp
  finally show ?thesis .
next
  case (Suc k)
  have "(\<Sum>q<n. entry (ar_fix n) q j)
      = (\<Sum>q<n. (if q = j then 1/2 else 0) + (if q = k then 1/2 else (0::real)))"
    using assms Suc by (intro sum.cong) (auto simp: ar_fix_def spdiags_def upt_rec nth_Cons')
  also have "\<dots> = 1" using assms Suc by (simp add: sum.distrib)
  finally show ?thesis .
qed

lemma eye_col_sum: "j < n \<Longrightarrow> (\<Sum>q<n. entry (eye n) q j) = 1"
  by (simp add: eye_def)

lemma setitem_ar:
  "0 < n \<Longrightarrow> setitem (spdiags (replicate 2 (replicate n (1/2))) [0, 1] n n) 0 0 1 = Inr (ar_fix n)"
  by (simp add: setitem_def ar_fix_def spdiags_def)

lemma dims_ar_fix: "nrows (ar_fix n) = n" "ncols (ar_fix n) = n"
  by (simp_all add: ar_fix_def spdiags_def)

lemma dims_az_mat: "nrows (az_mat m) = nNz m" "ncols (az_mat m) = nCz m"
  by (simp_all add: az_mat_def spdiags_def)

lemma az_mat_col_sum: "j < nCz m \<Longrightarrow> (\<Sum>p<nNz m. entry (az_mat m) p j) = 1"
  using az_col_sum [of j "nCz m"] by (simp add: az_mat_def nNz_def nCz_def)

lemma aveE2CC_eq: "0 < nCr m \<Longrightarrow> aveE2CC m = Inr (spT (kron (az_mat m) (ar_fix (nCr m))))"
  by (simp add: aveE2CC_def setitem_ar az_mat_def)

lemma aveF2CC_eq:
  "0 < nCr m \<Longrightarrow> aveF2CC m =
     Inr (spT (vstack (kron (eye (nCz m)) (ar_fix (nCr m))) (kron (az_mat m) (eye (nCr m)))))"
  by (simp add: aveF2CC_def setitem_ar az_mat_def)

lemma div_mod_bounds: "c < a * b \<Longrightarrow> c div b < (a::nat) \<and> c mod b < b"
  by (metis less_mult_imp_div_less mod_less_divisor mult_zero_right not_gr_zero not_less_zero)

lemma kron_col_sum_one:
  assumes "c < ncols A * ncols B"
    and "\<And>j. j < ncols A \<Longrightarrow> (\<Sum>p<nrows A. entry A p j) = 1"
    and "\<And>j. j < ncols B \<Longrightarrow> (\<Sum>q<nrows B. entry B q j) = 1"
  shows "(\<Sum>e<nrows A * nrows B. entry (kron A B) e c) = 1"
proof -
  have "c div ncols B < ncols A" "c mod ncols B < ncols B"
    using div_mod_bounds [OF assms(1)] by simp_all
  then show ?thesis using assms(2,3) by (simp add: kron_col_sum)
qed

lemma aveE2CC_dims:
  assumes "0 < nCr m" "aveE2CC m = Inr A"
  shows "nrows A = nC m" "ncols A = nE m"
proof -
  have A: "A = spT (kron (az_mat m) (ar_fix (nCr m)))"
    using assms(1,2) by (simp add: aveE2CC_eq)
  show "nrows A = nC m" by (simp add: A spT_def kron_def dims_az_mat dims_ar_fix nC_def mult.commute)
  show "ncols A = nE m"
    by (simp add: A spT_def kron_def dims_az_mat dims_ar_fix nE_def nN_def nNr_def nCr_def mult.commute)
qed

lemma aveE2CC_rowsum:
  assumes "0 < nCr m" "aveE2CC m = Inr A" "c < nC m"
  shows "rowsum A c = 1"
proof -
  let ?K = "kron (az_mat m) (ar_fix (nCr m))"
  have A: "A = spT ?K"
    using assms(1,2) by (simp add: aveE2CC_eq)
  have c: "c < ncols (az_mat m) * ncols (ar_fix (nCr m))"
    using assms(3) by (simp add: dims_az_mat dims_ar_fix nC_def mult.commute)
  have "(\<Sum>e<nrows (az_mat m) * nrows (ar_fix (nCr m)). entry ?K e c) = 1"
    by (rule kron_col_sum_one [OF c]) (simp_all add: dims_az_mat dims_ar_fix az_mat_col_sum ar_col_sum)
  then show "rowsum A c = 1"
    by (simp add: rowsum_def A spT_def kron_def)
qed

lemma dims_eye: "nrows (eye n) = n" "ncols (eye n) = n"
  by (simp_all add: eye_def)

lemma aveF2CC_dims:
  assumes "0 < nCr m" "aveF2CC m = Inr A"
  shows "nrows A = nC m" "ncols A = nF m"
proof -
  have A: "A = spT (vstack (kron (eye (nCz m)) (ar_fix (nCr m))) (kron (az_mat m) (eye (nCr m))))"
    using assms(1,2) by (simp add: aveF2CC_eq)
  show "nrows A = nC m" by (simp add: A spT_def vstack_def kron_def dims_eye dims_ar_fix nC_def mult.commute)
  show "ncols A = nF m"
    by (simp add: A spT_def vstack_def kron_def dims_eye dims_ar_fix dims_az_mat nF_def nFr_def nFz_def
        nNr_def nCr_def mult.commute)
qed

lemma aveF2CC_rowsum:
  assumes "0 < nCr m" "aveF2CC m = Inr A" "c < nC m"
  shows "rowsum A c = 2"
proof -
  let ?ar = "ar_fix (nCr m)"
  let ?Afr = "kron (eye (nCz m)) ?ar"
  let ?Afz = "kron (az_mat m) (eye (nCr m))"
  have A: "A = spT (vstack ?Afr ?Afz)"
    using assms(1,2) by (simp add: aveF2CC_eq)
  have c1: "c < ncols (eye (nCz m)) * ncols ?ar"
    using assms(3) by (simp add: dims_eye dims_ar_fix nC_def mult.commute)
  have c2: "c < ncols (az_mat m) * ncols (eye (nCr m))"
    using assms(3) by (simp add: dims_eye dims_az_mat nC_def mult.commute)
  have r: "(\<Sum>e<nrows (eye (nCz m)) * nrows ?ar. entry ?Afr e c) = 1"
    by (rule kron_col_sum_one [OF c1]) (simp_all add: dims_eye dims_ar_fix eye_col_sum ar_col_sum)
  have z: "(\<Sum>e<nrows (az_mat m) * nrows (eye (nCr m)). entry ?Afz e c) = 1"
    by (rule kron_col_sum_one [OF c2]) (simp_all add: dims_eye dims_az_mat eye_col_sum az_mat_col_sum)
  have "rowsum A c = (\<Sum>e<nrows ?Afr + nrows ?Afz. entry (vstack ?Afr ?Afz) e c)"
    by (simp add: rowsum_def A spT_def vstack_def)
  also have "\<dots> = (\<Sum>e<nrows ?Afr. entry ?Afr e c) + (\<Sum>e<nrows ?Afz. entry ?Afz e c)"
    by (simp add: sum_lessThan_add vstack_def)
  also have "\<dots> = 2" using r z by (simp add: kron_def)
  finally show "rowsum A c = 2" .
qed

lemma spmv_const:
  "spmv A (replicate (ncols A) c) = map (\<lambda>i. rowsum A i * c) [0..<nrows A]"
  by (simp add: spmv_def rowsum_def sum_distrib_right)

lemma aveE2CC_const:
  assumes "0 < nCr m" "aveE2CC m = Inr A"
  shows "spmv A (replicate (nE m) c) = replicate (nC m) c"
proof -
  have "spmv A (replicate (ncols A) c) = map (\<lambda>i. rowsum A i * c) [0..<nC m]"
    using aveE2CC_dims(1) [OF assms] by (simp add: spmv_const)
  also have "\<dots> = map (\<lambda>i. c) [0..<nC m]"
    using aveE2CC_rowsum [OF assms] by (intro map_cong) auto
  finally show ?thesis using aveE2CC_dims(2) [OF assms] by (simp add: map_replicate_const)
qed

lemma aveF2CC_const:
  assumes "0 < nCr m" "aveF2CC m = Inr A"
  shows "spmv A (replicate (nF m) c) = replicate (nC m) (2 * c)"
proof -
  have "spmv A (replicate (ncols A) c) = map (\<lambda>i. rowsum A i * c) [0..<nC m]"
    using aveF2CC_dims(1) [OF assms] by (simp add: spmv_const)
  also have "\<dots> = map (\<lambda>i. 2 * c) [0..<nC m]"
    using aveF2CC_rowsum [OF assms] by (intro map_cong) auto
  finally show ?thesis using aveF2CC_dims(2) [OF assms] by (simp add: map_replicate_const)
qed

subsection \<open>The material property of the mass matrix\<close>

lemma repeat_snoc: "repeat n (xs @ [x]) = repeat n xs @ replicate n x"
  by (simp add: repeat_def)

lemma length_repeat: "length (repeat n xs) = n * length xs"
  by (induction xs) (simp_all add: repeat_def)

lemma repeat_nth: "k < n * length xs \<Longrightarrow> repeat n xs ! k = xs ! (k div n)"
proof (induction xs rule: rev_induct)
  case Nil
  then show ?case by simp
next
  case (snoc x xs)
  show ?case
  proof (cases "k < n * length xs")
    case True
    then have "k < length xs * n" by (simp add: mult.commute)
    then have "k div n < length xs" by (rule less_mult_imp_div_less)
    with True snoc.IH show ?thesis
      by (simp add: repeat_snoc nth_append length_repeat)
  next
    case False
    then have ge: "n * length xs \<le> k" by simp
    have lt: "k < n * length xs + n" using snoc.prems by simp
    have "0 < n" using lt ge by (cases n) auto
    have "k div n = length xs"
      using ge lt by (intro div_nat_eqI) simp_all
    moreover have "k - n * length xs < n" using ge lt by simp
    ultimately show ?thesis using False
      by (simp add: repeat_snoc nth_append length_repeat)
  qed
qed


lemma repeat_eq_map: "repeat n xs = map (\<lambda>k. xs ! (k div n)) [0..<n * length xs]"
  by (rule nth_equalityI) (simp_all add: length_repeat repeat_nth)

lemma repeat_one: "repeat (Suc 0) xs = xs"
  by (induction xs) (simp_all add: repeat_def)

lemma mass_case_eq:
  "(case r of Inl e \<Rightarrow> Inl e | Inr Av \<Rightarrow> Inr (sdiag (spmv (spT Av) (vmul (vol m) p))))
     = map_sum id (\<lambda>Av. mass_matrix m Av p) r"
  by (cases r) (simp_all add: mass_matrix_def)

lemma getMass_None: "getMass m None loc = getMass_spec m None loc"
  by (simp add: getMass_def getMass_spec_def broadcast_prop_def mass_case_eq)

lemma getMass_float: "getMass m (Some (PyFloat c)) loc = getMass_spec m (Some (PyFloat c)) loc"
  by (simp add: getMass_def getMass_spec_def broadcast_prop_def mass_case_eq)

lemma length_mkvc: "length (mkvc (Ndarray sh d)) = length d"
  by simp

lemma mkvc_1D: "mkvc (Ndarray [n] d) = d"
  by simp

lemma getMass_array:
  assumes "materialProp_ok m (Some (Ndarray sh d))"
  shows "getMass m (Some (Ndarray sh d)) loc = getMass_spec m (Some (Ndarray sh d)) loc"
proof (cases "sh = [nCz m]")
  case True
  with assms have len: "length d = nCz m" by (simp add: materialProp_ok_def)
  have v: "mkvc (Ndarray sh d) = d" using True by simp
  show ?thesis
  proof (cases "length d = nC m")
    case same: True
    have "repeat (nCr m) d = d"
    proof (cases "nCz m = 0")
      case True
      with len show ?thesis by (simp add: repeat_def)
    next
      case False
      with same len have "nCr m = Suc 0" by (simp add: nC_def)
      then show ?thesis by (simp add: repeat_one)
    qed
    with True same show ?thesis
      by (simp add: getMass_def getMass_spec_def broadcast_prop_def mass_case_eq Let_def)
  next
    case False
    have "repeat (nCr m) d = map (\<lambda>k. d ! (k div nCr m)) [0..<nC m]"
      by (simp add: repeat_eq_map len nC_def)
    moreover have "length (repeat (nCr m) d) = nC m"
      by (simp add: length_repeat len nC_def)
    ultimately show ?thesis using True False len
      by (simp add: getMass_def getMass_spec_def broadcast_prop_def mass_case_eq Let_def)
  qed
next
  case False
  with assms have "length d \<noteq> nCz m \<or> length d = nC m"
    by (auto simp: materialProp_ok_def)
  with False show ?thesis
    by (auto simp: getMass_def getMass_spec_def broadcast_prop_def mass_case_eq Let_def
        length_mkvc simp del: mkvc.simps)
qed

lemma getMass_refines:
  assumes "materialProp_ok m materialProp"
  shows "getMass m materialProp loc = getMass_spec m materialProp loc"
proof (cases materialProp)
  case None
  then show ?thesis by (simp add: getMass_None)
next
  case (Some a)
  then show ?thesis using assms by (cases a) (simp_all add: getMass_float getMass_array)
qed

section \<open>Claims about the mesh\<close>

subsection \<open>The constructor\<close>

lemma check_h_ok: "(check_h i hs = Inr ()) = list_all is_1D_array hs"
  by (induction i hs rule: check_h.induct) (simp_all add: is_1D_array_def)

lemma check_h_err: "check_h i hs = Inl e \<Longrightarrow> \<exists>s. e = AssertionError s"
  by (induction i hs rule: check_h.induct) (auto split: if_splits)

lemma check_z0_ok: "(check_z0 z0 = Inr ()) = (case z0 of None \<Rightarrow> True | Some z \<Rightarrow> is_single_scalar z)"
  by (auto simp: check_z0_def is_single_scalar_def split: option.splits pyobj.splits)

lemma check_z0_err: "check_z0 z0 = Inl e \<Longrightarrow> (\<exists>s. e = AssertionError s) \<or> (\<exists>s. e = AttributeError s)"
  by (auto simp: check_z0_def split: option.splits pyobj.splits if_splits)

lemma init_success_iff:
  "(\<exists>m. Cyl1DMesh_init h z0 = Inr m)
     = (length h = 2 \<and> list_all is_1D_array h \<and> (case z0 of None \<Rightarrow> True | Some z \<Rightarrow> is_single_scalar z))"
proof -
  have u: "\<And>r :: error + unit. (r = Inr ()) = (\<forall>e. r \<noteq> Inl e)"
    by (case_tac r) auto
  show ?thesis
    unfolding check_h_ok [where i = 0 and hs = h, symmetric] check_z0_ok [symmetric]
    by (auto simp: Cyl1DMesh_init_def u split: sum.splits)
qed

lemma init_error:
  "Cyl1DMesh_init h z0 = Inl e \<Longrightarrow> (\<exists>s. e = AssertionError s) \<or> (\<exists>s. e = AttributeError s)"
  by (auto simp: Cyl1DMesh_init_def split: if_splits sum.splits dest: check_h_err check_z0_err)

lemma init_result:
  assumes "Cyl1DMesh_init h z0 = Inr m"
  shows "hr m = flat (h ! 0)" "hz m = flat (h ! 1)"
    "mesh_z0 m = (case z0 of None \<Rightarrow> 0 | Some z \<Rightarrow> hd (flat z))"
proof -
  have len: "length h = 2" and h1: "list_all is_1D_array h"
    using init_success_iff [of h z0] assms by auto
  have m: "m = \<lparr>mesh_h = map mkvc h, mesh_z0 = (case z0 of None \<Rightarrow> 0 | Some z \<Rightarrow> hd (flat z))\<rparr>"
    using assms by (auto simp: Cyl1DMesh_init_def split: if_splits sum.splits)
  have "mkvc (h ! i) = flat (h ! i)" if "i < 2" for i
  proof -
    have "is_1D_array (h ! i)" using h1 len that by (simp add: list_all_length)
    then show ?thesis by (cases "h ! i") (simp_all add: is_1D_array_def)
  qed
  then show "hr m = flat (h ! 0)" "hz m = flat (h ! 1)"
    using len by (simp_all add: m hr_def hz_def)
  show "mesh_z0 m = (case z0 of None \<Rightarrow> 0 | Some z \<Rightarrow> hd (flat z))" by (simp add: m)
qed

text \<open>
  Claim C8. \<open>Cyl1DMesh(h, z0)\<close> returns a mesh exactly when \<open>h\<close> holds two objects
  that are both one-dimensional numpy arrays and \<open>z0\<close> is omitted or an array of size
  one; every failure is an assertion error (or the attribute error of a \<open>z0\<close> that has
  no \<open>size\<close>). A mesh that is returned has the two arrays as \<open>hr\<close> and \<open>hz\<close>,
  so \<open>nCr = len(hr)\<close> and \<open>nCz = len(hz)\<close>; its origin is the entry of \<open>z0\<close>, or 0
  when \<open>z0\<close> is omitted, and \<open>vectorNz\<close> starts at the origin.
\<close>

theorem Cyl1DMesh_init_contract:
  "((\<exists>m. Cyl1DMesh_init h z0 = Inr m)
      = (length h = 2 \<and> list_all is_1D_array h
          \<and> (case z0 of None \<Rightarrow> True | Some z \<Rightarrow> is_single_scalar z)))
   \<and> (\<forall>e. Cyl1DMesh_init h z0 = Inl e
          \<longrightarrow> (\<exists>s. e = AssertionError s) \<or> (\<exists>s. e = AttributeError s))
   \<and> (\<forall>m. Cyl1DMesh_init h z0 = Inr m
          \<longrightarrow> hr m = flat (h ! 0) \<and> hz m = flat (h ! 1)
              \<and> nCr m = length (flat (h ! 0)) \<and> nCz m = length (flat (h ! 1))
              \<and> mesh_z0 m = (case z0 of None \<Rightarrow> 0 | Some z \<Rightarrow> hd (flat z))
              \<and> vectorNz m ! 0 = mesh_z0 m)"
proof (intro conjI allI impI)
  show "(\<exists>m. Cyl1DMesh_init h z0 = Inr m)
      = (length h = 2 \<and> list_all is_1D_array h
          \<and> (case z0 of None \<Rightarrow> True | Some z \<Rightarrow> is_single_scalar z))"
    by (rule init_success_iff)
next
  fix e assume "Cyl1DMesh_init h z0 = Inl e"
  then show "(\<exists>s. e = AssertionError s) \<or> (\<exists>s. e = AttributeError s)" by (rule init_error)
next
  fix m assume m: "Cyl1DMesh_init h z0 = Inr m"
  show "hr m = flat (h ! 0)" "hz m = flat (h ! 1)"
    "mesh_z0 m = (case z0 of None \<Rightarrow> 0 | Some z \<Rightarrow> hd (flat z))"
    by (rule init_result [OF m])+
  then show "nCr m = length (flat (h ! 0))" "nCz m = length (flat (h ! 1))"
    by (simp_all add: nCr_def nCz_def)
  show "vectorNz m ! 0 = mesh_z0 m" by (simp add: vectorNz_def)
qed

theorem Cyl1DMesh_init_contract_witness:
  "(\<exists>m. Cyl1DMesh_init [Ndarray [3] [1, 1, 1], Ndarray [2] [2, 2]] None = Inr m
        \<and> nCr m = 3 \<and> nCz m = 2 \<and> mesh_z0 m = 0 \<and> vectorNz m ! 0 = 0)
   \<and> Cyl1DMesh_init [Ndarray [3] [1, 1, 1]] None = Inl (AssertionError ''len(h) must equal 2'')
   \<and> Cyl1DMesh_init [Ndarray [3] [1, 1, 1], Ndarray [2] [2, 2]] (Some (Ndarray [2] [0, 1]))
        = Inl (AssertionError ''z0.size must equal 1'')"
proof -
  let ?h = "[Ndarray [3] [1, 1, 1], Ndarray [2] [2, 2]]"
  have "\<exists>m. Cyl1DMesh_init ?h None = Inr m"
    using Cyl1DMesh_init_contract [of ?h None] by (simp add: is_1D_array_def)
  then obtain m where m: "Cyl1DMesh_init ?h None = Inr m" ..
  then have "nCr m = 3 \<and> nCz m = 2 \<and> mesh_z0 m = 0 \<and> vectorNz m ! 0 = 0"
    using Cyl1DMesh_init_contract [of ?h None] by simp
  with m show ?thesis by (auto simp: Cyl1DMesh_init_def check_z0_def)
qed

subsection \<open>Counts, areas and volumes\<close>

text \<open>
  Claim C6. On a mesh with at least one radial cell and positive widths: \<open>nN = nNr*nNz\<close>,
  \<open>nF = nFr + nFz\<close>, the volumes sum to \<open>pi * max(vectorNr)^2 * sum(hz)\<close>, and every
  face area and every volume is positive. The mesh of \<open>hr = [1,1,1]\<close>, \<open>hz = [2,2]\<close>,
  \<open>z0 = 0\<close> has \<open>nCr = 3\<close>, \<open>nCz = 2\<close>, \<open>nC = 6\<close>, \<open>nNr = 3\<close>, \<open>nNz = 3\<close>,
  \<open>nN = 9\<close> and volumes that sum to \<open>36 pi\<close>.
\<close>

theorem mesh_invariants:
  assumes "valid_mesh m"
  shows "nN m = nNr m * nNz m \<and> nF m = nFr m + nFz m
       \<and> sum_list (vol m) = pi * (amax (vectorNr m))\<^sup>2 * sum_list (hz m)
       \<and> list_all (\<lambda>a. 0 < a) (area m) \<and> list_all (\<lambda>v. 0 < v) (vol m)
       \<and> length (area m) = nF m \<and> length (vol m) = nC m
       \<and> (\<exists>m0. Cyl1DMesh_init [Ndarray [3] [1, 1, 1], Ndarray [2] [2, 2]] (Some (Ndarray [] [0])) = Inr m0
             \<and> valid_mesh m0
             \<and> nCr m0 = 3 \<and> nCz m0 = 2 \<and> nC m0 = 6 \<and> nNr m0 = 3 \<and> nNz m0 = 3 \<and> nN m0 = 9
             \<and> sum_list (vol m0) = 36 * pi)"
proof -
  let ?m0 = "\<lparr>mesh_h = [[1, 1, 1], [2, 2]], mesh_z0 = 0\<rparr>"
  have la: "length (annulus (cumsum (hr m))) = length (hr m)"
    by (cases "hr m" rule: rev_cases) (simp_all add: annulus_def smul_def vsub_def cumsum_def)
  have "length (area m) = nF m"
    by (simp add: area_def Let_def nF_def nFr_def nFz_def nNr_def nNz_def nCr_def nCz_def vectorNr_def
        vectorNz_def smul_def cumsum_def la [unfolded cumsum_def] mult.commute)
  moreover have "length (vol m) = nC m"
    by (simp add: vol_def nC_def nCr_def nCz_def vectorNr_def la mult.commute)
  moreover have "Cyl1DMesh_init [Ndarray [3] [1, 1, 1], Ndarray [2] [2, 2]] (Some (Ndarray [] [0])) = Inr ?m0"
    by (simp add: Cyl1DMesh_init_def check_z0_def)
  moreover have v0: "valid_mesh ?m0"
    by (simp add: valid_mesh_def hr_def hz_def)
  moreover have "nCr ?m0 = 3 \<and> nCz ?m0 = 2 \<and> nC ?m0 = 6 \<and> nNr ?m0 = 3 \<and> nNz ?m0 = 3 \<and> nN ?m0 = 9"
    by (simp add: nCr_def nCz_def nC_def nNr_def nNz_def nN_def hr_def hz_def)
  moreover have "sum_list (vol ?m0) = 36 * pi"
    by (simp add: vol_def annulus_def vectorNr_def cumsum_def hr_def hz_def kron1_def smul_def vsub_def)
  ultimately show ?thesis
    using assms by (simp add: nN_def nF_def vol_sum vol_pos area_pos)
qed

theorem mesh_invariants_witness:
  "valid_mesh \<lparr>mesh_h = [[1, 2], [3]], mesh_z0 = 0\<rparr>
   \<and> vol \<lparr>mesh_h = [[1, 2], [3]], mesh_z0 = 0\<rparr> = [3 * pi, 24 * pi]
   \<and> amax (vectorNr \<lparr>mesh_h = [[1, 2], [3]], mesh_z0 = 0\<rparr>) = 3
   \<and> sum_list (vol \<lparr>mesh_h = [[1, 2], [3]], mesh_z0 = 0\<rparr>) = pi * 3\<^sup>2 * 3
   \<and> nN \<lparr>mesh_h = [[1, 2], [3]], mesh_z0 = 0\<rparr> = 4 \<and> nF \<lparr>mesh_h = [[1, 2], [3]], mesh_z0 = 0\<rparr> = 6"
proof -
  let ?m = "\<lparr>mesh_h = [[1, 2], [3]], mesh_z0 = 0\<rparr>"
  have v: "valid_mesh ?m" by (simp add: valid_mesh_def hr_def hz_def)
  have a: "amax (vectorNr ?m) = 3"
    by (simp add: amax_def vectorNr_def cumsum_def hr_def)
  have "vol ?m = [3 * pi, 24 * pi]"
    by (simp add: vol_def annulus_def vectorNr_def cumsum_def hr_def hz_def kron1_def smul_def vsub_def)
  then show ?thesis
    using v a mesh_invariants [OF v]
    by (simp add: hz_def nN_def nF_def nFr_def nFz_def nNr_def nNz_def nC_def nCr_def nCz_def hr_def)
qed

text \<open>
  Claim C10. On a valid mesh there are as many radial nodes as radial cells (not one more)
  and as many edges as nodes; \<open>vectorNr\<close> is the running sum of \<open>hr\<close>, so its first
  entry is \<open>hr[0] > 0\<close> and no node lies on the axis, while the first entry of
  \<open>vectorCCr\<close> is 0.
\<close>

theorem axis_layout:
  assumes "valid_mesh m"
  shows "nNr m = nCr m \<and> nNr m \<noteq> nCr m + 1 \<and> nE m = nN m
       \<and> vectorNr m = cumsum (hr m) \<and> length (vectorNr m) = nCr m
       \<and> vectorNr m ! 0 = hr m ! 0 \<and> 0 < hr m ! 0
       \<and> list_all (\<lambda>r. 0 < r) (vectorNr m)
       \<and> vectorCCr m ! 0 = 0 \<and> length (vectorCCr m) = nCr m"
proof -
  obtain x xs where h: "hr m = x # xs"
    using assms by (cases "hr m") (auto simp: valid_mesh_def)
  have pos: "list_all (\<lambda>x. 0 < x) (hr m)" using assms by (simp add: valid_mesh_def)
  have "list_all (\<lambda>r. 0 < r) (vectorNr m)"
    using cumsum_from_gt [OF pos, of 0] by (simp add: vectorNr_def cumsum_def)
  then show ?thesis
    using pos by (simp add: h nNr_def nCr_def nE_def vectorNr_def cumsum_def vectorCCr_def vsub_def)
qed

theorem axis_layout_witness:
  "valid_mesh \<lparr>mesh_h = [[1, 2], [3]], mesh_z0 = 0\<rparr>
   \<and> nNr \<lparr>mesh_h = [[1, 2], [3]], mesh_z0 = 0\<rparr> = 2
   \<and> nCr \<lparr>mesh_h = [[1, 2], [3]], mesh_z0 = 0\<rparr> = 2
   \<and> vectorNr \<lparr>mesh_h = [[1, 2], [3]], mesh_z0 = 0\<rparr> = [1, 3]
   \<and> vectorCCr \<lparr>mesh_h = [[1, 2], [3]], mesh_z0 = 0\<rparr> = [0, 2]"
proof -
  let ?m = "\<lparr>mesh_h = [[1, 2], [3]], mesh_z0 = 0\<rparr>"
  have v: "valid_mesh ?m" by (simp add: valid_mesh_def hr_def hz_def)
  show ?thesis
    using v axis_layout [OF v]
    by (simp add: nCr_def hr_def cumsum_def vectorCCr_def vsub_def)
qed

subsection \<open>Averaging operators on constant fields\<close>

lemma aveE2CC_axis_entries:
  assumes "0 < nCr m" "aveE2CC m = Inr A" "iz < nCz m"
  shows "entry A (iz * nCr m) (iz * nCr m) = 1/2" "entry A (iz * nCr m) (Suc iz * nCr m) = 1/2"
proof -
  have A: "A = spT (kron (az_mat m) (ar_fix (nCr m)))"
    using assms(1,2) by (simp add: aveE2CC_eq)
  have "(nCr m + iz * nCr m) div nCr m = Suc iz" using assms(1) by simp
  then show "entry A (iz * nCr m) (iz * nCr m) = 1/2" "entry A (iz * nCr m) (Suc iz * nCr m) = 1/2"
    using assms(1,3)
    by (simp_all add: A spT_def kron_def dims_ar_fix az_mat_def spdiags_def ar_fix_def nNz_def nCz_def
        upt_rec nth_Cons')
qed

text \<open>
  Claim C3, as amended. On a valid mesh \<open>aveE2CC\<close> is an \<open>nC\<close> by \<open>nE\<close> matrix whose
  rows all sum to 1, the rows of the innermost radial cells included: there the fix-up
  gives the two nodes next to the axis the weights \<open>1 * 0.5\<close>. So it maps the constant
  edge field \<open>c\<close> to the constant \<open>c\<close>. \<open>aveF2CC\<close> is an \<open>nC\<close> by \<open>nF\<close> matrix
  that puts the radial-face block beside the vertical-face block; each block averages, so
  every row sums to 2 and the constant face field \<open>c\<close> is mapped to \<open>2 c\<close>.
\<close>

theorem averaging_constant_fields:
  assumes "valid_mesh m"
  shows "\<exists>Ae Af. aveE2CC m = Inr Ae \<and> aveF2CC m = Inr Af
       \<and> nrows Ae = nC m \<and> ncols Ae = nE m \<and> nrows Af = nC m \<and> ncols Af = nF m
       \<and> (\<forall>c<nC m. rowsum Ae c = 1) \<and> (\<forall>c<nC m. rowsum Af c = 2)
       \<and> (\<forall>c. spmv Ae (replicate (nE m) c) = replicate (nC m) c)
       \<and> (\<forall>c. spmv Af (replicate (nF m) c) = replicate (nC m) (2 * c))
       \<and> (\<forall>iz<nCz m. entry Ae (iz * nCr m) (iz * nCr m) = 1/2
                     \<and> entry Ae (iz * nCr m) (Suc iz * nCr m) = 1/2)"
proof -
  have n: "0 < nCr m" using assms by (simp add: valid_mesh_def nCr_def)
  obtain Ae where Ae: "aveE2CC m = Inr Ae" using aveE2CC_eq [OF n] by simp
  obtain Af where Af: "aveF2CC m = Inr Af" using aveF2CC_eq [OF n] by simp
  show ?thesis
    using Ae Af aveE2CC_dims [OF n Ae] aveF2CC_dims [OF n Af] aveE2CC_rowsum [OF n Ae]
      aveF2CC_rowsum [OF n Af] aveE2CC_const [OF n Ae] aveF2CC_const [OF n Af]
      aveE2CC_axis_entries [OF n Ae]
    by simp
qed

theorem averaging_constant_fields_witness:
  "valid_mesh \<lparr>mesh_h = [[1, 1], [1]], mesh_z0 = 0\<rparr>
   \<and> (\<exists>Ae Af. aveE2CC \<lparr>mesh_h = [[1, 1], [1]], mesh_z0 = 0\<rparr> = Inr Ae
         \<and> aveF2CC \<lparr>mesh_h = [[1, 1], [1]], mesh_z0 = 0\<rparr> = Inr Af
         \<and> spmv Ae [7, 7, 7, 7] = [7, 7] \<and> spmv Af [7, 7, 7, 7, 7, 7] = [14, 14]
         \<and> rowsum Ae 0 = 1 \<and> rowsum Af 0 = 2)"
proof -
  let ?m = "\<lparr>mesh_h = [[1, 1], [1]], mesh_z0 = 0\<rparr>"
  have v: "valid_mesh ?m" by (simp add: valid_mesh_def hr_def hz_def)
  have d: "nC ?m = 2" "nE ?m = 4" "nF ?m = 6"
    by (simp_all add: nC_def nE_def nN_def nF_def nFr_def nFz_def nNr_def nNz_def nCr_def nCz_def
        hr_def hz_def)
  have r: "replicate 4 (7::real) = [7, 7, 7, 7]" "replicate 6 (7::real) = [7, 7, 7, 7, 7, 7]"
    "replicate 2 (7::real) = [7, 7]" "replicate 2 (14::real) = [14, 14]"
    by (simp_all add: numeral_eq_Suc)
  from averaging_constant_fields [OF v] obtain Ae Af where
    A: "aveE2CC ?m = Inr Ae" "aveF2CC ?m = Inr Af" and
    rs: "\<forall>c<nC ?m. rowsum Ae c = 1" "\<forall>c<nC ?m. rowsum Af c = 2" and
    e: "\<forall>c. spmv Ae (replicate (nE ?m) c) = replicate (nC ?m) c" and
    f: "\<forall>c. spmv Af (replicate (nF ?m) c) = replicate (nC ?m) (2 * c)"
    by blast
  have "spmv Ae [7, 7, 7, 7] = [7, 7]"
    using e [rule_format, of 7] unfolding d r .
  moreover have "spmv Af [7, 7, 7, 7, 7, 7] = [14, 14]"
    using f [rule_format, of 7] unfolding d r by (simp add: numeral_eq_Suc)
  moreover have "rowsum Ae 0 = 1" "rowsum Af 0 = 2"
    using rs unfolding d by simp_all
  ultimately show ?thesis using v A by blast
qed

text \<open>
  Claim C3 as stated fails for \<open>aveF2CC\<close>: on the mesh of \<open>hr = [1,1]\<close>, \<open>hz = [1]\<close> the
  constant face field 1 is mapped to 2 at both cell centres, the outer one included.
\<close>

theorem aveF2CC_constant_counterexample:
  "\<exists>Af. aveF2CC \<lparr>mesh_h = [[1, 1], [1]], mesh_z0 = 0\<rparr> = Inr Af
      \<and> nF \<lparr>mesh_h = [[1, 1], [1]], mesh_z0 = 0\<rparr> = 6
      \<and> nC \<lparr>mesh_h = [[1, 1], [1]], mesh_z0 = 0\<rparr> = 2
      \<and> spmv Af [1, 1, 1, 1, 1, 1] = [2, 2]"
  by (simp add: aveF2CC_def nF_def nFr_def nFz_def nC_def nNr_def nNz_def nCr_def nCz_def hr_def hz_def
     setitem_def spdiags_def spmv_def spT_def vstack_def kron_def eye_def Let_def upt_rec
     div_Suc mod_Suc)

subsection \<open>Mass matrices\<close>

lemma mass_matrix_diag:
  "nrows (mass_matrix m Av p) = ncols Av \<and> ncols (mass_matrix m Av p) = ncols Av
   \<and> (\<forall>i j. i \<noteq> j \<longrightarrow> entry (mass_matrix m Av p) i j = 0)
   \<and> (\<forall>i<ncols Av. entry (mass_matrix m Av p) i i = spmv (spT Av) (vmul (vol m) p) ! i)"
  by (simp add: mass_matrix_def sdiag_def spmv_def spT_def)

text \<open>
  The contract of \<open>getMass\<close> where every array of size \<open>nCz\<close> is one-dimensional: on a
  valid mesh, for a material property that is omitted, a float, or such an array,
  \<open>getMass\<close> does what the specification says. The property is broadcast to the \<open>nC\<close>
  cells (omitted is uniform 1, a float is repeated, a per-cell array is flattened, a
  per-layer array gives each cell the value of its layer), any other size is the
  shape-mismatch error, then a \<open>loc\<close> other than \<open>'e'\<close> and \<open>'f'\<close> is the invalid-loc
  error, and otherwise the result is the diagonal matrix with diagonal
  \<open>Av.T * (vol * materialProp)\<close>, \<open>Av\<close> being \<open>aveE2CC\<close> for \<open>'e'\<close> and \<open>aveF2CC\<close> for
  \<open>'f'\<close>.
\<close>

lemma getMass_on_vectors:
  assumes "valid_mesh m" "materialProp_ok m materialProp"
  shows "getMass m materialProp loc = getMass_spec m materialProp loc
       \<and> (broadcast_prop m materialProp = None
            \<longrightarrow> getMass m materialProp loc = Inl (AssertionError ''materialProp incorrect shape''))
       \<and> (broadcast_prop m materialProp \<noteq> None \<and> loc \<noteq> ''e'' \<and> loc \<noteq> ''f''
            \<longrightarrow> getMass m materialProp loc = Inl (ValueError ''Invalid loc''))
       \<and> (\<forall>p. broadcast_prop m materialProp = Some p \<longrightarrow> length p = nC m
            \<and> (\<exists>Ae Af. aveE2CC m = Inr Ae \<and> aveF2CC m = Inr Af
                  \<and> nrows Ae = nC m \<and> ncols Ae = nE m \<and> nrows Af = nC m \<and> ncols Af = nF m
                  \<and> getMass m materialProp ''e'' = Inr (mass_matrix m Ae p)
                  \<and> getMass m materialProp ''f'' = Inr (mass_matrix m Af p)))
       \<and> (\<forall>Av p. nrows (mass_matrix m Av p) = ncols Av \<and> ncols (mass_matrix m Av p) = ncols Av
            \<and> (\<forall>i j. i \<noteq> j \<longrightarrow> entry (mass_matrix m Av p) i j = 0)
            \<and> (\<forall>i<ncols Av. entry (mass_matrix m Av p) i i = spmv (spT Av) (vmul (vol m) p) ! i))
       \<and> getMass m None loc = getMass m (Some (PyFloat 1)) loc
       \<and> getEdgeMass m materialProp = getMass m materialProp ''e''
       \<and> getFaceMass m materialProp = getMass m materialProp ''f''"
proof -
  have n: "0 < nCr m" using assms(1) by (simp add: valid_mesh_def nCr_def)
  obtain Ae where Ae: "aveE2CC m = Inr Ae" using aveE2CC_eq [OF n] by simp
  obtain Af where Af: "aveF2CC m = Inr Af" using aveF2CC_eq [OF n] by simp
  have r: "getMass m materialProp l = getMass_spec m materialProp l" for l
    by (rule getMass_refines [OF assms(2)])
  have len: "length p = nC m" if "broadcast_prop m materialProp = Some p" for p
    using that
    by (auto simp: broadcast_prop_def Let_def simp del: mkvc.simps
        split: option.splits pyobj.splits if_splits)
  have "getMass m None loc = getMass m (Some (PyFloat 1)) loc"
    by (simp add: getMass_None getMass_float getMass_spec_def broadcast_prop_def)
  then show ?thesis
    using Ae Af aveE2CC_dims [OF n Ae] aveF2CC_dims [OF n Af] len mass_matrix_diag
    by (auto simp: r getMass_spec_def getEdgeMass_def getFaceMass_def)
qed

text \<open>A 2 by 2 per-cell array is flattened column by column.\<close>

lemma mkvc_column_major: "mkvc (Ndarray [2, 2] [a, b, c, d]) = [a, c, b, d]"
  by (simp add: upt_rec)

text \<open>
  Claim C5 against the code. \<open>getMass\<close> tests \<open>materialProp.shape == (self.nCz,)\<close>, where
  its docstring says \<open>materialProp.size = self.nCz\<close>, and flattens every other array to
  compare its size with \<open>nC\<close>. On the mesh \<open>hr = [1, 2]\<close>, \<open>hz = [3, 4]\<close> (so \<open>nCz = 2\<close>,
  \<open>nC = 4\<close>) the per-layer array \<open>[[5], [6]]\<close> of shape \<open>(2, 1)\<close> and size \<open>nCz\<close> is not
  broadcast: \<open>getMass\<close> raises the shape-mismatch error, where the specification gives
  the mass matrix of \<open>[5, 5, 6, 6]\<close>, the one \<open>getMass\<close> returns for the same values in
  an array of shape \<open>(2,)\<close>.
\<close>

theorem getMass_layer_column_raises:
  "valid_mesh \<lparr>mesh_h = [[1, 2], [3, 4]], mesh_z0 = 0\<rparr>
   \<and> nCz \<lparr>mesh_h = [[1, 2], [3, 4]], mesh_z0 = 0\<rparr> = 2
   \<and> nC \<lparr>mesh_h = [[1, 2], [3, 4]], mesh_z0 = 0\<rparr> = 4
   \<and> getMass \<lparr>mesh_h = [[1, 2], [3, 4]], mesh_z0 = 0\<rparr> (Some (Ndarray [2, 1] [5, 6])) ''e''
       = Inl (AssertionError ''materialProp incorrect shape'')
   \<and> broadcast_prop \<lparr>mesh_h = [[1, 2], [3, 4]], mesh_z0 = 0\<rparr> (Some (Ndarray [2, 1] [5, 6]))
       = Some [5, 5, 6, 6]
   \<and> (\<exists>Ae. aveE2CC \<lparr>mesh_h = [[1, 2], [3, 4]], mesh_z0 = 0\<rparr> = Inr Ae
         \<and> getMass_spec \<lparr>mesh_h = [[1, 2], [3, 4]], mesh_z0 = 0\<rparr>
               (Some (Ndarray [2, 1] [5, 6])) ''e''
             = Inr (mass_matrix \<lparr>mesh_h = [[1, 2], [3, 4]], mesh_z0 = 0\<rparr> Ae [5, 5, 6, 6])
         \<and> getMass \<lparr>mesh_h = [[1, 2], [3, 4]], mesh_z0 = 0\<rparr> (Some (Ndarray [2] [5, 6])) ''e''
             = Inr (mass_matrix \<lparr>mesh_h = [[1, 2], [3, 4]], mesh_z0 = 0\<rparr> Ae [5, 5, 6, 6]))"
proof -
  let ?m = "\<lparr>mesh_h = [[1, 2], [3, 4]], mesh_z0 = 0\<rparr>"
  have v: "valid_mesh ?m" by (simp add: valid_mesh_def hr_def hz_def)
  have d: "nC ?m = 4" "nCz ?m = 2" "nCr ?m = 2"
    by (simp_all add: nC_def nCr_def nCz_def hr_def hz_def)
  have n: "0 < nCr ?m" by (simp add: d)
  obtain Ae where Ae: "aveE2CC ?m = Inr Ae" using aveE2CC_eq [OF n] by simp
  have c: "getMass ?m (Some (Ndarray [2, 1] [5, 6])) ''e''
             = Inl (AssertionError ''materialProp incorrect shape'')"
    by (simp add: getMass_def d Let_def)
  have b: "broadcast_prop ?m (Some (Ndarray [2, 1] [5, 6])) = Some [5, 5, 6, 6]"
    by (simp add: broadcast_prop_def d Let_def upt_rec)
  have s: "getMass_spec ?m (Some (Ndarray [2, 1] [5, 6])) ''e'' = Inr (mass_matrix ?m Ae [5, 5, 6, 6])"
    using b by (simp add: getMass_spec_def Ae)
  have r: "repeat 2 [5, 6 :: real] = [5, 5, 6, 6]"
    by (simp add: repeat_def numeral_2_eq_2)
  have g: "getMass ?m (Some (Ndarray [2] [5, 6])) ''e'' = Inr (mass_matrix ?m Ae [5, 5, 6, 6])"
    by (simp add: getMass_def d r Ae mass_matrix_def)
  show ?thesis using v d c b s g Ae by simp
qed
section \<open>Properties of the receivers\<close>

subsection \<open>Arithmetic of arrays and diagonal matrices\<close>

lemma length_vops [simp]:
  "length (vsub a b) = min (length a) (length b)"
  "length (vadd a b) = min (length a) (length b)"
  "length (vmul a b) = min (length a) (length b)"
  "length (vneg a) = length a"
  "length (smul c a) = length a"
  "length (vdivs z r) = length z"
  "length (recip z) = length z"
  "length (spmv A x) = nrows A"
  "length (vecmat x A) = ncols A"
  by (simp_all add: vsub_def vadd_def vmul_def vneg_def smul_def vdivs_def recip_def spmv_def vecmat_def)

lemma nth_vops [simp]:
  "i < length a \<Longrightarrow> i < length b \<Longrightarrow> vsub a b ! i = a ! i - b ! i"
  "i < length a \<Longrightarrow> i < length b \<Longrightarrow> vadd a b ! i = a ! i + b ! i"
  "i < length a \<Longrightarrow> i < length b \<Longrightarrow> vmul a b ! i = a ! i * b ! i"
  "i < length a \<Longrightarrow> vneg a ! i = - a ! i"
  "i < length a \<Longrightarrow> smul c a ! i = c * a ! i"
  "i < length z \<Longrightarrow> vdivs z r ! i = z ! i / of_real r"
  "i < length z \<Longrightarrow> recip z ! i = 1 / z ! i"
  by (simp_all add: vsub_def vadd_def vmul_def vneg_def smul_def vdivs_def recip_def)

lemma dims_sdiag [simp]: "nrows (sdiag a) = length a" "ncols (sdiag a) = length a"
  by (simp_all add: sdiag_def)

lemma dims_spneg [simp]: "nrows (spneg A) = nrows A" "ncols (spneg A) = ncols A"
  by (simp_all add: spneg_def)

lemma dims_spT [simp]: "nrows (spT A) = ncols A" "ncols (spT A) = nrows A"
  by (simp_all add: spT_def)

lemma dims_spmm [simp]: "nrows (spmm A B) = nrows A" "ncols (spmm A B) = ncols B"
  by (simp_all add: spmm_def)

lemma nth_spmv: "i < nrows A \<Longrightarrow> spmv A x ! i = (\<Sum>j<ncols A. entry A i j * x ! j)"
  by (simp add: spmv_def)

lemma nth_spmv_sdiag [simp]:
  "i < length a \<Longrightarrow> spmv (sdiag a) x ! i = a ! i * (x ! i :: 'a::comm_ring_1)"
  by (simp add: nth_spmv sdiag_def if_distrib [of "\<lambda>t. t * _"] cong: if_cong)

lemma nth_spmv_spneg_sdiag [simp]:
  "i < length a \<Longrightarrow> spmv (spneg (sdiag a)) x ! i = - (a ! i * x ! i)"
  by (simp add: nth_spmv sdiag_def spneg_def if_distrib [of "\<lambda>t. t * _"] if_distrib [of uminus]
      cong: if_cong)

lemma spT_sdiag [simp]: "spT (sdiag a) = sdiag a"
  by (auto simp: spT_def sdiag_def fun_eq_iff)

lemma spmm_sdiag:
  "length a = length b \<Longrightarrow> spmm (sdiag a) (sdiag b) = sdiag (vmul a (b :: complex list))"
  by (auto simp: spmm_def sdiag_def fun_eq_iff if_distrib [of "\<lambda>t. t * _"] cong: if_cong)

subsection \<open>Interpolated components and the determinant\<close>

lemmas interp_defs = ex_px_def ey_px_def ex_py_def ey_py_def hx_px_def hy_px_def hz_px_def
  hx_py_def hy_py_def hz_py_def hx_num_px_def hy_num_px_def hx_num_py_def hy_num_py_def

lemmas interp_u_defs = ex_px_u_def ey_px_u_def ex_py_u_def ey_py_u_def hx_px_u_def hy_px_u_def
  hz_px_u_def hx_py_u_def hy_py_u_def hz_py_u_def hx_num_px_u_def hy_num_px_u_def
  hx_num_py_u_def hy_num_py_u_def

lemma length_interp: "rows_agree self \<Longrightarrow> length (interp self c) = nD self"
  by (cases c) (simp_all add: interp_defs rows_agree_def nD_def)

lemma length_interp_u: "rows_agree self \<Longrightarrow> length (interp_u self c v) = nD self"
  by (cases c) (simp_all add: interp_u_defs rows_agree_def nD_def)

lemma length_comps:
  assumes "rows_agree self"
  shows "length (ex_px self) = nD self" "length (ey_px self) = nD self"
    "length (ex_py self) = nD self" "length (ey_py self) = nD self"
    "length (hx_px self) = nD self" "length (hy_px self) = nD self" "length (hz_px self) = nD self"
    "length (hx_py self) = nD self" "length (hy_py self) = nD self" "length (hz_py self) = nD self"
    "length (hx_num_px self) = nD self" "length (hy_num_px self) = nD self"
    "length (hx_num_py self) = nD self" "length (hy_num_py self) = nD self"
  using length_interp [OF assms, of Ex_px] length_interp [OF assms, of Ey_px]
    length_interp [OF assms, of Ex_py] length_interp [OF assms, of Ey_py]
    length_interp [OF assms, of Hx_px] length_interp [OF assms, of Hy_px]
    length_interp [OF assms, of Hz_px] length_interp [OF assms, of Hx_py]
    length_interp [OF assms, of Hy_py] length_interp [OF assms, of Hz_py]
    length_interp [OF assms, of Hx_num_px] length_interp [OF assms, of Hy_num_px]
    length_interp [OF assms, of Hx_num_py] length_interp [OF assms, of Hy_num_py]
  by simp_all

lemma length_comps_u:
  assumes "rows_agree self"
  shows "length (ex_px_u self v) = nD self" "length (ey_px_u self v) = nD self"
    "length (ex_py_u self v) = nD self" "length (ey_py_u self v) = nD self"
    "length (hx_px_u self v) = nD self" "length (hy_px_u self v) = nD self"
    "length (hz_px_u self v) = nD self"
    "length (hx_py_u self v) = nD self" "length (hy_py_u self v) = nD self"
    "length (hz_py_u self v) = nD self"
    "length (hx_num_px_u self v) = nD self" "length (hy_num_px_u self v) = nD self"
    "length (hx_num_py_u self v) = nD self" "length (hy_num_py_u self v) = nD self"
  using length_interp_u [OF assms, of Ex_px] length_interp_u [OF assms, of Ey_px]
    length_interp_u [OF assms, of Ex_py] length_interp_u [OF assms, of Ey_py]
    length_interp_u [OF assms, of Hx_px] length_interp_u [OF assms, of Hy_px]
    length_interp_u [OF assms, of Hz_px] length_interp_u [OF assms, of Hx_py]
    length_interp_u [OF assms, of Hy_py] length_interp_u [OF assms, of Hz_py]
    length_interp_u [OF assms, of Hx_num_px] length_interp_u [OF assms, of Hy_num_px]
    length_interp_u [OF assms, of Hx_num_py] length_interp_u [OF assms, of Hy_num_py]
  by simp_all

lemma dims_Hd: "rows_agree self \<Longrightarrow> nrows (Hd self) = nD self"
  by (simp add: Hd_def length_comps)

lemma Hd_apply:
  assumes "rows_agree self" "d < nD self"
  shows "spmv (Hd self) Z ! d = 1 / comb self det_terms d * Z ! d"
  using assms by (simp add: Hd_def comb_def det_terms_def length_comps)

lemma Hd_uV_nth:
  assumes "rows_agree self" "d < nD self"
  shows "Hd_uV self v ! d = comb_u self det_terms v d"
  using assms
  by (simp add: Hd_uV_def comb_u_def det_terms_def length_comps length_comps_u algebra_simps)

lemma length_Hd_uV: "rows_agree self \<Longrightarrow> length (Hd_uV self v) = nD self"
  by (simp add: Hd_uV_def length_comps length_comps_u)

lemma py_in_tags [simp]:
  "py_in ''xx'' ''xx''" "\<not> py_in ''xx'' ''xy''" "\<not> py_in ''xx'' ''yx''" "\<not> py_in ''xx'' ''yy''"
  "\<not> py_in ''xx'' ''zx''" "\<not> py_in ''xx'' ''zy''"
  "\<not> py_in ''xy'' ''xx''" "py_in ''xy'' ''xy''" "\<not> py_in ''xy'' ''yx''" "\<not> py_in ''xy'' ''yy''"
  "\<not> py_in ''xy'' ''zx''" "\<not> py_in ''xy'' ''zy''"
  "\<not> py_in ''yx'' ''xx''" "\<not> py_in ''yx'' ''xy''" "py_in ''yx'' ''yx''" "\<not> py_in ''yx'' ''yy''"
  "\<not> py_in ''yx'' ''zx''" "\<not> py_in ''yx'' ''zy''"
  "\<not> py_in ''yy'' ''xx''" "\<not> py_in ''yy'' ''xy''" "\<not> py_in ''yy'' ''yx''" "py_in ''yy'' ''yy''"
  "\<not> py_in ''yy'' ''zx''" "\<not> py_in ''yy'' ''zy''"
  "\<not> py_in ''zx'' ''xx''" "\<not> py_in ''zx'' ''xy''" "\<not> py_in ''zx'' ''yx''" "\<not> py_in ''zx'' ''yy''"
  "py_in ''zx'' ''zx''" "\<not> py_in ''zx'' ''zy''"
  "\<not> py_in ''zy'' ''xx''" "\<not> py_in ''zy'' ''xy''" "\<not> py_in ''zy'' ''yx''" "\<not> py_in ''zy'' ''yy''"
  "\<not> py_in ''zy'' ''zx''" "py_in ''zy'' ''zy''"
  by simp_all

lemma impedance3D_Zij:
  assumes "rows_agree self" "orientation self \<in> {''xx'', ''xy'', ''yx'', ''yy''}"
  shows "\<exists>Z. Point_impedance3D_Zij self = Inr Z \<and> length Z = nD self
           \<and> (\<forall>d<nD self. Z ! d = comb self (impedance_terms (orientation self)) d)"
  using assms(2)
  by (auto simp: Point_impedance3D_Zij_def comb_def impedance_terms_def length_comps [OF assms(1)])

subsection \<open>The 3D impedance: value and forward derivative\<close>

lemma rebind_idem [simp]: "rebind (rebind self0 src mesh f) src mesh f = rebind self0 src mesh f"
  by (simp add: rebind_def)

lemma rebind_fields [simp]:
  "orientation (rebind self0 src mesh f) = orientation self0"
  "component (rebind self0 src mesh f) = component self0"
  "rx_mesh (rebind self0 src mesh f) = mesh"
  "rx_src (rebind self0 src mesh f) = src"
  "rx_f (rebind self0 src mesh f) = f"
  by (simp_all add: rebind_def)

lemma getattr_component_part:
  assumes "c = ''real'' \<or> c = ''imag''"
  shows "getattr_component z c = Inr (RealArr (map (part c) z))"
  using assms by (auto simp: getattr_component_def part_def)

lemma map_upt_eqI:
  assumes "length xs = n" "\<And>d. d < n \<Longrightarrow> xs ! d = g d"
  shows "xs = map g [0..<n]"
  using assms by (intro nth_equalityI) simp_all

lemma impedance3D_eval_complex:
  assumes self: "self = rebind self0 src mesh f"
    and rows: "rows_agree self"
    and ori: "orientation self \<in> {''xx'', ''xy'', ''yx'', ''yy''}"
  shows "Point_impedance3D_eval self0 src mesh f True
           = Inr (CplxArr (map (ratio self (impedance_terms (orientation self))) [0..<nD self]))"
proof -
  obtain Z where Z: "Point_impedance3D_Zij self = Inr Z" "length Z = nD self"
    "\<forall>d<nD self. Z ! d = comb self (impedance_terms (orientation self)) d"
    using impedance3D_Zij [OF rows ori] by blast
  have "spmv (Hd self) Z = map (ratio self (impedance_terms (orientation self))) [0..<nD self]"
    by (rule map_upt_eqI) (simp_all add: dims_Hd rows Hd_apply Z ratio_def)
  then show ?thesis
    by (simp add: Point_impedance3D_eval_def self [symmetric] Z)
qed

lemma impedance3D_ZijN_uV:
  assumes "rows_agree self" "orientation self \<in> {''xx'', ''xy'', ''yx'', ''yy''}"
  shows "\<exists>N. Point_impedance3D_ZijN_uV self v = Inr N \<and> length N = nD self
           \<and> (\<forall>d<nD self. N ! d = comb_u self (impedance_terms (orientation self)) v d)"
  using assms(2)
  by (auto simp: Point_impedance3D_ZijN_uV_def comb_u_def impedance_terms_def
      length_comps [OF assms(1)] length_comps_u [OF assms(1)] algebra_simps)

lemma impedance3D_evalDeriv_forward:
  assumes self: "self = rebind self0 src mesh f"
    and rows: "rows_agree self"
    and ori: "orientation self \<in> {''xx'', ''xy'', ''yx'', ''yy''}"
  shows "Point_impedance3D_evalDeriv self0 src mesh f v False
           = getattr_component (map (ratio_u self (impedance_terms (orientation self)) v) [0..<nD self])
               (component self)"
proof -
  let ?ts = "impedance_terms (orientation self)"
  obtain N where N: "Point_impedance3D_ZijN_uV self v = Inr N" "length N = nD self"
    "\<forall>d<nD self. N ! d = comb_u self ?ts v d"
    using impedance3D_ZijN_uV [OF rows ori] by blast
  have e: "Point_impedance3D_eval self src mesh f True = Inr (CplxArr (map (ratio self ?ts) [0..<nD self]))"
    using impedance3D_eval_complex [of self self src mesh f] rows ori by (simp add: self)
  have "spmv (Hd self) (vsub N (spmv (sdiag (map (ratio self ?ts) [0..<nD self])) (Hd_uV self v)))
      = map (ratio_u self ?ts v) [0..<nD self]"
    by (rule map_upt_eqI) (simp_all add: dims_Hd rows Hd_apply N ratio_u_def Hd_uV_nth)
  then show ?thesis
    by (simp add: Point_impedance3D_evalDeriv_def self [symmetric] N e)
qed

subsection \<open>The tipper: value and forward derivative\<close>

lemma tipper3D_Tij:
  assumes "rows_agree self" "orientation self \<in> {''zx'', ''zy''}"
  shows "\<exists>Z. Point_tipper3D_Tij self = Inr Z \<and> length Z = nD self
           \<and> (\<forall>d<nD self. Z ! d = comb self (tipper_terms (orientation self)) d)"
  using assms(2)
  by (auto simp: Point_tipper3D_Tij_def comb_def tipper_terms_def length_comps [OF assms(1)])

lemma tipper3D_eval_complex:
  assumes self: "self = rebind self0 src mesh f"
    and rows: "rows_agree self"
    and ori: "orientation self \<in> {''zx'', ''zy''}"
  shows "Point_tipper3D_eval self0 src mesh f True
           = Inr (CplxArr (map (ratio self (tipper_terms (orientation self))) [0..<nD self]))"
proof -
  obtain Z where Z: "Point_tipper3D_Tij self = Inr Z" "length Z = nD self"
    "\<forall>d<nD self. Z ! d = comb self (tipper_terms (orientation self)) d"
    using tipper3D_Tij [OF rows ori] by blast
  have "spmv (Hd self) Z = map (ratio self (tipper_terms (orientation self))) [0..<nD self]"
    by (rule map_upt_eqI) (simp_all add: dims_Hd rows Hd_apply Z ratio_def)
  then show ?thesis
    by (simp add: Point_tipper3D_eval_def self [symmetric] Z)
qed

lemma tipper3D_TijN_uV:
  assumes "rows_agree self" "orientation self \<in> {''zx'', ''zy''}"
  shows "\<exists>N. Point_tipper3D_TijN_uV self v = Inr N \<and> length N = nD self
           \<and> (\<forall>d<nD self. N ! d = comb_u self (tipper_terms (orientation self)) v d)"
  using assms(2)
  by (auto simp: Point_tipper3D_TijN_uV_def comb_u_def tipper_terms_def
      length_comps [OF assms(1)] length_comps_u [OF assms(1)] algebra_simps)

lemma tipper3D_evalDeriv_forward:
  assumes self: "self = rebind self0 src mesh f"
    and rows: "rows_agree self"
    and ori: "orientation self \<in> {''zx'', ''zy''}"
  shows "Point_tipper3D_evalDeriv self0 src mesh f v False
           = getattr_component (map (ratio_u self (tipper_terms (orientation self)) v) [0..<nD self])
               (component self)"
proof -
  let ?ts = "tipper_terms (orientation self)"
  obtain N where N: "Point_tipper3D_TijN_uV self v = Inr N" "length N = nD self"
    "\<forall>d<nD self. N ! d = comb_u self ?ts v d"
    using tipper3D_TijN_uV [OF rows ori] by blast
  have e: "Point_tipper3D_eval self src mesh f True = Inr (CplxArr (map (ratio self ?ts) [0..<nD self]))"
    using tipper3D_eval_complex [of self self src mesh f] rows ori by (simp add: self)
  have "spmv (Hd self) (vsub N (spmv (sdiag (map (ratio self ?ts) [0..<nD self])) (Hd_uV self v)))
      = map (ratio_u self ?ts v) [0..<nD self]"
    by (rule map_upt_eqI) (simp_all add: dims_Hd rows Hd_apply N ratio_u_def Hd_uV_nth)
  then show ?thesis
    by (simp add: Point_tipper3D_evalDeriv_def self [symmetric] N e)
qed

subsection \<open>The horizontal magnetic transfer: value and forward derivative\<close>

lemma hmv_overrides:
  "Hd_hmv self = Hd self" "Hd_uV_hmv self v = Hd_uV self v"
  "aHd_hmv self = aHd self" "aHd_uV_hmv self x = aHd_uV self x"
  by (simp_all add: Hd_hmv_def Hd_def Hd_uV_hmv_def Hd_uV_def aHd_hmv_def aHd_def aHd_uV_hmv_def
      aHd_uV_def sDiag_def)

lemma horizontalmagvar3D_Mij:
  assumes "rows_agree self" "orientation self \<in> {''xx'', ''xy'', ''yx'', ''yy''}"
  shows "\<exists>Z. Point_horizontalmagvar3D_Mij self = Inr (Z, schmucker (orientation self))
           \<and> length Z = nD self
           \<and> (\<forall>d<nD self. Z ! d = comb self (horizontalmagvar_terms (orientation self)) d)"
  using assms(2)
  by (auto simp: Point_horizontalmagvar3D_Mij_def comb_def horizontalmagvar_terms_def schmucker_def
      length_comps [OF assms(1)])

lemma horizontalmagvar3D_eval_complex:
  assumes self: "self = rebind self0 src mesh f"
    and rows: "rows_agree self"
    and ori: "orientation self \<in> {''xx'', ''xy'', ''yx'', ''yy''}"
  shows "Point_horizontalmagvar3D_eval self0 src mesh f True
           = Inr (CplxArr (map (\<lambda>d. ratio self (horizontalmagvar_terms (orientation self)) d
                                    - schmucker (orientation self)) [0..<nD self]))"
proof -
  let ?ts = "horizontalmagvar_terms (orientation self)"
  obtain Z where Z: "Point_horizontalmagvar3D_Mij self = Inr (Z, schmucker (orientation self))"
    "length Z = nD self" "\<forall>d<nD self. Z ! d = comb self ?ts d"
    using horizontalmagvar3D_Mij [OF rows ori] by blast
  have "map (\<lambda>z. z - schmucker (orientation self)) (spmv (Hd self) Z)
      = map (\<lambda>d. ratio self ?ts d - schmucker (orientation self)) [0..<nD self]"
    by (rule map_upt_eqI) (simp_all add: dims_Hd rows Hd_apply Z ratio_def)
  then show ?thesis
    by (simp add: Point_horizontalmagvar3D_eval_def self [symmetric] Z hmv_overrides)
qed

lemma horizontalmagvar3D_MijN_uV:
  assumes "rows_agree self" "orientation self \<in> {''xx'', ''xy'', ''yx'', ''yy''}"
  shows "\<exists>N. Point_horizontalmagvar3D_MijN_uV self v = Inr (N, schmucker (orientation self))
           \<and> length N = nD self
           \<and> (\<forall>d<nD self. N ! d = comb_u self (horizontalmagvar_terms (orientation self)) v d)"
  using assms(2)
  by (auto simp: Point_horizontalmagvar3D_MijN_uV_def comb_u_def horizontalmagvar_terms_def
      schmucker_def sDiag_def length_comps [OF assms(1)] length_comps_u [OF assms(1)] algebra_simps)

lemma horizontalmagvar3D_evalDeriv_forward:
  assumes self: "self = rebind self0 src mesh f"
    and rows: "rows_agree self"
    and ori: "orientation self \<in> {''xx'', ''xy'', ''yx'', ''yy''}"
  shows "Point_horizontalmagvar3D_evalDeriv self0 src mesh f v False
           = getattr_component
               (map (ratio_u self (horizontalmagvar_terms (orientation self)) v) [0..<nD self])
               (component self)"
proof -
  let ?ts = "horizontalmagvar_terms (orientation self)"
  let ?c = "schmucker (orientation self)"
  obtain N where N: "Point_horizontalmagvar3D_MijN_uV self v = Inr (N, ?c)" "length N = nD self"
    "\<forall>d<nD self. N ! d = comb_u self ?ts v d"
    using horizontalmagvar3D_MijN_uV [OF rows ori] by blast
  have e: "Point_horizontalmagvar3D_eval self src mesh f True
             = Inr (CplxArr (map (\<lambda>d. ratio self ?ts d - ?c) [0..<nD self]))"
    using horizontalmagvar3D_eval_complex [of self self src mesh f] rows ori by (simp add: self)
  have "spmv (Hd self)
          (vsub N (spmv (sdiag (map (\<lambda>z. z + ?c) (map (\<lambda>d. ratio self ?ts d - ?c) [0..<nD self])))
                        (Hd_uV self v)))
      = map (ratio_u self ?ts v) [0..<nD self]"
    by (rule map_upt_eqI) (simp_all add: dims_Hd rows Hd_apply N ratio_u_def Hd_uV_nth)
  then show ?thesis
    by (simp add: Point_horizontalmagvar3D_evalDeriv_def self [symmetric] N e hmv_overrides sDiag_def)
qed

subsection \<open>The 1D impedance: value and forward derivative\<close>

lemma length_1D:
  assumes "rows_agree_1D self"
  shows "length (ex_1D self) = nD_1D self" "length (hx_1D self) = nD_1D self"
    "length (ex_u_1D self v) = nD_1D self" "length (hx_u_1D self v) = nD_1D self"
    "nrows (Hd_1D self) = nD_1D self" "ncols (Hd_1D self) = nD_1D self"
  using assms
  by (simp_all add: rows_agree_1D_def nD_1D_def ex_1D_def hx_1D_def ex_u_1D_def hx_u_1D_def Hd_1D_def)

lemma impedance1D_eval_complex:
  assumes self: "self = rebind self0 src mesh f"
    and rows: "rows_agree_1D self"
  shows "Point_impedance1D_eval self0 src mesh f True
           = Inr (CplxArr (map (ratio_1D self) [0..<nD_1D self]))"
proof -
  have "spmv (spneg (Hd_1D self)) (ex_1D self) = map (ratio_1D self) [0..<nD_1D self]"
    by (rule map_upt_eqI) (simp_all add: length_1D [OF rows] Hd_1D_def ratio_1D_def)
  then show ?thesis
    by (simp add: Point_impedance1D_eval_def self [symmetric])
qed

lemma impedance1D_evalDeriv_forward:
  assumes self: "self = rebind self0 src mesh f"
    and rows: "rows_agree_1D self"
  shows "Point_impedance1D_evalDeriv self0 src mesh f v False
           = getattr_component (map (ratio_u_1D self v) [0..<nD_1D self]) (component self)"
proof -
  have e: "Point_impedance1D_eval self src mesh f True
             = Inr (CplxArr (map (ratio_1D self) [0..<nD_1D self]))"
    using impedance1D_eval_complex [of self self src mesh f] rows by (simp add: self)
  have "spmv (Hd_1D self)
          (vsub (vneg (ex_u_1D self v))
                (spmv (sdiag (map (ratio_1D self) [0..<nD_1D self])) (hx_u_1D self v)))
      = map (ratio_u_1D self v) [0..<nD_1D self]"
    by (rule map_upt_eqI) (simp_all add: length_1D [OF rows] Hd_1D_def ratio_u_1D_def)
  then show ?thesis
    by (simp add: Point_impedance1D_evalDeriv_def self [symmetric] e)
qed

subsection \<open>Dot products and transposes\<close>

lemma dot_spmv: 
  assumes "length y = nrows P"
  shows "dot y (spmv P x) = dot (spmv (spT P) y) x"
proof -
  have "dot y (spmv P x) = (\<Sum>i<nrows P. \<Sum>j<ncols P. y ! i * (entry P i j * x ! j))"
    using assms by (simp add: dot_def nth_spmv sum_distrib_left)
  also have "\<dots> = (\<Sum>j<ncols P. \<Sum>i<nrows P. y ! i * (entry P i j * x ! j))"
    by (rule sum.swap)
  also have "\<dots> = dot (spmv (spT P) y) x"
    by (simp add: dot_def nth_spmv spT_def sum_distrib_left sum_distrib_right mult_ac)
  finally show ?thesis .
qed

lemma dot_vadd: "length a = length v \<Longrightarrow> length b = length v \<Longrightarrow> dot v (vadd a b) = dot v a + dot v b"
  by (simp add: dot_def sum.distrib [symmetric] algebra_simps)

lemma dot_vsub: "length a = length v \<Longrightarrow> length b = length v \<Longrightarrow> dot v (vsub a b) = dot v a - dot v b"
  by (simp add: dot_def sum_subtractf [symmetric] algebra_simps)

lemma dot_vneg: "length a = length v \<Longrightarrow> dot v (vneg a) = - dot v a"
  by (simp add: dot_def sum_negf [symmetric])

lemma dot_vdivs: "length a = length v \<Longrightarrow> dot v (vdivs a c) = dot v a / of_real c"
  by (simp add: dot_def sum_divide_distrib)

lemma dot_smul: "length a = length v \<Longrightarrow> dot v (smul c a) = c * dot v a"
  by (simp add: dot_def sum_distrib_left mult_ac)

lemma dot_sdiag: 
  "length a = length x \<Longrightarrow> length z = length x \<Longrightarrow> dot (spmv (sdiag a) x) z = dot x (spmv (sdiag a) z)"
  by (simp add: dot_def mult_ac)

lemma dot_neg_sdiag: 
  "length a = length x \<Longrightarrow> length z = length x \<Longrightarrow> dot x (spmv (spneg (sdiag a)) z) = - dot x (spmv (sdiag a) z)"
  by (simp add: dot_def sum_negf [symmetric])

lemma vecmat_spT: "vecmat x (spT A) = spmv A x"
  by (simp add: vecmat_def spmv_def spT_def mult.commute)

lemma spmv_vdivs: "length b = ncols P \<Longrightarrow> spmv P (vdivs b c) = vdivs (spmv P b) c"
  by (rule nth_equalityI) (simp_all add: nth_spmv sum_divide_distrib)

lemma ainterp_eq:
  assumes "shapes_3D self nU"
  shows "ainterp self c = interp self c"
  using assms
  by (cases c)
    (simp_all add: shapes_3D_def interp_defs aex_px_def aey_px_def aex_py_def aey_py_def
      ahx_px_def ahy_px_def ahz_px_def ahx_py_def ahy_py_def ahz_py_def ahx_num_px_def
      ahy_num_px_def ahx_num_py_def ahy_num_py_def vecmat_spT spmv_vdivs)

lemma pair_e:
  assumes "adjoint_pair G nU (ncols P)" "length v = nU" "length y = nrows P"
  shows "length (G (spmv (spT P) y) True) = nU"
    "dot v (G (spmv (spT P) y) True) = dot y (spmv P (G v False))"
proof -
  have l: "length (spmv (spT P) y) = ncols P" by simp
  from assms(1) [unfolded adjoint_pair_def, rule_format, of v "spmv (spT P) y"] assms(2) l
  have a: "length (G (spmv (spT P) y) True) = nU"
    "dot (spmv (spT P) y) (G v False) = dot v (G (spmv (spT P) y) True)"
    by simp_all
  show "length (G (spmv (spT P) y) True) = nU" by (rule a(1))
  show "dot v (G (spmv (spT P) y) True) = dot y (spmv P (G v False))"
    using a(2) dot_spmv [OF assms(3), of "G v False"] by simp
qed

lemma pair_b:
  assumes "adjoint_pair G nU (ncols P)" "length v = nU" "length y = nrows P"
  shows "length (vdivs (G (spmv (spT P) y) True) c) = nU"
    "dot v (vdivs (G (spmv (spT P) y) True) c) = dot y (vdivs (spmv P (G v False)) c)"
  using pair_e [OF assms] assms(2,3) by (simp_all add: dot_vdivs)

subsection \<open>Adjoint pairs of the components\<close>

lemmas ainterp_u_defs = aex_px_u_def aey_px_u_def aex_py_u_def aey_py_u_def ahx_px_u_def
  ahy_px_u_def ahz_px_u_def ahx_py_u_def ahy_py_u_def ahz_py_u_def ahx_num_px_u_def
  ahy_num_px_u_def ahx_num_py_u_def ahy_num_py_u_def

lemma shapes_3D_rows: "shapes_3D self nU \<Longrightarrow> rows_agree self"
  by (simp add: shapes_3D_def)

lemma ainterp_u_pair:
  assumes sh: "shapes_3D self nU" and v: "length v = nU" and y: "length y = nD self"
  shows "length (ainterp_u self c y) = nU \<and> dot v (ainterp_u self c y) = dot y (interp_u self c v)"
proof -
  have r: "nrows (Pex self) = length y" "nrows (Pey self) = length y" "nrows (Pbx self) = length y"
    "nrows (Pby self) = length y" "nrows (Pbz self) = length y" "nrows (Pbx_num self) = length y"
    "nrows (Pby_num self) = length y"
    using sh y by (simp_all add: shapes_3D_def rows_agree_def nD_def)
  have epx: "adjoint_pair (e_pxDeriv_u (rx_f self) (rx_src self)) nU (ncols (Pex self))"
       "adjoint_pair (e_pxDeriv_u (rx_f self) (rx_src self)) nU (ncols (Pey self))"
   and epy: "adjoint_pair (e_pyDeriv_u (rx_f self) (rx_src self)) nU (ncols (Pex self))"
       "adjoint_pair (e_pyDeriv_u (rx_f self) (rx_src self)) nU (ncols (Pey self))"
   and bpx: "adjoint_pair (b_pxDeriv_u (rx_f self) (rx_src self)) nU (ncols (Pbx self))"
       "adjoint_pair (b_pxDeriv_u (rx_f self) (rx_src self)) nU (ncols (Pby self))"
       "adjoint_pair (b_pxDeriv_u (rx_f self) (rx_src self)) nU (ncols (Pbz self))"
       "adjoint_pair (b_pxDeriv_u (rx_f self) (rx_src self)) nU (ncols (Pbx_num self))"
       "adjoint_pair (b_pxDeriv_u (rx_f self) (rx_src self)) nU (ncols (Pby_num self))"
   and bpy: "adjoint_pair (b_pyDeriv_u (rx_f self) (rx_src self)) nU (ncols (Pbx self))"
       "adjoint_pair (b_pyDeriv_u (rx_f self) (rx_src self)) nU (ncols (Pby self))"
       "adjoint_pair (b_pyDeriv_u (rx_f self) (rx_src self)) nU (ncols (Pbz self))"
       "adjoint_pair (b_pyDeriv_u (rx_f self) (rx_src self)) nU (ncols (Pbx_num self))"
       "adjoint_pair (b_pyDeriv_u (rx_f self) (rx_src self)) nU (ncols (Pby_num self))"
    using sh by (simp_all add: shapes_3D_def)
  show ?thesis
  proof (cases c)
    case Ex_px then show ?thesis
      using pair_e [OF epx(1) v r(1) [symmetric]] by (simp add: aex_px_u_def ex_px_u_def)
  next
    case Ey_px then show ?thesis
      using pair_e [OF epx(2) v r(2) [symmetric]] by (simp add: aey_px_u_def ey_px_u_def)
  next
    case Ex_py then show ?thesis
      using pair_e [OF epy(1) v r(1) [symmetric]] by (simp add: aex_py_u_def ex_py_u_def)
  next
    case Ey_py then show ?thesis
      using pair_e [OF epy(2) v r(2) [symmetric]] by (simp add: aey_py_u_def ey_py_u_def)
  next
    case Hx_px then show ?thesis
      using pair_b [OF bpx(1) v r(3) [symmetric]] by (simp add: ahx_px_u_def hx_px_u_def)
  next
    case Hy_px then show ?thesis
      using pair_b [OF bpx(2) v r(4) [symmetric]] by (simp add: ahy_px_u_def hy_px_u_def)
  next
    case Hz_px then show ?thesis
      using pair_b [OF bpx(3) v r(5) [symmetric]] by (simp add: ahz_px_u_def hz_px_u_def)
  next
    case Hx_py then show ?thesis
      using pair_b [OF bpy(1) v r(3) [symmetric]] by (simp add: ahx_py_u_def hx_py_u_def)
  next
    case Hy_py then show ?thesis
      using pair_b [OF bpy(2) v r(4) [symmetric]] by (simp add: ahy_py_u_def hy_py_u_def)
  next
    case Hz_py then show ?thesis
      using pair_b [OF bpy(3) v r(5) [symmetric]] by (simp add: ahz_py_u_def hz_py_u_def)
  next
    case Hx_num_px then show ?thesis
      using pair_b [OF bpx(4) v r(6) [symmetric]] by (simp add: ahx_num_px_u_def hx_num_px_u_def)
  next
    case Hy_num_px then show ?thesis
      using pair_b [OF bpx(5) v r(7) [symmetric]] by (simp add: ahy_num_px_u_def hy_num_px_u_def)
  next
    case Hx_num_py then show ?thesis
      using pair_b [OF bpy(4) v r(6) [symmetric]] by (simp add: ahx_num_py_u_def hx_num_py_u_def)
  next
    case Hy_num_py then show ?thesis
      using pair_b [OF bpy(5) v r(7) [symmetric]] by (simp add: ahy_num_py_u_def hy_num_py_u_def)
  qed
qed

text \<open>One signed term of a numerator closure and its forward counterpart.\<close>

lemma term_pair:
  assumes sh: "shapes_3D self nU" and v: "length v = nU" and x: "length x = nD self"
  shows "length (ainterp_u self c (spmv (sdiag (ainterp self a)) x)) = nU"
    "dot v (ainterp_u self c (spmv (sdiag (ainterp self a)) x))
       = dot x (spmv (sdiag (interp self a)) (interp_u self c v))"
proof -
  have la: "length (interp self a) = nD self"
    by (rule length_interp [OF shapes_3D_rows [OF sh]])
  have lu: "length (interp_u self c v) = nD self"
    by (rule length_interp_u [OF shapes_3D_rows [OF sh]])
  have ly: "length (spmv (sdiag (interp self a)) x) = nD self" by (simp add: la)
  note p = ainterp_u_pair [OF sh v ly, of c]
  show "length (ainterp_u self c (spmv (sdiag (ainterp self a)) x)) = nU"
    using p by (simp add: ainterp_eq [OF sh])
  show "dot v (ainterp_u self c (spmv (sdiag (ainterp self a)) x))
       = dot x (spmv (sdiag (interp self a)) (interp_u self c v))"
    using p dot_sdiag [of "interp self a" x "interp_u self c v"] la lu x
    by (simp add: ainterp_eq [OF sh])
qed

subsection \<open>The numerator closures are transposes\<close>

lemmas fold_interp = ainterp_u.simps [symmetric] ainterp.simps [symmetric]
  interp.simps [symmetric] interp_u.simps [symmetric]

lemma len_fwd_term:
  assumes "shapes_3D self nU"
  shows "length (spmv (sdiag (interp self a)) (interp_u self c v)) = nD self"
    "length (spmv (spneg (sdiag (interp self a))) (interp_u self c v)) = nD self"
  by (simp_all add: length_interp [OF shapes_3D_rows [OF assms]])

lemma dot_neg_term:
  assumes "shapes_3D self nU" "length x = nD self"
  shows "dot x (spmv (spneg (sdiag (interp self a))) (interp_u self c v))
       = - dot x (spmv (sdiag (interp self a)) (interp_u self c v))"
  using assms
  by (intro dot_neg_sdiag)
    (simp_all add: length_interp [OF shapes_3D_rows] length_interp_u [OF shapes_3D_rows])

lemma impedance3D_numerator_pair:
  assumes sh: "shapes_3D self nU" and v: "length v = nU" and x: "length x = nD self"
    and ori: "orientation self \<in> {''xx'', ''xy'', ''yx'', ''yy''}"
  shows "\<exists>Zij aN N. Point_impedance3D_adjoint_branch self = Inr (Zij, aN)
           \<and> Point_impedance3D_ZijN_uV self v = Inr N
           \<and> length (aN x) = nU \<and> length N = nD self \<and> dot v (aN x) = dot x N"
proof -
  note tp = term_pair [OF sh v x] len_fwd_term [OF sh] dot_neg_term [OF sh x]
    length_interp [OF shapes_3D_rows [OF sh]] length_interp_u [OF shapes_3D_rows [OF sh]]
  have eqs: "length v = nU" "length x = nD self" by (rule v, rule x)
  from ori consider "orientation self = ''xx''" | "orientation self = ''xy''"
    | "orientation self = ''yx''" | "orientation self = ''yy''" by auto
  then show ?thesis
  proof cases
    case 1
    show ?thesis
      unfolding Point_impedance3D_adjoint_branch_def Point_impedance3D_ZijN_uV_def 1 fold_interp
      by (simp add: tp eqs dot_vadd dot_vsub dot_vneg del: interp.simps interp_u.simps ainterp.simps
          ainterp_u.simps)
  next
    case 2
    show ?thesis
      unfolding Point_impedance3D_adjoint_branch_def Point_impedance3D_ZijN_uV_def 2 fold_interp
      by (simp add: tp eqs dot_vadd dot_vsub dot_vneg del: interp.simps interp_u.simps ainterp.simps
          ainterp_u.simps)
  next
    case 3
    show ?thesis
      unfolding Point_impedance3D_adjoint_branch_def Point_impedance3D_ZijN_uV_def 3 fold_interp
      by (simp add: tp eqs dot_vadd dot_vsub dot_vneg del: interp.simps interp_u.simps ainterp.simps
          ainterp_u.simps)
  next
    case 4
    show ?thesis
      unfolding Point_impedance3D_adjoint_branch_def Point_impedance3D_ZijN_uV_def 4 fold_interp
      by (simp add: tp eqs dot_vadd dot_vsub dot_vneg del: interp.simps interp_u.simps ainterp.simps
          ainterp_u.simps)
  qed
qed

lemma tipper3D_numerator_pair:
  assumes sh: "shapes_3D self nU" and v: "length v = nU" and x: "length x = nD self"
    and ori: "orientation self \<in> {''zx'', ''zy''}"
  shows "\<exists>Tij aN N. Point_tipper3D_adjoint_branch self = Inr (Tij, aN)
           \<and> Point_tipper3D_TijN_uV self v = Inr N
           \<and> length (aN x) = nU \<and> length N = nD self \<and> dot v (aN x) = dot x N"
proof -
  note tp = term_pair [OF sh v x] len_fwd_term [OF sh] dot_neg_term [OF sh x]
    length_interp [OF shapes_3D_rows [OF sh]] length_interp_u [OF shapes_3D_rows [OF sh]]
  have eqs: "length v = nU" "length x = nD self" by (rule v, rule x)
  from ori consider "orientation self = ''zx''" | "orientation self = ''zy''" by auto
  then show ?thesis
  proof cases
    case 1
    show ?thesis
      unfolding Point_tipper3D_adjoint_branch_def Point_tipper3D_TijN_uV_def 1 fold_interp
      by (simp add: tp eqs dot_vadd dot_vsub dot_vneg del: interp.simps interp_u.simps ainterp.simps
          ainterp_u.simps)
  next
    case 2
    show ?thesis
      unfolding Point_tipper3D_adjoint_branch_def Point_tipper3D_TijN_uV_def 2 fold_interp
      by (simp add: tp eqs dot_vadd dot_vsub dot_vneg del: interp.simps interp_u.simps ainterp.simps
          ainterp_u.simps)
  qed
qed

lemma horizontalmagvar3D_numerator_pair:
  assumes sh: "shapes_3D self nU" and v: "length v = nU" and x: "length x = nD self"
    and ori: "orientation self \<in> {''xx'', ''xy'', ''yx'', ''yy''}"
  shows "\<exists>Mij aN N c. Point_horizontalmagvar3D_adjoint_branch self = Inr (Mij, aN)
           \<and> Point_horizontalmagvar3D_MijN_uV self v = Inr (N, c)
           \<and> length (aN x) = nU \<and> length N = nD self \<and> dot v (aN x) = dot x N"
proof -
  note tp = term_pair [OF sh v x] len_fwd_term [OF sh] dot_neg_term [OF sh x]
    length_interp [OF shapes_3D_rows [OF sh]] length_interp_u [OF shapes_3D_rows [OF sh]]
  have eqs: "length v = nU" "length x = nD self" by (rule v, rule x)
  from ori consider "orientation self = ''xx''" | "orientation self = ''xy''"
    | "orientation self = ''yx''" | "orientation self = ''yy''" by auto
  then show ?thesis
  proof cases
    case 1
    show ?thesis
      unfolding Point_horizontalmagvar3D_adjoint_branch_def Point_horizontalmagvar3D_MijN_uV_def 1
        sDiag_def fold_interp
      by (simp add: tp eqs dot_vadd dot_vsub dot_vneg del: interp.simps interp_u.simps ainterp.simps
          ainterp_u.simps)
  next
    case 2
    show ?thesis
      unfolding Point_horizontalmagvar3D_adjoint_branch_def Point_horizontalmagvar3D_MijN_uV_def 2
        sDiag_def fold_interp
      by (simp add: tp eqs dot_vadd dot_vsub dot_vneg del: interp.simps interp_u.simps ainterp.simps
          ainterp_u.simps)
  next
    case 3
    show ?thesis
      unfolding Point_horizontalmagvar3D_adjoint_branch_def Point_horizontalmagvar3D_MijN_uV_def 3
        sDiag_def fold_interp
      by (simp add: tp eqs dot_vadd dot_vsub dot_vneg del: interp.simps interp_u.simps ainterp.simps
          ainterp_u.simps)
  next
    case 4
    show ?thesis
      unfolding Point_horizontalmagvar3D_adjoint_branch_def Point_horizontalmagvar3D_MijN_uV_def 4
        sDiag_def fold_interp
      by (simp add: tp eqs dot_vadd dot_vsub dot_vneg del: interp.simps interp_u.simps ainterp.simps
          ainterp_u.simps)
  qed
qed

lemma aHd_eq: "shapes_3D self nU \<Longrightarrow> aHd self = Hd self"
  using ainterp_eq [of self nU Hx_px] ainterp_eq [of self nU Hy_py] ainterp_eq [of self nU Hx_py]
    ainterp_eq [of self nU Hy_px]
  by (simp add: aHd_def Hd_def)

lemma dot_Hd:
  assumes "rows_agree self" "length u = nD self" "length N = nD self"
  shows "dot (spmv (Hd self) u) N = dot u (spmv (Hd self) N)"
  unfolding Hd_def using assms by (intro dot_sdiag) (simp_all add: length_comps)

text \<open>1D: the whole adjoint is the transpose of the complex forward derivative.\<close>

lemma impedance1D_adjoint:
  assumes self: "self = rebind self0 src mesh f"
    and sh: "shapes_1D self nU" and v: "length v = nU" and u: "length u = nD_1D self"
    and c: "component self = ''real'' \<or> component self = ''imag''"
  shows "\<exists>a. Point_impedance1D_evalDeriv self0 src mesh f u True = Inr (CplxArr a)
           \<and> length a = nU
           \<and> dot v a = (if component self = ''imag'' then \<i> else 1)
                        * dot u (map (ratio_u_1D self v) [0..<nD_1D self])"
proof -
  have rows: "rows_agree_1D self" using sh by (simp add: shapes_1D_def)
  have pe: "adjoint_pair (eDeriv_u (rx_f self) (rx_src self)) nU (ncols (Pex_1D self))"
    and pb: "adjoint_pair (bDeriv_u (rx_f self) (rx_src self)) nU (ncols (Pbx_1D self))"
    using sh by (simp_all add: shapes_1D_def)
  let ?Z = "map (ratio_1D self) [0..<nD_1D self]"
  let ?h = "recip (hx_1D self)"
  let ?x1 = "spmv (spT (Hd_1D self)) u"
  let ?x2 = "spmv (spmm (spT (sdiag ?Z)) (spT (Hd_1D self))) u"
  let ?flat = "vsub (vneg (aex_u_1D self ?x1)) (ahx_u_1D self ?x2)"
  have e: "Point_impedance1D_eval self src mesh f True = Inr (CplxArr ?Z)"
    using impedance1D_eval_complex [of self self src mesh f] rows by (simp add: self)
  have lh: "length ?h = nD_1D self" by (simp add: length_1D [OF rows])
  have x1: "?x1 = vmul ?h u"
    by (rule nth_equalityI) (simp_all add: Hd_1D_def length_1D [OF rows] u)
  have x2: "?x2 = vmul (vmul ?Z ?h) u"
    by (rule nth_equalityI) (simp_all add: Hd_1D_def length_1D [OF rows] u spmm_sdiag)
  have lx: "length ?x1 = nrows (Pex_1D self)" "length ?x2 = nrows (Pbx_1D self)"
    using rows by (simp_all add: Hd_1D_def length_1D [OF rows] rows_agree_1D_def nD_1D_def)
  note p1 = pair_e [OF pe v lx(1)] and p2 = pair_b [OF pb v lx(2), of mu_0]
  have "dot v ?flat = - dot ?x1 (ex_u_1D self v) - dot ?x2 (hx_u_1D self v)"
    using p1 p2 v by (simp add: aex_u_1D_def ahx_u_1D_def ex_u_1D_def hx_u_1D_def dot_vsub dot_vneg)
  also have "\<dots> = dot u (map (ratio_u_1D self v) [0..<nD_1D self])"
    unfolding x1 x2
    by (simp add: dot_def u length_1D [OF rows] ratio_u_1D_def ratio_1D_def sum_negf [symmetric]
        sum_subtractf [symmetric] algebra_simps)
  finally have d: "dot v ?flat = dot u (map (ratio_u_1D self v) [0..<nD_1D self])" .
  have lf: "length ?flat = nU"
    using p1(1) p2(1) by (simp add: aex_u_1D_def ahx_u_1D_def)
  show ?thesis
    using c d lf v
    by (auto simp: Point_impedance1D_evalDeriv_def self [symmetric] e Let_def dot_smul)
qed

subsection \<open>Orientations outside a variant's table\<close>

lemma impedance3D_unbound:
  assumes "orientation self0 \<in> {''zx'', ''zy''}"
  shows "Point_impedance3D_eval self0 src mesh f rc = Inl (UnboundLocalError ''Zij'')"
    "Point_impedance3D_evalDeriv self0 src mesh f v False = Inl (UnboundLocalError ''Zij'')"
    "Point_impedance3D_evalDeriv self0 src mesh f v True = Inl (UnboundLocalError ''ZijN_uV'')"
  using assms
  by (auto simp: Point_impedance3D_eval_def Point_impedance3D_evalDeriv_def Point_impedance3D_Zij_def
      Point_impedance3D_adjoint_branch_def Let_def)

lemma tipper3D_unbound:
  assumes "orientation self0 \<in> {''xx'', ''xy'', ''yx'', ''yy''}"
  shows "Point_tipper3D_eval self0 src mesh f rc = Inl (UnboundLocalError ''Tij'')"
    "Point_tipper3D_evalDeriv self0 src mesh f v False = Inl (UnboundLocalError ''Tij'')"
    "Point_tipper3D_evalDeriv self0 src mesh f v True = Inl (UnboundLocalError ''TijN_uV'')"
  using assms
  by (auto simp: Point_tipper3D_eval_def Point_tipper3D_evalDeriv_def Point_tipper3D_Tij_def
      Point_tipper3D_adjoint_branch_def Let_def)

lemma horizontalmagvar3D_unbound:
  assumes "orientation self0 \<in> {''zx'', ''zy''}"
  shows "Point_horizontalmagvar3D_eval self0 src mesh f rc = Inl (UnboundLocalError ''Mij'')"
    "Point_horizontalmagvar3D_evalDeriv self0 src mesh f v False = Inl (UnboundLocalError ''Mij'')"
    "Point_horizontalmagvar3D_evalDeriv self0 src mesh f v True = Inl (UnboundLocalError ''MijN_uV'')"
  using assms
  by (auto simp: Point_horizontalmagvar3D_eval_def Point_horizontalmagvar3D_evalDeriv_def
      Point_horizontalmagvar3D_Mij_def Point_horizontalmagvar3D_adjoint_branch_def Let_def)

subsection \<open>Shape of the adjoint output\<close>

lemma term_len:
  assumes sh: "shapes_3D self nU"
  shows "length (ainterp_u self c (spmv (sdiag (ainterp self a)) x)) = nU"
proof -
  have "length (spmv (sdiag (interp self a)) x) = nD self"
    by (simp add: length_interp [OF shapes_3D_rows [OF sh]])
  from ainterp_u_pair [OF sh _ this, of "replicate nU 0" c] show ?thesis
    by (simp add: ainterp_eq [OF sh])
qed

lemma length_aHd_uV: "shapes_3D self nU \<Longrightarrow> length (aHd_uV self y) = nU"
  unfolding aHd_uV_def fold_interp
  by (simp add: term_len del: interp.simps interp_u.simps ainterp.simps ainterp_u.simps)

lemma impedance3D_adjoint_len:
  assumes sh: "shapes_3D self nU" and ori: "orientation self \<in> {''xx'', ''xy'', ''yx'', ''yy''}"
  shows "\<exists>Zij aN. Point_impedance3D_adjoint_branch self = Inr (Zij, aN) \<and> (\<forall>x. length (aN x) = nU)"
  using ori unfolding Point_impedance3D_adjoint_branch_def fold_interp
  by (auto simp add: term_len [OF sh] simp del: interp.simps interp_u.simps ainterp.simps ainterp_u.simps)

lemma tipper3D_adjoint_len:
  assumes sh: "shapes_3D self nU" and ori: "orientation self \<in> {''zx'', ''zy''}"
  shows "\<exists>Zij aN. Point_tipper3D_adjoint_branch self = Inr (Zij, aN) \<and> (\<forall>x. length (aN x) = nU)"
  using ori unfolding Point_tipper3D_adjoint_branch_def fold_interp
  by (auto simp add: term_len [OF sh] simp del: interp.simps interp_u.simps ainterp.simps ainterp_u.simps)

lemma horizontalmagvar3D_adjoint_len:
  assumes sh: "shapes_3D self nU" and ori: "orientation self \<in> {''xx'', ''xy'', ''yx'', ''yy''}"
  shows "\<exists>Zij aN. Point_horizontalmagvar3D_adjoint_branch self = Inr (Zij, aN)
           \<and> (\<forall>x. length (aN x) = nU)"
  using ori unfolding Point_horizontalmagvar3D_adjoint_branch_def sDiag_def fold_interp
  by (auto simp add: term_len [OF sh] simp del: interp.simps interp_u.simps ainterp.simps ainterp_u.simps)

lemma reshape2T_ok: "length x = 2 * n \<Longrightarrow> reshape2T n x = Inr (polarization_columns n 1 x)"
  by (simp add: reshape2T_def polarization_columns_def)

lemma times_i_columns:
  "map (map (\<lambda>z. \<i> * z)) (polarization_columns n 1 x) = polarization_columns n \<i> x"
  by (simp add: polarization_columns_def)

subsection \<open>The component does not enter before the last step\<close>

lemma component_irrelevant_P [simp]:
    "f_get (self\<lparr>component := c\<rparr>) name = f_get self name"
    "Pex (self\<lparr>component := c\<rparr>) = Pex self"
    "Pey (self\<lparr>component := c\<rparr>) = Pey self"
    "Pbx (self\<lparr>component := c\<rparr>) = Pbx self"
    "Pby (self\<lparr>component := c\<rparr>) = Pby self"
    "Pbz (self\<lparr>component := c\<rparr>) = Pbz self"
    "Pbx_num (self\<lparr>component := c\<rparr>) = Pbx_num self"
    "Pby_num (self\<lparr>component := c\<rparr>) = Pby_num self"
    "Pex_1D (self\<lparr>component := c\<rparr>) = Pex_1D self"
    "Pbx_1D (self\<lparr>component := c\<rparr>) = Pbx_1D self"
    "loc_numerator (self\<lparr>component := c\<rparr>) = loc_numerator self"
    "loc_denominator (self\<lparr>component := c\<rparr>) = loc_denominator self"
  by (simp_all add:
      f_get_def Pex_def Pey_def Pbx_def Pby_def Pbz_def Pbx_num_def Pby_num_def Pex_1D_def
       Pbx_1D_def loc_numerator_def loc_denominator_def
      split: option.splits locarr.splits)

lemma component_irrelevant_fields [simp]:
    "ex_px (self\<lparr>component := c\<rparr>) = ex_px self"
    "ey_px (self\<lparr>component := c\<rparr>) = ey_px self"
    "ex_py (self\<lparr>component := c\<rparr>) = ex_py self"
    "ey_py (self\<lparr>component := c\<rparr>) = ey_py self"
    "hx_px (self\<lparr>component := c\<rparr>) = hx_px self"
    "hy_px (self\<lparr>component := c\<rparr>) = hy_px self"
    "hz_px (self\<lparr>component := c\<rparr>) = hz_px self"
    "hx_py (self\<lparr>component := c\<rparr>) = hx_py self"
    "hy_py (self\<lparr>component := c\<rparr>) = hy_py self"
    "hz_py (self\<lparr>component := c\<rparr>) = hz_py self"
    "hx_num_px (self\<lparr>component := c\<rparr>) = hx_num_px self"
    "hy_num_px (self\<lparr>component := c\<rparr>) = hy_num_px self"
    "hx_num_py (self\<lparr>component := c\<rparr>) = hx_num_py self"
    "hy_num_py (self\<lparr>component := c\<rparr>) = hy_num_py self"
    "aex_px (self\<lparr>component := c\<rparr>) = aex_px self"
    "aey_px (self\<lparr>component := c\<rparr>) = aey_px self"
    "aex_py (self\<lparr>component := c\<rparr>) = aex_py self"
    "aey_py (self\<lparr>component := c\<rparr>) = aey_py self"
    "ahx_px (self\<lparr>component := c\<rparr>) = ahx_px self"
    "ahy_px (self\<lparr>component := c\<rparr>) = ahy_px self"
    "ahz_px (self\<lparr>component := c\<rparr>) = ahz_px self"
    "ahx_py (self\<lparr>component := c\<rparr>) = ahx_py self"
    "ahy_py (self\<lparr>component := c\<rparr>) = ahy_py self"
    "ahz_py (self\<lparr>component := c\<rparr>) = ahz_py self"
    "ahx_num_px (self\<lparr>component := c\<rparr>) = ahx_num_px self"
    "ahy_num_px (self\<lparr>component := c\<rparr>) = ahy_num_px self"
    "ahx_num_py (self\<lparr>component := c\<rparr>) = ahx_num_py self"
    "ahy_num_py (self\<lparr>component := c\<rparr>) = ahy_num_py self"
    "ex_1D (self\<lparr>component := c\<rparr>) = ex_1D self"
    "hx_1D (self\<lparr>component := c\<rparr>) = hx_1D self"
    "ex_px_u (self\<lparr>component := c\<rparr>) y = ex_px_u self y"
    "ey_px_u (self\<lparr>component := c\<rparr>) y = ey_px_u self y"
    "ex_py_u (self\<lparr>component := c\<rparr>) y = ex_py_u self y"
    "ey_py_u (self\<lparr>component := c\<rparr>) y = ey_py_u self y"
    "hx_px_u (self\<lparr>component := c\<rparr>) y = hx_px_u self y"
    "hy_px_u (self\<lparr>component := c\<rparr>) y = hy_px_u self y"
    "hz_px_u (self\<lparr>component := c\<rparr>) y = hz_px_u self y"
    "hx_py_u (self\<lparr>component := c\<rparr>) y = hx_py_u self y"
    "hy_py_u (self\<lparr>component := c\<rparr>) y = hy_py_u self y"
    "hz_py_u (self\<lparr>component := c\<rparr>) y = hz_py_u self y"
    "hx_num_px_u (self\<lparr>component := c\<rparr>) y = hx_num_px_u self y"
    "hy_num_px_u (self\<lparr>component := c\<rparr>) y = hy_num_px_u self y"
    "hx_num_py_u (self\<lparr>component := c\<rparr>) y = hx_num_py_u self y"
    "hy_num_py_u (self\<lparr>component := c\<rparr>) y = hy_num_py_u self y"
    "aex_px_u (self\<lparr>component := c\<rparr>) y = aex_px_u self y"
    "aey_px_u (self\<lparr>component := c\<rparr>) y = aey_px_u self y"
    "aex_py_u (self\<lparr>component := c\<rparr>) y = aex_py_u self y"
    "aey_py_u (self\<lparr>component := c\<rparr>) y = aey_py_u self y"
    "ahx_px_u (self\<lparr>component := c\<rparr>) y = ahx_px_u self y"
    "ahy_px_u (self\<lparr>component := c\<rparr>) y = ahy_px_u self y"
    "ahz_px_u (self\<lparr>component := c\<rparr>) y = ahz_px_u self y"
    "ahx_py_u (self\<lparr>component := c\<rparr>) y = ahx_py_u self y"
    "ahy_py_u (self\<lparr>component := c\<rparr>) y = ahy_py_u self y"
    "ahz_py_u (self\<lparr>component := c\<rparr>) y = ahz_py_u self y"
    "ahx_num_px_u (self\<lparr>component := c\<rparr>) y = ahx_num_px_u self y"
    "ahy_num_px_u (self\<lparr>component := c\<rparr>) y = ahy_num_px_u self y"
    "ahx_num_py_u (self\<lparr>component := c\<rparr>) y = ahx_num_py_u self y"
    "ahy_num_py_u (self\<lparr>component := c\<rparr>) y = ahy_num_py_u self y"
    "ex_u_1D (self\<lparr>component := c\<rparr>) y = ex_u_1D self y"
    "hx_u_1D (self\<lparr>component := c\<rparr>) y = hx_u_1D self y"
    "aex_u_1D (self\<lparr>component := c\<rparr>) y = aex_u_1D self y"
    "ahx_u_1D (self\<lparr>component := c\<rparr>) y = ahx_u_1D self y"
  by (simp_all add:
      ex_px_def ey_px_def ex_py_def ey_py_def hx_px_def hy_px_def hz_px_def hx_py_def hy_py_def
       hz_py_def hx_num_px_def hy_num_px_def hx_num_py_def hy_num_py_def aex_px_def aey_px_def
       aex_py_def aey_py_def ahx_px_def ahy_px_def ahz_px_def ahx_py_def ahy_py_def ahz_py_def
       ahx_num_px_def ahy_num_px_def ahx_num_py_def ahy_num_py_def ex_1D_def hx_1D_def
       ex_px_u_def ey_px_u_def ex_py_u_def ey_py_u_def hx_px_u_def hy_px_u_def hz_px_u_def
       hx_py_u_def hy_py_u_def hz_py_u_def hx_num_px_u_def hy_num_px_u_def hx_num_py_u_def
       hy_num_py_u_def aex_px_u_def aey_px_u_def aex_py_u_def aey_py_u_def ahx_px_u_def
       ahy_px_u_def ahz_px_u_def ahx_py_u_def ahy_py_u_def ahz_py_u_def ahx_num_px_u_def
       ahy_num_px_u_def ahx_num_py_u_def ahy_num_py_u_def ex_u_1D_def hx_u_1D_def aex_u_1D_def
       ahx_u_1D_def)

lemma component_irrelevant_Hd [simp]:
    "Hd (self\<lparr>component := c\<rparr>) = Hd self"
    "aHd (self\<lparr>component := c\<rparr>) = aHd self"
    "Hd_hmv (self\<lparr>component := c\<rparr>) = Hd_hmv self"
    "aHd_hmv (self\<lparr>component := c\<rparr>) = aHd_hmv self"
    "Hd_1D (self\<lparr>component := c\<rparr>) = Hd_1D self"
    "Hd_uV (self\<lparr>component := c\<rparr>) y = Hd_uV self y"
    "aHd_uV (self\<lparr>component := c\<rparr>) y = aHd_uV self y"
    "Hd_uV_hmv (self\<lparr>component := c\<rparr>) y = Hd_uV_hmv self y"
    "aHd_uV_hmv (self\<lparr>component := c\<rparr>) y = aHd_uV_hmv self y"
  by (simp_all add:
      Hd_def aHd_def Hd_hmv_def aHd_hmv_def Hd_1D_def Hd_uV_def aHd_uV_def Hd_uV_hmv_def
       aHd_uV_hmv_def)

lemma rebind_component:
  "rebind (self0\<lparr>component := c\<rparr>) src mesh f = (rebind self0 src mesh f)\<lparr>component := c\<rparr>"
  by (simp add: rebind_def)

lemma branches_component [simp]:
  "Point_impedance3D_adjoint_branch (self\<lparr>component := c\<rparr>) = Point_impedance3D_adjoint_branch self"
  "Point_tipper3D_adjoint_branch (self\<lparr>component := c\<rparr>) = Point_tipper3D_adjoint_branch self"
  "Point_horizontalmagvar3D_adjoint_branch (self\<lparr>component := c\<rparr>)
     = Point_horizontalmagvar3D_adjoint_branch self"
  by (simp_all add: Point_impedance3D_adjoint_branch_def Point_tipper3D_adjoint_branch_def
      Point_horizontalmagvar3D_adjoint_branch_def)

lemma impedance3D_imag_is_i_real:
  "Point_impedance3D_evalDeriv (self0\<lparr>component := ''imag''\<rparr>) src mesh f v True
     = map_sum id times_i
         (Point_impedance3D_evalDeriv (self0\<lparr>component := ''real''\<rparr>) src mesh f v True)"
  by (simp add: Point_impedance3D_evalDeriv_def rebind_component Let_def
      split: sum.splits prod.splits)

lemma tipper3D_imag_is_i_real:
  "Point_tipper3D_evalDeriv (self0\<lparr>component := ''imag''\<rparr>) src mesh f v True
     = map_sum id times_i
         (Point_tipper3D_evalDeriv (self0\<lparr>component := ''real''\<rparr>) src mesh f v True)"
  by (simp add: Point_tipper3D_evalDeriv_def rebind_component Let_def
      split: sum.splits prod.splits)

lemma horizontalmagvar3D_imag_is_i_real:
  "Point_horizontalmagvar3D_evalDeriv (self0\<lparr>component := ''imag''\<rparr>) src mesh f v True
     = map_sum id times_i
         (Point_horizontalmagvar3D_evalDeriv (self0\<lparr>component := ''real''\<rparr>) src mesh f v True)"
  by (simp add: Point_horizontalmagvar3D_evalDeriv_def rebind_component Let_def
      split: sum.splits prod.splits)

lemma impedance1D_imag_is_i_real:
  "Point_impedance1D_evalDeriv (self0\<lparr>component := ''imag''\<rparr>) src mesh f v True
     = map_sum id times_i
         (Point_impedance1D_evalDeriv (self0\<lparr>component := ''real''\<rparr>) src mesh f v True)"
  by (simp add: Point_impedance1D_evalDeriv_def Point_impedance1D_eval_def rebind_component Let_def
      split: sum.splits prod.splits)

subsection \<open>The concrete collaborators\<close>

lemma mu_0_nonzero [simp]: "mu_0 \<noteq> 0" "complex_of_real mu_0 \<noteq> 0"
  by (simp_all add: mu_0_def)

lemma ex_rebind [simp]: "rebind (ex_rx ori c) () ex_mesh ex_fields = ex_rx ori c"
  by (simp add: rebind_def ex_rx_def)

lemma ex1_rebind [simp]: "rebind (ex1_rx c) () ex1_mesh ex1_fields = ex1_rx c"
  by (simp add: rebind_def ex1_rx_def)

lemma ex_P:
  "Pex (ex_rx ori c) = \<lparr>nrows = 1, ncols = 1, entry = (\<lambda>i j. 1)\<rparr>"
  "Pey (ex_rx ori c) = \<lparr>nrows = 1, ncols = 1, entry = (\<lambda>i j. 2)\<rparr>"
  "Pbx (ex_rx ori c) = \<lparr>nrows = 1, ncols = 2, entry = (\<lambda>i j. if j = 0 then 1 else 0)\<rparr>"
  "Pby (ex_rx ori c) = \<lparr>nrows = 1, ncols = 2, entry = (\<lambda>i j. if j = 1 then 1 else 0)\<rparr>"
  "Pbz (ex_rx ori c) = \<lparr>nrows = 1, ncols = 2, entry = (\<lambda>i j. 1)\<rparr>"
  "Pbx_num (ex_rx ori c) = \<lparr>nrows = 1, ncols = 2, entry = (\<lambda>i j. if j = 0 then 1 else 0)\<rparr>"
  "Pby_num (ex_rx ori c) = \<lparr>nrows = 1, ncols = 2, entry = (\<lambda>i j. if j = 1 then 1 else 0)\<rparr>"
  by (simp_all add: Pex_def Pey_def Pbx_def Pby_def Pbz_def Pbx_num_def Pby_num_def ex_rx_def
      ex_mesh_def)

lemma ex_f:
  "f_get (ex_rx ori c) ''e_px'' = [1]" "f_get (ex_rx ori c) ''e_py'' = [0]"
  "f_get (ex_rx ori c) ''b_px'' = [0, - complex_of_real mu_0]"
  "f_get (ex_rx ori c) ''b_py'' = [complex_of_real mu_0, 0]"
  "rx_f (ex_rx ori c) = ex_fields" "rx_src (ex_rx ori c) = ()" "rx_mesh (ex_rx ori c) = ex_mesh"
  "orientation (ex_rx ori c) = ori" "component (ex_rx ori c) = c"
  by (simp_all add: f_get_def ex_rx_def ex_fields_def)

lemma sum2: "(\<Sum>j<2. g j) = g 0 + (g (1::nat) :: complex)"
  by (simp add: numeral_2_eq_2)

lemma ex_interp:
  "ex_px (ex_rx ori c) = [1]" "ey_px (ex_rx ori c) = [2]"
  "ex_py (ex_rx ori c) = [0]" "ey_py (ex_rx ori c) = [0]"
  "hx_px (ex_rx ori c) = [0]" "hy_px (ex_rx ori c) = [-1]" "hz_px (ex_rx ori c) = [-1]"
  "hx_py (ex_rx ori c) = [1]" "hy_py (ex_rx ori c) = [0]" "hz_py (ex_rx ori c) = [1]"
  "hx_num_px (ex_rx ori c) = [0]" "hy_num_px (ex_rx ori c) = [-1]"
  "hx_num_py (ex_rx ori c) = [1]" "hy_num_py (ex_rx ori c) = [0]"
  by (simp_all add: interp_defs ex_P ex_f spmv_def vdivs_def sum2)

lemma ex_rows: "rows_agree (ex_rx ori c)" "nD (ex_rx ori c) = 1"
  by (simp_all add: rows_agree_def nD_def ex_P)

lemma len2: "length x = 2 \<Longrightarrow> \<exists>a b. x = [a, b]"
  by (cases x; cases "tl x") auto

lemma len1: "length x = Suc 0 \<Longrightarrow> \<exists>a. x = [a]"
  by (cases x) auto

lemma ex_pairs:
  "adjoint_pair (e_pxDeriv_u ex_fields ()) 2 (Suc 0)"
  "adjoint_pair (e_pyDeriv_u ex_fields ()) 2 (Suc 0)"
  "adjoint_pair (b_pxDeriv_u ex_fields ()) 2 2"
  "adjoint_pair (b_pyDeriv_u ex_fields ()) 2 2"
  unfolding adjoint_pair_def
  by (auto simp: ex_fields_def dot_def sum2 dest!: len2 len1)

lemma ex_shapes: "shapes_3D (ex_rx ori c) 2"
  by (simp add: shapes_3D_def ex_rows ex_P ex_f ex_pairs)

lemma ex1_P:
  "Pex_1D (ex1_rx c) = \<lparr>nrows = 1, ncols = 1, entry = (\<lambda>i j. 1)\<rparr>"
  "Pbx_1D (ex1_rx c) = \<lparr>nrows = 1, ncols = 1, entry = (\<lambda>i j. 1)\<rparr>"
  by (simp_all add: Pex_1D_def Pbx_1D_def ex1_rx_def ex1_mesh_def)

lemma ex1_f:
  "f_get (ex1_rx c) ''e_1d'' = [1]" "f_get (ex1_rx c) ''b_1d'' = [complex_of_real mu_0]"
  "rx_f (ex1_rx c) = ex1_fields" "rx_src (ex1_rx c) = ()" "rx_mesh (ex1_rx c) = ex1_mesh"
  "component (ex1_rx c) = c"
  by (simp_all add: f_get_def ex1_rx_def ex1_fields_def)

lemma ex1_pairs:
  "adjoint_pair (eDeriv_u ex1_fields ()) (Suc 0) (Suc 0)"
  "adjoint_pair (bDeriv_u ex1_fields ()) (Suc 0) (Suc 0)"
  unfolding adjoint_pair_def
  by (auto simp: ex1_fields_def dot_def dest!: len1)

lemma ex1_shapes: "shapes_1D (ex1_rx c) 1" "nD_1D (ex1_rx c) = 1"
  by (simp_all add: shapes_1D_def rows_agree_1D_def nD_1D_def ex1_P ex1_f ex1_pairs)

lemma ex1_vals:
  "ex_1D (ex1_rx c) = [1]" "hx_1D (ex1_rx c) = [1]"
  "ex_u_1D (ex1_rx c) v = [v ! 0]" "hx_u_1D (ex1_rx c) v = [0]"
  "aex_u_1D (ex1_rx c) v = [v ! 0]" "ahx_u_1D (ex1_rx c) v = [0]"
  by (simp_all add: ex_1D_def hx_1D_def ex_u_1D_def hx_u_1D_def aex_u_1D_def ahx_u_1D_def ex1_P ex1_f
      spmv_def vdivs_def ex1_fields_def spT_def)

lemma ex1_eval:
  "Point_impedance1D_eval (ex1_rx c) () ex1_mesh ex1_fields True = Inr (CplxArr [-1])"
  by (simp add: Point_impedance1D_eval_def Hd_1D_def ex1_vals spmv_def spneg_def sdiag_def recip_def)

lemma ex1_fwd_imag:
  "Point_impedance1D_evalDeriv (ex1_rx ''imag'') () ex1_mesh ex1_fields [1] False = Inr (RealArr [0])"
  by (simp add: Point_impedance1D_evalDeriv_def ex1_eval Hd_1D_def ex1_vals ex1_f spmv_def sdiag_def
      recip_def vsub_def vneg_def getattr_component_def)

lemma ex1_adj_imag:
  "Point_impedance1D_evalDeriv (ex1_rx ''imag'') () ex1_mesh ex1_fields [1] True
     = Inr (CplxArr [- \<i>])"
  by (simp add: Point_impedance1D_evalDeriv_def ex1_eval Hd_1D_def ex1_vals ex1_f spmv_def sdiag_def
      recip_def vsub_def vneg_def smul_def spmm_def spT_def)

subsection \<open>The adjoint result by name\<close>

text \<open>The determinant factor and the ratio are diagonal matrices of the tables' values.\<close>

lemma Hd_sdiag:
  assumes rows: "rows_agree self"
  shows "Hd self = sdiag (map (\<lambda>d. 1 / comb self det_terms d) [0..<nD self])"
  unfolding Hd_def
  by (rule arg_cong [of _ _ sdiag], rule map_upt_eqI)
    (simp_all add: comb_def det_terms_def length_comps [OF rows] recip_def)

lemma aHd_apply:
  assumes "shapes_3D self nU"
  shows "spmv (aHd self) u = over_det self u"
  unfolding over_det_def aHd_eq [OF assms] Hd_sdiag [OF shapes_3D_rows [OF assms]]
  by (rule map_upt_eqI) simp_all

lemma ratio_apply:
  assumes "shapes_3D self nU"
  shows "spmv (spmm (spT (sdiag (map (ratio self ts) [0..<nD self]))) (aHd self)) u
           = ratio_over_det self ts u"
  unfolding aHd_eq [OF assms] Hd_sdiag [OF shapes_3D_rows [OF assms]] ratio_over_det_def
  by (rule map_upt_eqI) (simp_all add: spmm_sdiag)

lemma quotient_pairing:
  assumes rows: "rows_agree self" and u: "length u = nD self" and n: "length N = nD self"
    and p: "\<forall>d<nD self. N ! d = comb_u self ts v d"
  shows "dot u (map (ratio_u self ts v) [0..<nD self])
           = dot u (spmv (Hd self) N) - dot (ratio_over_det self ts u) (Hd_uV self v)"
  using p
  by (simp add: dot_def u ratio_over_det_def ratio_u_def Hd_sdiag [OF rows]
      Hd_uV_nth [OF rows] sum_subtractf [symmetric] algebra_simps)

lemma sdiag_ratio:
  assumes rows: "rows_agree self" and x: "\<forall>d<nD self. x ! d = comb self ts d"
  shows "sdiag (spmv (Hd self) x) = sdiag (map (ratio self ts) [0..<nD self])"
  using x unfolding Hd_sdiag [OF rows]
  by (intro arg_cong [of _ _ sdiag] map_upt_eqI) (simp_all add: ratio_def)

lemmas ainterp_facts = ainterp_eq [of _ _ Ex_px, simplified] ainterp_eq [of _ _ Ex_py, simplified]
  ainterp_eq [of _ _ Ey_px, simplified] ainterp_eq [of _ _ Ey_py, simplified]
  ainterp_eq [of _ _ Hx_px, simplified] ainterp_eq [of _ _ Hx_py, simplified]
  ainterp_eq [of _ _ Hy_px, simplified] ainterp_eq [of _ _ Hy_py, simplified]
  ainterp_eq [of _ _ Hz_px, simplified] ainterp_eq [of _ _ Hz_py, simplified]
  ainterp_eq [of _ _ Hx_num_px, simplified] ainterp_eq [of _ _ Hx_num_py, simplified]
  ainterp_eq [of _ _ Hy_num_px, simplified] ainterp_eq [of _ _ Hy_num_py, simplified]

lemma impedance3D_adjoint_ratio:
  assumes sh: "shapes_3D self nU" and ori: "orientation self \<in> {''xx'', ''xy'', ''yx'', ''yy''}"
  shows "\<exists>aN. Point_impedance3D_adjoint_branch self
            = Inr (sdiag (map (ratio self (impedance_terms (orientation self))) [0..<nD self]), aN)"
proof -
  note rows = shapes_3D_rows [OF sh]
  note a = ainterp_facts [OF sh]
  from ori consider "orientation self = ''xx''" | "orientation self = ''xy''"
    | "orientation self = ''yx''" | "orientation self = ''yy''" by auto
  then show ?thesis
  proof cases
    case 1
    show ?thesis
      unfolding Point_impedance3D_adjoint_branch_def 1
      by (simp add: a aHd_eq [OF sh], rule sdiag_ratio [OF rows],
          simp add: comb_def impedance_terms_def length_comps [OF rows])
  next
    case 2
    show ?thesis
      unfolding Point_impedance3D_adjoint_branch_def 2
      by (simp add: a aHd_eq [OF sh], rule sdiag_ratio [OF rows],
          simp add: comb_def impedance_terms_def length_comps [OF rows])
  next
    case 3
    show ?thesis
      unfolding Point_impedance3D_adjoint_branch_def 3
      by (simp add: a aHd_eq [OF sh], rule sdiag_ratio [OF rows],
          simp add: comb_def impedance_terms_def length_comps [OF rows])
  next
    case 4
    show ?thesis
      unfolding Point_impedance3D_adjoint_branch_def 4
      by (simp add: a aHd_eq [OF sh], rule sdiag_ratio [OF rows],
          simp add: comb_def impedance_terms_def length_comps [OF rows])
  qed
qed

lemma tipper3D_adjoint_ratio:
  assumes sh: "shapes_3D self nU" and ori: "orientation self \<in> {''zx'', ''zy''}"
  shows "\<exists>aN. Point_tipper3D_adjoint_branch self
            = Inr (sdiag (map (ratio self (tipper_terms (orientation self))) [0..<nD self]), aN)"
proof -
  note rows = shapes_3D_rows [OF sh]
  note a = ainterp_facts [OF sh]
  from ori consider "orientation self = ''zx''" | "orientation self = ''zy''" by auto
  then show ?thesis
  proof cases
    case 1
    show ?thesis
      unfolding Point_tipper3D_adjoint_branch_def 1
      by (simp add: a aHd_eq [OF sh], rule sdiag_ratio [OF rows],
          simp add: comb_def tipper_terms_def length_comps [OF rows])
  next
    case 2
    show ?thesis
      unfolding Point_tipper3D_adjoint_branch_def 2
      by (simp add: a aHd_eq [OF sh], rule sdiag_ratio [OF rows],
          simp add: comb_def tipper_terms_def length_comps [OF rows])
  qed
qed

lemma horizontalmagvar3D_adjoint_ratio:
  assumes sh: "shapes_3D self nU" and ori: "orientation self \<in> {''xx'', ''xy'', ''yx'', ''yy''}"
  shows "\<exists>aN. Point_horizontalmagvar3D_adjoint_branch self
            = Inr (sdiag (map (ratio self (horizontalmagvar_terms (orientation self))) [0..<nD self]),
                   aN)"
proof -
  note rows = shapes_3D_rows [OF sh]
  note a = ainterp_facts [OF sh]
  from ori consider "orientation self = ''xx''" | "orientation self = ''xy''"
    | "orientation self = ''yx''" | "orientation self = ''yy''" by auto
  then show ?thesis
  proof cases
    case 1
    show ?thesis
      unfolding Point_horizontalmagvar3D_adjoint_branch_def 1
      by (simp add: a aHd_eq [OF sh] hmv_overrides sDiag_def, rule sdiag_ratio [OF rows],
          simp add: comb_def horizontalmagvar_terms_def length_comps [OF rows])
  next
    case 2
    show ?thesis
      unfolding Point_horizontalmagvar3D_adjoint_branch_def 2
      by (simp add: a aHd_eq [OF sh] hmv_overrides sDiag_def, rule sdiag_ratio [OF rows],
          simp add: comb_def horizontalmagvar_terms_def length_comps [OF rows])
  next
    case 3
    show ?thesis
      unfolding Point_horizontalmagvar3D_adjoint_branch_def 3
      by (simp add: a aHd_eq [OF sh] hmv_overrides sDiag_def, rule sdiag_ratio [OF rows],
          simp add: comb_def horizontalmagvar_terms_def length_comps [OF rows])
  next
    case 4
    show ?thesis
      unfolding Point_horizontalmagvar3D_adjoint_branch_def 4
      by (simp add: a aHd_eq [OF sh] hmv_overrides sDiag_def, rule sdiag_ratio [OF rows],
          simp add: comb_def horizontalmagvar_terms_def length_comps [OF rows])
  qed
qed

text \<open>
  The adjoint derivative of a 3D variant is \<open>k * (aN (aHd v) - aHd_uV (Zij.T aHd v))\<close> in two
  columns, with \<open>aN\<close> the numerator closure and \<open>Zij\<close> the ratio of the orientation.
\<close>

lemma impedance3D_adjoint_struct:
  assumes self: "self = rebind self0 src mesh f"
    and sh: "shapes_3D self (2 * mesh_nE mesh)"
    and b: "Point_impedance3D_adjoint_branch self = Inr (Zij, aN)"
    and ori: "orientation self \<in> {''xx'', ''xy'', ''yx'', ''yy''}"
    and c: "component self = ''real'' \<or> component self = ''imag''"
  shows "Point_impedance3D_evalDeriv self0 src mesh f u True
           = Inr (CplxMat (polarization_columns (mesh_nE mesh)
                             (if component self = ''imag'' then \<i> else 1)
                             (vsub (aN (spmv (aHd self) u))
                                   (aHd_uV self (spmv (spmm (spT Zij) (aHd self)) u)))))"
proof -
  have l: "\<forall>x. length (aN x) = 2 * mesh_nE mesh"
    using impedance3D_adjoint_len [OF sh ori] b by auto
  have m: "rx_mesh self = mesh" by (simp add: self)
  show ?thesis
    using c l
    by (auto simp: Point_impedance3D_evalDeriv_def self [symmetric] b Let_def m reshape2T_ok
        times_i_columns length_aHd_uV [OF sh])
qed

lemma tipper3D_adjoint_struct:
  assumes self: "self = rebind self0 src mesh f"
    and sh: "shapes_3D self (2 * mesh_nE mesh)"
    and b: "Point_tipper3D_adjoint_branch self = Inr (Zij, aN)"
    and ori: "orientation self \<in> {''zx'', ''zy''}"
    and c: "component self = ''real'' \<or> component self = ''imag''"
  shows "Point_tipper3D_evalDeriv self0 src mesh f u True
           = Inr (CplxMat (polarization_columns (mesh_nE mesh)
                             (if component self = ''imag'' then \<i> else 1)
                             (vsub (aN (spmv (aHd self) u))
                                   (aHd_uV self (spmv (spmm (spT Zij) (aHd self)) u)))))"
proof -
  have l: "\<forall>x. length (aN x) = 2 * mesh_nE mesh"
    using tipper3D_adjoint_len [OF sh ori] b by auto
  have m: "rx_mesh self = mesh" by (simp add: self)
  show ?thesis
    using c l
    by (auto simp: Point_tipper3D_evalDeriv_def self [symmetric] b Let_def m reshape2T_ok
        times_i_columns length_aHd_uV [OF sh])
qed

lemma horizontalmagvar3D_adjoint_struct:
  assumes self: "self = rebind self0 src mesh f"
    and sh: "shapes_3D self (2 * mesh_nE mesh)"
    and b: "Point_horizontalmagvar3D_adjoint_branch self = Inr (Zij, aN)"
    and ori: "orientation self \<in> {''xx'', ''xy'', ''yx'', ''yy''}"
    and c: "component self = ''real'' \<or> component self = ''imag''"
  shows "Point_horizontalmagvar3D_evalDeriv self0 src mesh f u True
           = Inr (CplxMat (polarization_columns (mesh_nE mesh)
                             (if component self = ''imag'' then \<i> else 1)
                             (vsub (aN (spmv (aHd self) u))
                                   (aHd_uV self (spmv (spmm (spT Zij) (aHd self)) u)))))"
proof -
  have l: "\<forall>x. length (aN x) = 2 * mesh_nE mesh"
    using horizontalmagvar3D_adjoint_len [OF sh ori] b by auto
  have m: "rx_mesh self = mesh" by (simp add: self)
  show ?thesis
    using c l
    by (auto simp: Point_horizontalmagvar3D_evalDeriv_def self [symmetric] b Let_def m reshape2T_ok
        times_i_columns length_aHd_uV [OF sh] hmv_overrides)
qed

lemma impedance3D_adjoint_columns:
  assumes self: "self = rebind self0 src mesh f"
    and sh: "shapes_3D self (2 * mesh_nE mesh)"
    and ori: "orientation self \<in> {''xx'', ''xy'', ''yx'', ''yy''}"
    and c: "component self = ''real'' \<or> component self = ''imag''"
  shows "\<exists>aN. Point_impedance3D_adjoint_branch self
             = Inr (sdiag (map (ratio self (impedance_terms (orientation self))) [0..<nD self]), aN)
           \<and> length (adjoint_flat self (impedance_terms (orientation self)) aN u) = 2 * mesh_nE mesh
           \<and> Point_impedance3D_evalDeriv self0 src mesh f u True
               = Inr (CplxMat (polarization_columns (mesh_nE mesh)
                    (if component self = ''imag'' then \<i> else 1)
                    (adjoint_flat self (impedance_terms (orientation self)) aN u)))"
proof -
  obtain aN where b: "Point_impedance3D_adjoint_branch self
      = Inr (sdiag (map (ratio self (impedance_terms (orientation self))) [0..<nD self]), aN)"
    using impedance3D_adjoint_ratio [OF sh ori] by blast
  have l: "length (aN x) = 2 * mesh_nE mesh" for x
    using impedance3D_adjoint_len [OF sh ori] b by auto
  have s: "Point_impedance3D_evalDeriv self0 src mesh f u True
             = Inr (CplxMat (polarization_columns (mesh_nE mesh)
                  (if component self = ''imag'' then \<i> else 1)
                  (adjoint_flat self (impedance_terms (orientation self)) aN u)))"
    using impedance3D_adjoint_struct [OF self sh b ori c, of u]
    by (simp add: adjoint_flat_def aHd_apply [OF sh] ratio_apply [OF sh, unfolded spT_sdiag])
  show ?thesis using b s by (auto simp: adjoint_flat_def l length_aHd_uV [OF sh])
qed

lemma tipper3D_adjoint_columns:
  assumes self: "self = rebind self0 src mesh f"
    and sh: "shapes_3D self (2 * mesh_nE mesh)"
    and ori: "orientation self \<in> {''zx'', ''zy''}"
    and c: "component self = ''real'' \<or> component self = ''imag''"
  shows "\<exists>aN. Point_tipper3D_adjoint_branch self
             = Inr (sdiag (map (ratio self (tipper_terms (orientation self))) [0..<nD self]), aN)
           \<and> length (adjoint_flat self (tipper_terms (orientation self)) aN u) = 2 * mesh_nE mesh
           \<and> Point_tipper3D_evalDeriv self0 src mesh f u True
               = Inr (CplxMat (polarization_columns (mesh_nE mesh)
                    (if component self = ''imag'' then \<i> else 1)
                    (adjoint_flat self (tipper_terms (orientation self)) aN u)))"
proof -
  obtain aN where b: "Point_tipper3D_adjoint_branch self
      = Inr (sdiag (map (ratio self (tipper_terms (orientation self))) [0..<nD self]), aN)"
    using tipper3D_adjoint_ratio [OF sh ori] by blast
  have l: "length (aN x) = 2 * mesh_nE mesh" for x
    using tipper3D_adjoint_len [OF sh ori] b by auto
  have s: "Point_tipper3D_evalDeriv self0 src mesh f u True
             = Inr (CplxMat (polarization_columns (mesh_nE mesh)
                  (if component self = ''imag'' then \<i> else 1)
                  (adjoint_flat self (tipper_terms (orientation self)) aN u)))"
    using tipper3D_adjoint_struct [OF self sh b ori c, of u]
    by (simp add: adjoint_flat_def aHd_apply [OF sh] ratio_apply [OF sh, unfolded spT_sdiag])
  show ?thesis using b s by (auto simp: adjoint_flat_def l length_aHd_uV [OF sh])
qed

lemma horizontalmagvar3D_adjoint_columns:
  assumes self: "self = rebind self0 src mesh f"
    and sh: "shapes_3D self (2 * mesh_nE mesh)"
    and ori: "orientation self \<in> {''xx'', ''xy'', ''yx'', ''yy''}"
    and c: "component self = ''real'' \<or> component self = ''imag''"
  shows "\<exists>aN. Point_horizontalmagvar3D_adjoint_branch self
             = Inr (sdiag (map (ratio self (horizontalmagvar_terms (orientation self))) [0..<nD self]), aN)
           \<and> length (adjoint_flat self (horizontalmagvar_terms (orientation self)) aN u) = 2 * mesh_nE mesh
           \<and> Point_horizontalmagvar3D_evalDeriv self0 src mesh f u True
               = Inr (CplxMat (polarization_columns (mesh_nE mesh)
                    (if component self = ''imag'' then \<i> else 1)
                    (adjoint_flat self (horizontalmagvar_terms (orientation self)) aN u)))"
proof -
  obtain aN where b: "Point_horizontalmagvar3D_adjoint_branch self
      = Inr (sdiag (map (ratio self (horizontalmagvar_terms (orientation self))) [0..<nD self]), aN)"
    using horizontalmagvar3D_adjoint_ratio [OF sh ori] by blast
  have l: "length (aN x) = 2 * mesh_nE mesh" for x
    using horizontalmagvar3D_adjoint_len [OF sh ori] b by auto
  have s: "Point_horizontalmagvar3D_evalDeriv self0 src mesh f u True
             = Inr (CplxMat (polarization_columns (mesh_nE mesh)
                  (if component self = ''imag'' then \<i> else 1)
                  (adjoint_flat self (horizontalmagvar_terms (orientation self)) aN u)))"
    using horizontalmagvar3D_adjoint_struct [OF self sh b ori c, of u]
    by (simp add: adjoint_flat_def aHd_apply [OF sh] ratio_apply [OF sh, unfolded spT_sdiag])
  show ?thesis using b s by (auto simp: adjoint_flat_def l length_aHd_uV [OF sh])
qed

text \<open>The 1D variant returns its flat vector, times \<open>1j\<close> for the imaginary component.\<close>

lemma impedance1D_adjoint_named:
  assumes self: "self = rebind self0 src mesh f"
    and sh: "shapes_1D self nU"
    and c: "component self = ''real'' \<or> component self = ''imag''"
  shows "length (adjoint_flat_1D self u) = nU"
    "Point_impedance1D_evalDeriv self0 src mesh f u True
       = Inr (CplxArr (if component self = ''imag'' then smul \<i> (adjoint_flat_1D self u)
                       else adjoint_flat_1D self u))"
proof -
  have rows: "rows_agree_1D self" using sh by (simp add: shapes_1D_def)
  have pe: "adjoint_pair (eDeriv_u (rx_f self) (rx_src self)) nU (ncols (Pex_1D self))"
    and pb: "adjoint_pair (bDeriv_u (rx_f self) (rx_src self)) nU (ncols (Pbx_1D self))"
    using sh by (simp_all add: shapes_1D_def)
  let ?Z = "map (ratio_1D self) [0..<nD_1D self]"
  let ?x1 = "map (\<lambda>d. 1 / hx_1D self ! d * u ! d) [0..<nD_1D self]"
  let ?x2 = "map (\<lambda>d. ratio_1D self d * (1 / hx_1D self ! d * u ! d)) [0..<nD_1D self]"
  have e: "Point_impedance1D_eval self src mesh f True = Inr (CplxArr ?Z)"
    using impedance1D_eval_complex [of self self src mesh f] rows by (simp add: self)
  have x1: "spmv (spT (Hd_1D self)) u = ?x1"
    by (rule map_upt_eqI) (simp_all add: Hd_1D_def length_1D [OF rows] recip_def)
  have x2: "spmv (spmm (spT (sdiag ?Z)) (spT (Hd_1D self))) u = ?x2"
    by (rule map_upt_eqI) (simp_all add: Hd_1D_def length_1D [OF rows] spmm_sdiag recip_def)
  have lx: "length ?x1 = nrows (Pex_1D self)" "length ?x2 = nrows (Pbx_1D self)"
    using rows by (simp_all add: rows_agree_1D_def nD_1D_def)
  note p1 = pair_e [OF pe _ lx(1), of "replicate nU 0"]
    and p2 = pair_b [OF pb _ lx(2), of "replicate nU 0" mu_0]
  show "length (adjoint_flat_1D self u) = nU"
    using p1(1) p2(1) by (simp add: adjoint_flat_1D_def aex_u_1D_def ahx_u_1D_def)
  show "Point_impedance1D_evalDeriv self0 src mesh f u True
       = Inr (CplxArr (if component self = ''imag'' then smul \<i> (adjoint_flat_1D self u)
                       else adjoint_flat_1D self u))"
    using c x1 x2
    by (auto simp: Point_impedance1D_evalDeriv_def self [symmetric] e Let_def adjoint_flat_1D_def)
qed

text \<open>The examples with their values.\<close>

lemma spmv_sdiag1: "spmv (sdiag [a]) [b] = [a * (b :: complex)]"
  by (simp add: spmv_def sdiag_def)

lemma ex4_rebind [simp]: "rebind (ex4_rx ori c) () ex4_mesh ex4_fields = ex4_rx ori c"
  by (simp add: rebind_def ex4_rx_def)

lemma ex4_P:
  "Pex (ex4_rx ori c) = \<lparr>nrows = 1, ncols = 2, entry = (\<lambda>i j. if j = 0 then 1 else 0)\<rparr>"
  "Pey (ex4_rx ori c) = \<lparr>nrows = 1, ncols = 2, entry = (\<lambda>i j. if j = 1 then 1 else 0)\<rparr>"
  "Pbx (ex4_rx ori c) = \<lparr>nrows = 1, ncols = 2, entry = (\<lambda>i j. if j = 0 then 1 else 0)\<rparr>"
  "Pby (ex4_rx ori c) = \<lparr>nrows = 1, ncols = 2, entry = (\<lambda>i j. if j = 1 then 1 else 0)\<rparr>"
  "Pbz (ex4_rx ori c) = \<lparr>nrows = 1, ncols = 2, entry = (\<lambda>i j. 1)\<rparr>"
  "Pbx_num (ex4_rx ori c) = \<lparr>nrows = 1, ncols = 2, entry = (\<lambda>i j. if j = 0 then 1 else 0)\<rparr>"
  "Pby_num (ex4_rx ori c) = \<lparr>nrows = 1, ncols = 2, entry = (\<lambda>i j. if j = 1 then 1 else 0)\<rparr>"
  by (simp_all add: Pex_def Pey_def Pbx_def Pby_def Pbz_def Pbx_num_def Pby_num_def ex4_rx_def
      ex4_mesh_def)

lemma ex4_f:
  "f_get (ex4_rx ori c) ''e_px'' = [1, 0]" "f_get (ex4_rx ori c) ''e_py'' = [0, 0]"
  "f_get (ex4_rx ori c) ''b_px'' = [0, - complex_of_real mu_0]"
  "f_get (ex4_rx ori c) ''b_py'' = [complex_of_real mu_0, 0]"
  "rx_f (ex4_rx ori c) = ex4_fields" "rx_src (ex4_rx ori c) = ()" "rx_mesh (ex4_rx ori c) = ex4_mesh"
  "orientation (ex4_rx ori c) = ori" "component (ex4_rx ori c) = c" "mesh_nE ex4_mesh = 2"
  by (simp_all add: f_get_def ex4_rx_def ex4_fields_def ex4_mesh_def)

lemma sum4: "(\<Sum>j<4. g j) = g 0 + g 1 + g 2 + (g (3::nat) :: complex)"
  by (simp add: eval_nat_numeral)

lemma len4: "length x = 4 \<Longrightarrow> \<exists>a b c d. x = [a, b, c, d]"
  by (cases x; cases "tl x"; cases "tl (tl x)"; cases "tl (tl (tl x))") auto

lemma ex4_pairs:
  "adjoint_pair (e_pxDeriv_u ex4_fields ()) 4 2"
  "adjoint_pair (e_pyDeriv_u ex4_fields ()) 4 2"
  "adjoint_pair (b_pxDeriv_u ex4_fields ()) 4 2"
  "adjoint_pair (b_pyDeriv_u ex4_fields ()) 4 2"
  unfolding adjoint_pair_def
  by (auto simp: ex4_fields_def dot_def sum2 sum4 dest!: len2 len4)

lemma ex4_shapes: "shapes_3D (ex4_rx ori c) 4" "nD (ex4_rx ori c) = 1"
  by (simp_all add: shapes_3D_def rows_agree_def nD_def ex4_P ex4_f ex4_pairs)

lemma ex4_interp:
  "ex_px (ex4_rx ori c) = [1]" "ey_px (ex4_rx ori c) = [0]"
  "ex_py (ex4_rx ori c) = [0]" "ey_py (ex4_rx ori c) = [0]"
  "hx_px (ex4_rx ori c) = [0]" "hy_px (ex4_rx ori c) = [-1]"
  "hx_py (ex4_rx ori c) = [1]" "hy_py (ex4_rx ori c) = [0]"
  by (simp_all add: interp_defs ex4_P ex4_f spmv_def vdivs_def sum2)

lemma ex4_ainterp:
  "aex_px (ex4_rx ori c) = [1]" "aey_px (ex4_rx ori c) = [0]"
  "aex_py (ex4_rx ori c) = [0]" "aey_py (ex4_rx ori c) = [0]"
  "ahx_px (ex4_rx ori c) = [0]" "ahy_px (ex4_rx ori c) = [-1]"
  "ahx_py (ex4_rx ori c) = [1]" "ahy_py (ex4_rx ori c) = [0]"
  by (simp_all add: ainterp_facts [OF ex4_shapes(1)] ex4_interp)

lemma ex4_ainterp_u:
  "aex_px_u (ex4_rx ori c) [y] = [y, 0, 0, 0]" "aex_py_u (ex4_rx ori c) [y] = [0, 0, y, 0]"
  "ahx_px_u (ex4_rx ori c) [y] = [y / mu_0, 0, 0, 0]"
  "ahy_px_u (ex4_rx ori c) [y] = [0, y / mu_0, 0, 0]"
  "ahx_py_u (ex4_rx ori c) [y] = [0, 0, y / mu_0, 0]"
  "ahy_py_u (ex4_rx ori c) [y] = [0, 0, 0, y / mu_0]"
  by (simp_all add: ainterp_u_defs ex4_P ex4_f spmv_def vdivs_def spT_def ex4_fields_def upt_rec)

lemma ex4_aHd: "aHd (ex4_rx ori c) = sdiag [1]"
  by (simp add: aHd_def ex4_ainterp spmv_def sdiag_def recip_def vsub_def)

lemma ex4_adjoint_xy:
  "Point_impedance3D_evalDeriv (ex4_rx ''xy'' c) () ex4_mesh ex4_fields [1] True
     = (if c = ''imag'' then Inr (CplxMat [[- \<i>, 0], [- (\<i> / mu_0), 0]])
        else if c = ''real'' then Inr (CplxMat [[- 1, 0], [- (1 / mu_0), 0]])
        else Inl (UnboundLocalError ''rx_deriv_component''))"
proof -
  have b: "Point_impedance3D_adjoint_branch (ex4_rx ''xy'' c)
      = Inr (sdiag [- 1],
             \<lambda>x. vadd (vadd (vsub (vneg (aex_px_u (ex4_rx ''xy'' c) (spmv (sdiag [1]) x)))
                                   (ahx_py_u (ex4_rx ''xy'' c) (spmv (sdiag [1]) x)))
                             (ahx_px_u (ex4_rx ''xy'' c) (spmv (sdiag [0]) x)))
                       (aex_py_u (ex4_rx ''xy'' c) (spmv (sdiag [0]) x)))"
    by (simp add: Point_impedance3D_adjoint_branch_def ex4_f ex4_ainterp ex4_aHd spmv_def vadd_def
        sdiag_def spneg_def)
  have m: "spmv (spmm (sdiag [- 1]) (sdiag [1])) [1] = [- 1 :: complex]"
    by (simp add: spmm_sdiag vmul_def spmv_sdiag1)
  have u: "aHd_uV (ex4_rx ''xy'' c) [- 1] = [0, 1 / mu_0, - (1 / mu_0), 0]"
    by (simp add: aHd_uV_def ex4_ainterp spmv_sdiag1 ex4_ainterp_u vadd_def vsub_def)
  show ?thesis
    by (simp add: Point_impedance3D_evalDeriv_def b ex4_aHd m u spmv_sdiag1 ex4_ainterp_u ex4_f
        vadd_def vsub_def vneg_def reshape2T_def Let_def upt_rec)
qed

lemma ex4_weights:
  "over_det (ex4_rx ''xy'' c) [1] = [1]"
  "ratio_over_det (ex4_rx ''xy'' c) (impedance_terms ''xy'') [1] = [- 1]"
  by (simp_all add: over_det_def ratio_over_det_def ex4_shapes ratio_def comb_def det_terms_def
      impedance_terms_def ex4_interp)

lemma ex4_flat:
  assumes "Point_impedance3D_adjoint_branch (ex4_rx ''xy'' c) = Inr (Zij, aN)"
  shows "adjoint_flat (ex4_rx ''xy'' c) (impedance_terms ''xy'') aN [1] = [- 1, - (1 / mu_0), 0, 0]"
proof -
  have b: "Point_impedance3D_adjoint_branch (ex4_rx ''xy'' c)
      = Inr (sdiag [- 1],
             \<lambda>x. vadd (vadd (vsub (vneg (aex_px_u (ex4_rx ''xy'' c) (spmv (sdiag [1]) x)))
                                   (ahx_py_u (ex4_rx ''xy'' c) (spmv (sdiag [1]) x)))
                             (ahx_px_u (ex4_rx ''xy'' c) (spmv (sdiag [0]) x)))
                       (aex_py_u (ex4_rx ''xy'' c) (spmv (sdiag [0]) x)))"
    by (simp add: Point_impedance3D_adjoint_branch_def ex4_f ex4_ainterp ex4_aHd spmv_def vadd_def
        sdiag_def spneg_def)
  have u: "aHd_uV (ex4_rx ''xy'' c) [- 1] = [0, 1 / mu_0, - (1 / mu_0), 0]"
    by (simp add: aHd_uV_def ex4_ainterp spmv_sdiag1 ex4_ainterp_u vadd_def vsub_def)
  have a: "aN = (\<lambda>x. vadd (vadd (vsub (vneg (aex_px_u (ex4_rx ''xy'' c) (spmv (sdiag [1]) x)))
                                   (ahx_py_u (ex4_rx ''xy'' c) (spmv (sdiag [1]) x)))
                             (ahx_px_u (ex4_rx ''xy'' c) (spmv (sdiag [0]) x)))
                       (aex_py_u (ex4_rx ''xy'' c) (spmv (sdiag [0]) x)))"
    using assms b by simp
  show ?thesis
    by (simp add: adjoint_flat_def ex4_weights u a spmv_sdiag1 ex4_ainterp_u vadd_def vsub_def
        vneg_def)
qed

lemma ex1_flat: "adjoint_flat_1D (ex1_rx c) [1] = [- 1]"
  by (simp add: adjoint_flat_1D_def ex1_shapes ex1_vals ratio_1D_def vsub_def vneg_def)
section \<open>Claims about the receivers\<close>

subsection \<open>Orientations without a formula\<close>

lemma choices_split:
  "ori \<in> set orientation_choices \<Longrightarrow> ori \<notin> tensor_orientations \<Longrightarrow> ori \<in> {''zx'', ''zy''}"
  "ori \<in> set orientation_choices \<Longrightarrow> ori \<notin> tipper_orientations \<Longrightarrow> ori \<in> {''xx'', ''xy'', ''yx'', ''yy''}"
  by (auto simp: orientation_choices_def tensor_orientations_def tipper_orientations_def)

text \<open>
  Claim C9. When the orientation is one of the six choices of the base class but not one
  the variant has a formula for (\<open>zx\<close>, \<open>zy\<close> on the 3D impedance and on the horizontal
  magnetic transfer receiver; \<open>xx\<close>, \<open>xy\<close>, \<open>yx\<close>, \<open>yy\<close> on the tipper), \<open>eval\<close> and
  \<open>evalDeriv\<close> raise the error of a local variable that is used before it is assigned: the
  ratio variable in \<open>eval\<close> and in forward mode (which calls \<open>eval\<close>), the closure of
  the numerator derivative, which is the first such variable used, in adjoint mode.
\<close>

theorem unhandled_orientation_unbound:
  assumes "orientation self0 \<in> set orientation_choices"
  shows "(orientation self0 \<notin> tensor_orientations \<longrightarrow>
            Point_impedance3D_eval self0 src mesh f rc = Inl (UnboundLocalError ''Zij'')
          \<and> Point_impedance3D_evalDeriv self0 src mesh f v False = Inl (UnboundLocalError ''Zij'')
          \<and> Point_impedance3D_evalDeriv self0 src mesh f v True = Inl (UnboundLocalError ''ZijN_uV'')
          \<and> Point_horizontalmagvar3D_eval self0 src mesh f rc = Inl (UnboundLocalError ''Mij'')
          \<and> Point_horizontalmagvar3D_evalDeriv self0 src mesh f v False
               = Inl (UnboundLocalError ''Mij'')
          \<and> Point_horizontalmagvar3D_evalDeriv self0 src mesh f v True
               = Inl (UnboundLocalError ''MijN_uV''))
       \<and> (orientation self0 \<notin> tipper_orientations \<longrightarrow>
            Point_tipper3D_eval self0 src mesh f rc = Inl (UnboundLocalError ''Tij'')
          \<and> Point_tipper3D_evalDeriv self0 src mesh f v False = Inl (UnboundLocalError ''Tij'')
          \<and> Point_tipper3D_evalDeriv self0 src mesh f v True = Inl (UnboundLocalError ''TijN_uV''))"
  using choices_split [OF assms]
  by (simp add: impedance3D_unbound horizontalmagvar3D_unbound tipper3D_unbound)

theorem unhandled_orientation_unbound_witness:
  "orientation (ex_rx ''zx'' ''real'') \<in> set orientation_choices
   \<and> orientation (ex_rx ''zx'' ''real'') \<notin> tensor_orientations
   \<and> Point_impedance3D_eval (ex_rx ''zx'' ''real'') () ex_mesh ex_fields False
       = Inl (UnboundLocalError ''Zij'')
   \<and> Point_impedance3D_evalDeriv (ex_rx ''zx'' ''real'') () ex_mesh ex_fields [1, 0] False
       = Inl (UnboundLocalError ''Zij'')
   \<and> Point_impedance3D_evalDeriv (ex_rx ''zx'' ''real'') () ex_mesh ex_fields [1] True
       = Inl (UnboundLocalError ''ZijN_uV'')
   \<and> orientation (ex_rx ''xx'' ''real'') \<in> set orientation_choices
   \<and> orientation (ex_rx ''xx'' ''real'') \<notin> tipper_orientations
   \<and> Point_tipper3D_eval (ex_rx ''xx'' ''real'') () ex_mesh ex_fields False
       = Inl (UnboundLocalError ''Tij'')"
proof -
  have a: "orientation (ex_rx ''zx'' ''real'') \<in> set orientation_choices"
    and b: "orientation (ex_rx ''zx'' ''real'') \<notin> tensor_orientations"
    and c: "orientation (ex_rx ''xx'' ''real'') \<in> set orientation_choices"
    and d: "orientation (ex_rx ''xx'' ''real'') \<notin> tipper_orientations"
    by (simp_all add: ex_f orientation_choices_def tensor_orientations_def tipper_orientations_def)
  show ?thesis
    using a b c d
      unhandled_orientation_unbound [OF a, of "()" ex_mesh ex_fields False "[1, 0]"]
      unhandled_orientation_unbound [OF a, of "()" ex_mesh ex_fields False "[1]"]
      unhandled_orientation_unbound [OF c, of "()" ex_mesh ex_fields False "[1]"]
    by simp
qed

subsection \<open>The impedance formula\<close>

lemma map_part: "map (part c) (map g xs) = map (\<lambda>d. part c (g d)) xs"
  by simp

text \<open>
  Claim C4. For the 3D impedance receiver with an orientation of its table (and one row per
  receiver in every interpolation matrix), \<open>eval(src, mesh, f, return_complex=True)\<close> is
  \<open>Hd * Zij\<close>, where \<open>Zij\<close> is the signed combination of cross terms that the table
  gives for the orientation; for \<open>xy\<close> the table is \<open>- ex_px hx_py + ex_py hx_px\<close>, so when
  the other cross term vanishes \<open>Zij\<close> is the single term \<open>- ex_px hx_py\<close>, and it is
  \<open>-1\<close> where \<open>ex_px = hx_py = 1\<close>. With the component \<open>real\<close>, \<open>eval\<close> returns the real
  part.
\<close>

theorem impedance3D_eval_formula:
  assumes self: "self = rebind self0 src mesh f"
    and rows: "rows_agree self"
    and ori: "orientation self \<in> tensor_orientations"
  shows "\<exists>Zij. Point_impedance3D_Zij self = Inr Zij \<and> length Zij = nD self
           \<and> Point_impedance3D_eval self0 src mesh f True = Inr (CplxArr (spmv (Hd self) Zij))
           \<and> (\<forall>d<nD self. Zij ! d = comb self (impedance_terms (orientation self)) d
                 \<and> spmv (Hd self) Zij ! d = ratio self (impedance_terms (orientation self)) d)
           \<and> impedance_terms ''xy'' = [(- 1, Ex_px, Hx_py), (1, Ex_py, Hx_px)]
           \<and> (orientation self = ''xy'' \<longrightarrow>
                (\<forall>d<nD self. ex_py self ! d * hx_px self ! d = 0 \<longrightarrow>
                   Zij ! d = - (ex_px self ! d * hx_py self ! d)
                 \<and> (ex_px self ! d = 1 \<and> hx_py self ! d = 1 \<longrightarrow> Zij ! d = - 1)))
           \<and> (component self = ''real'' \<longrightarrow>
                Point_impedance3D_eval self0 src mesh f False
                  = Inr (RealArr (map Re (spmv (Hd self) Zij))))"
proof -
  have ori': "orientation self \<in> {''xx'', ''xy'', ''yx'', ''yy''}"
    using ori by (simp add: tensor_orientations_def)
  obtain Z where Z: "Point_impedance3D_Zij self = Inr Z" "length Z = nD self"
    "\<forall>d<nD self. Z ! d = comb self (impedance_terms (orientation self)) d"
    using impedance3D_Zij [OF rows ori'] by blast
  have e: "Point_impedance3D_eval self0 src mesh f True = Inr (CplxArr (spmv (Hd self) Z))"
    by (simp add: Point_impedance3D_eval_def self [symmetric] Z)
  have r: "\<forall>d<nD self. spmv (Hd self) Z ! d = ratio self (impedance_terms (orientation self)) d"
    by (simp add: Hd_apply rows Z ratio_def)
  have xy: "Z ! d = - (ex_px self ! d * hx_py self ! d)"
    if "orientation self = ''xy''" "d < nD self" "ex_py self ! d * hx_px self ! d = 0" for d
    using that Z(3) by (simp add: comb_def impedance_terms_def)
  have re: "Point_impedance3D_eval self0 src mesh f False = Inr (RealArr (map Re (spmv (Hd self) Z)))"
    if "component self = ''real''"
    using that by (simp add: Point_impedance3D_eval_def self [symmetric] Z getattr_component_def)
  show ?thesis
    using Z e r xy re by (intro exI [of _ Z]) (simp add: impedance_terms_def)
qed

theorem impedance3D_eval_formula_witness:
  "ex_rx ''xy'' ''real'' = rebind (ex_rx ''xy'' ''real'') () ex_mesh ex_fields
   \<and> rows_agree (ex_rx ''xy'' ''real'')
   \<and> orientation (ex_rx ''xy'' ''real'') \<in> tensor_orientations
   \<and> nD (ex_rx ''xy'' ''real'') = 1
   \<and> ex_px (ex_rx ''xy'' ''real'') = [1] \<and> hx_py (ex_rx ''xy'' ''real'') = [1]
   \<and> ex_py (ex_rx ''xy'' ''real'') = [0] \<and> hx_px (ex_rx ''xy'' ''real'') = [0]
   \<and> Point_impedance3D_Zij (ex_rx ''xy'' ''real'') = Inr [- 1]
   \<and> Point_impedance3D_eval (ex_rx ''xy'' ''real'') () ex_mesh ex_fields True = Inr (CplxArr [- 1])
   \<and> Point_impedance3D_eval (ex_rx ''xy'' ''real'') () ex_mesh ex_fields False = Inr (RealArr [- 1])"
proof -
  let ?rx = "ex_rx ''xy'' ''real''"
  have a: "?rx = rebind ?rx () ex_mesh ex_fields" by simp
  have b: "rows_agree ?rx" by (rule ex_rows)
  have c: "orientation ?rx \<in> tensor_orientations" by (simp add: ex_f tensor_orientations_def)
  have Z: "Point_impedance3D_Zij ?rx = Inr [- 1]"
    by (simp add: Point_impedance3D_Zij_def ex_f ex_interp vadd_def vmul_def vneg_def)
  have H: "spmv (Hd ?rx) [- 1] = [- 1]"
    by (simp add: Hd_def ex_interp spmv_def sdiag_def recip_def vsub_def)
  from impedance3D_eval_formula [OF a b c] obtain Zij where
    "Point_impedance3D_Zij ?rx = Inr Zij"
    "Point_impedance3D_eval ?rx () ex_mesh ex_fields True = Inr (CplxArr (spmv (Hd ?rx) Zij))"
    "component ?rx = ''real'' \<longrightarrow>
       Point_impedance3D_eval ?rx () ex_mesh ex_fields False
         = Inr (RealArr (map Re (spmv (Hd ?rx) Zij)))"
    by blast
  then have "Zij = [- 1]"
    "Point_impedance3D_eval ?rx () ex_mesh ex_fields True = Inr (CplxArr (spmv (Hd ?rx) Zij))"
    "Point_impedance3D_eval ?rx () ex_mesh ex_fields False
       = Inr (RealArr (map Re (spmv (Hd ?rx) Zij)))"
    using Z by (simp_all add: ex_f)
  then have "Point_impedance3D_eval ?rx () ex_mesh ex_fields True = Inr (CplxArr [- 1])"
    "Point_impedance3D_eval ?rx () ex_mesh ex_fields False = Inr (RealArr [- 1])"
    by (simp_all add: H)
  then show ?thesis
    using a b c Z by (simp add: ex_rows ex_interp)
qed

subsection \<open>The forward derivative\<close>

lemma getattr_map_part:
  assumes "c = ''real'' \<or> c = ''imag''"
  shows "getattr_component (map g xs) c = Inr (RealArr (map (\<lambda>d. part c (g d)) xs))"
  using getattr_component_part [OF assms, of "map g xs"] by simp

text \<open>
  Claim C2. For every variant, every orientation of the variant's table and both
  components, \<open>evalDeriv(src, mesh, f, v, adjoint=False)\<close> returns the real or the
  imaginary part of the quotient rule \<open>Hd * (N' - ratio * D')\<close> at every receiver: \<open>N'\<close>
  and \<open>D'\<close> are the product-rule derivatives of the numerator table of the orientation
  and of the determinant (of \<open>-ex\<close> and \<open>hx\<close> for the 1D variant), and \<open>ratio\<close> is the
  complex value of \<open>eval\<close>, for the horizontal magnetic transfer the value before the
  Schmucker correction is subtracted.
\<close>

theorem evalDeriv_forward_quotient_rule:
  assumes self: "self = rebind self0 src mesh f"
    and c: "component self = ''real'' \<or> component self = ''imag''"
  shows "(rows_agree_1D self \<longrightarrow>
            Point_impedance1D_eval self0 src mesh f True
              = Inr (CplxArr (map (ratio_1D self) [0..<nD_1D self]))
          \<and> Point_impedance1D_evalDeriv self0 src mesh f v False
              = Inr (RealArr (map (\<lambda>d. part (component self) (ratio_u_1D self v d))
                                 [0..<nD_1D self])))
       \<and> (rows_agree self \<and> orientation self \<in> tensor_orientations \<longrightarrow>
            Point_impedance3D_eval self0 src mesh f True
              = Inr (CplxArr (map (ratio self (impedance_terms (orientation self))) [0..<nD self]))
          \<and> Point_impedance3D_evalDeriv self0 src mesh f v False
              = Inr (RealArr (map (\<lambda>d. part (component self)
                                         (ratio_u self (impedance_terms (orientation self)) v d))
                                 [0..<nD self]))
          \<and> Point_horizontalmagvar3D_eval self0 src mesh f True
              = Inr (CplxArr (map (\<lambda>d. ratio self (horizontalmagvar_terms (orientation self)) d
                                       - schmucker (orientation self)) [0..<nD self]))
          \<and> Point_horizontalmagvar3D_evalDeriv self0 src mesh f v False
              = Inr (RealArr (map (\<lambda>d. part (component self)
                                         (ratio_u self (horizontalmagvar_terms (orientation self)) v d))
                                 [0..<nD self])))
       \<and> (rows_agree self \<and> orientation self \<in> tipper_orientations \<longrightarrow>
            Point_tipper3D_eval self0 src mesh f True
              = Inr (CplxArr (map (ratio self (tipper_terms (orientation self))) [0..<nD self]))
          \<and> Point_tipper3D_evalDeriv self0 src mesh f v False
              = Inr (RealArr (map (\<lambda>d. part (component self)
                                         (ratio_u self (tipper_terms (orientation self)) v d))
                                 [0..<nD self])))"
proof (intro conjI impI)
  assume r: "rows_agree_1D self"
  show "Point_impedance1D_eval self0 src mesh f True
          = Inr (CplxArr (map (ratio_1D self) [0..<nD_1D self]))"
    by (rule impedance1D_eval_complex [OF self r])
  show "Point_impedance1D_evalDeriv self0 src mesh f v False
          = Inr (RealArr (map (\<lambda>d. part (component self) (ratio_u_1D self v d)) [0..<nD_1D self]))"
    by (simp add: impedance1D_evalDeriv_forward [OF self r] getattr_map_part [OF c])
next
  assume "rows_agree self \<and> orientation self \<in> tensor_orientations"
  then have r: "rows_agree self" and o: "orientation self \<in> {''xx'', ''xy'', ''yx'', ''yy''}"
    by (simp_all add: tensor_orientations_def)
  show "Point_impedance3D_eval self0 src mesh f True
          = Inr (CplxArr (map (ratio self (impedance_terms (orientation self))) [0..<nD self]))"
    by (rule impedance3D_eval_complex [OF self r o])
  show "Point_impedance3D_evalDeriv self0 src mesh f v False
          = Inr (RealArr (map (\<lambda>d. part (component self)
                                     (ratio_u self (impedance_terms (orientation self)) v d))
                             [0..<nD self]))"
    by (simp add: impedance3D_evalDeriv_forward [OF self r o] getattr_map_part [OF c])
  show "Point_horizontalmagvar3D_eval self0 src mesh f True
          = Inr (CplxArr (map (\<lambda>d. ratio self (horizontalmagvar_terms (orientation self)) d
                                   - schmucker (orientation self)) [0..<nD self]))"
    by (rule horizontalmagvar3D_eval_complex [OF self r o])
  show "Point_horizontalmagvar3D_evalDeriv self0 src mesh f v False
          = Inr (RealArr (map (\<lambda>d. part (component self)
                                     (ratio_u self (horizontalmagvar_terms (orientation self)) v d))
                             [0..<nD self]))"
    by (simp add: horizontalmagvar3D_evalDeriv_forward [OF self r o] getattr_map_part [OF c])
next
  assume "rows_agree self \<and> orientation self \<in> tipper_orientations"
  then have r: "rows_agree self" and o: "orientation self \<in> {''zx'', ''zy''}"
    by (simp_all add: tipper_orientations_def)
  show "Point_tipper3D_eval self0 src mesh f True
          = Inr (CplxArr (map (ratio self (tipper_terms (orientation self))) [0..<nD self]))"
    by (rule tipper3D_eval_complex [OF self r o])
  show "Point_tipper3D_evalDeriv self0 src mesh f v False
          = Inr (RealArr (map (\<lambda>d. part (component self)
                                     (ratio_u self (tipper_terms (orientation self)) v d))
                             [0..<nD self]))"
    by (simp add: tipper3D_evalDeriv_forward [OF self r o] getattr_map_part [OF c])
qed

lemma ex_interp_u:
  "ex_px_u (ex_rx ori c) [a, b] = [a]" "ey_px_u (ex_rx ori c) [a, b] = [2 * a]"
  "ex_py_u (ex_rx ori c) [a, b] = [b]" "ey_py_u (ex_rx ori c) [a, b] = [2 * b]"
  "hx_px_u (ex_rx ori c) [a, b] = [a / mu_0]" "hy_px_u (ex_rx ori c) [a, b] = [b / mu_0]"
  "hz_px_u (ex_rx ori c) [a, b] = [(a + b) / mu_0]"
  "hx_py_u (ex_rx ori c) [a, b] = [2 * a / mu_0]" "hy_py_u (ex_rx ori c) [a, b] = [2 * b / mu_0]"
  "hz_py_u (ex_rx ori c) [a, b] = [(2 * a + 2 * b) / mu_0]"
  "hx_num_px_u (ex_rx ori c) [a, b] = [a / mu_0]" "hy_num_px_u (ex_rx ori c) [a, b] = [b / mu_0]"
  "hx_num_py_u (ex_rx ori c) [a, b] = [2 * a / mu_0]"
  "hy_num_py_u (ex_rx ori c) [a, b] = [2 * b / mu_0]"
  by (simp_all add: interp_u_defs ex_P ex_f spmv_def vdivs_def sum2 ex_fields_def)

theorem evalDeriv_forward_quotient_rule_witness:
  "ex_rx ''xy'' ''real'' = rebind (ex_rx ''xy'' ''real'') () ex_mesh ex_fields
   \<and> component (ex_rx ''xy'' ''real'') = ''real''
   \<and> rows_agree (ex_rx ''xy'' ''real'')
   \<and> orientation (ex_rx ''xy'' ''real'') \<in> tensor_orientations
   \<and> Point_impedance3D_evalDeriv (ex_rx ''xy'' ''real'') () ex_mesh ex_fields [1, 0] False
       = Inr (RealArr [- 1])
   \<and> Point_horizontalmagvar3D_eval (ex_rx ''xy'' ''real'') () ex_mesh ex_fields True
       = Inr (CplxArr [0])
   \<and> ex1_rx ''imag'' = rebind (ex1_rx ''imag'') () ex1_mesh ex1_fields
   \<and> component (ex1_rx ''imag'') = ''imag''
   \<and> rows_agree_1D (ex1_rx ''imag'')
   \<and> Point_impedance1D_evalDeriv (ex1_rx ''imag'') () ex1_mesh ex1_fields [\<i>] False
       = Inr (RealArr [- 1])"
proof -
  let ?rx = "ex_rx ''xy'' ''real''"
  let ?r1 = "ex1_rx ''imag''"
  have a: "?rx = rebind ?rx () ex_mesh ex_fields" by simp
  have b: "component ?rx = ''real'' \<or> component ?rx = ''imag''" by (simp add: ex_f)
  have r: "rows_agree ?rx" by (rule ex_rows)
  have o: "orientation ?rx \<in> tensor_orientations" by (simp add: ex_f tensor_orientations_def)
  have a1: "?r1 = rebind ?r1 () ex1_mesh ex1_fields" by simp
  have b1: "component ?r1 = ''real'' \<or> component ?r1 = ''imag''" by (simp add: ex1_f)
  have r1: "rows_agree_1D ?r1" using ex1_shapes(1) [of "''imag''"] by (simp add: shapes_1D_def)
  have d: "comb ?rx det_terms 0 = 1"
    by (simp add: comb_def det_terms_def ex_interp)
  have du: "comb_u ?rx det_terms [1, 0] 0 = 2 / mu_0"
    by (simp add: comb_u_def det_terms_def ex_interp ex_interp_u)
  have n: "comb ?rx (impedance_terms ''xy'') 0 = - 1"
    by (simp add: comb_def impedance_terms_def ex_interp)
  have nu: "comb_u ?rx (impedance_terms ''xy'') [1, 0] 0 = - 1 - 2 / mu_0"
    by (simp add: comb_u_def impedance_terms_def ex_interp ex_interp_u)
  have m: "comb ?rx (horizontalmagvar_terms ''xy'') 0 = 0"
    by (simp add: comb_def horizontalmagvar_terms_def ex_interp)
  have z: "ratio_u ?rx (impedance_terms ''xy'') [1, 0] 0 = - 1"
    by (simp add: ratio_u_def ratio_def d du n nu)
  have h: "ratio ?rx (horizontalmagvar_terms ''xy'') 0 - schmucker ''xy'' = 0"
    by (simp add: ratio_def d m schmucker_def)
  have z1: "ratio_u_1D ?r1 [\<i>] 0 = - \<i>"
    by (simp add: ratio_u_1D_def ratio_1D_def ex1_vals)
  have "Point_impedance3D_evalDeriv ?rx () ex_mesh ex_fields [1, 0] False = Inr (RealArr [- 1])"
    using evalDeriv_forward_quotient_rule [OF a b, of "[1, 0]"] r o
    by (simp add: ex_rows ex_f z part_def)
  moreover have "Point_horizontalmagvar3D_eval ?rx () ex_mesh ex_fields True = Inr (CplxArr [0])"
    using evalDeriv_forward_quotient_rule [OF a b, of "[1, 0]"] r o
    by (simp add: ex_rows ex_f h)
  moreover have "Point_impedance1D_evalDeriv ?r1 () ex1_mesh ex1_fields [\<i>] False
      = Inr (RealArr [- 1])"
    using evalDeriv_forward_quotient_rule [OF a1 b1, of "[\<i>]"] r1
    by (simp add: ex1_shapes ex1_f z1 part_def)
  ultimately show ?thesis
    using a r o a1 r1 by (simp add: ex_f ex1_f)
qed

subsection \<open>The adjoint derivative: shape and component\<close>

lemma polarization_columns_shape:
  "length (polarization_columns n k x) = n"
  "row \<in> set (polarization_columns n k x) \<Longrightarrow> length row = 2"
  "i < n \<Longrightarrow> polarization_columns n k x ! i = [k * x ! i, k * x ! (n + i)]"
  by (auto simp: polarization_columns_def)

lemma impedance1D_adjoint_vector:
  assumes "component self0 = ''real'' \<or> component self0 = ''imag''"
  shows "\<exists>a. Point_impedance1D_evalDeriv self0 src mesh f v True = Inr (CplxArr a)"
  using assms
  by (auto simp: Point_impedance1D_evalDeriv_def Point_impedance1D_eval_def Let_def)

text \<open>
  Claim C7, as amended. For the three 3D variants (an orientation of the variant's table, a
  component \<open>real\<close> or \<open>imag\<close>, adjoint field operators that return \<open>2 nE\<close> entries),
  \<open>evalDeriv(src, mesh, f, v, adjoint=True)\<close> returns an \<open>nE\<close> by 2 array: the flat
  model-space vector \<open>aN (Hd v) - _aHd_uV (R Hd v)\<close>, of \<open>2 nE\<close> entries (\<open>aN\<close> the numerator
  closure and \<open>R\<close> the ratio of the orientation), times \<open>k = 1\<close> or \<open>k = 1j\<close>, with its first
  half in column 0 and its second half in column 1, one column per polarization: row \<open>i\<close>
  is \<open>[k flat[i], k flat[nE + i]]\<close>. The 1D variant does not reshape: it returns its flat
  vector \<open>- _aex_u (v / hx) - _ahx_u (Z v / hx)\<close>, of as many entries as model space has,
  times \<open>k\<close>. For all four variants the value returned for \<open>imag\<close> is the imaginary unit
  times the value returned for \<open>real\<close> (and the same error where that one fails).
\<close>

theorem adjoint_output_shape:
  assumes self: "self = rebind self0 src mesh f"
    and c: "component self = ''real'' \<or> component self = ''imag''"
  shows "(shapes_3D self (2 * mesh_nE mesh) \<and> orientation self \<in> tensor_orientations \<longrightarrow>
            (\<exists>aN. Point_impedance3D_adjoint_branch self
                     = Inr (sdiag (map (ratio self (impedance_terms (orientation self)))
                                    [0..<nD self]), aN)
               \<and> length (adjoint_flat self (impedance_terms (orientation self)) aN v)
                   = 2 * mesh_nE mesh
               \<and> Point_impedance3D_evalDeriv self0 src mesh f v True
                   = Inr (CplxMat (polarization_columns (mesh_nE mesh)
                        (if component self = ''imag'' then \<i> else 1)
                        (adjoint_flat self (impedance_terms (orientation self)) aN v))))
          \<and> (\<exists>aN. Point_horizontalmagvar3D_adjoint_branch self
                     = Inr (sdiag (map (ratio self (horizontalmagvar_terms (orientation self)))
                                    [0..<nD self]), aN)
               \<and> length (adjoint_flat self (horizontalmagvar_terms (orientation self)) aN v)
                   = 2 * mesh_nE mesh
               \<and> Point_horizontalmagvar3D_evalDeriv self0 src mesh f v True
                   = Inr (CplxMat (polarization_columns (mesh_nE mesh)
                        (if component self = ''imag'' then \<i> else 1)
                        (adjoint_flat self (horizontalmagvar_terms (orientation self)) aN v)))))
       \<and> (shapes_3D self (2 * mesh_nE mesh) \<and> orientation self \<in> tipper_orientations \<longrightarrow>
            (\<exists>aN. Point_tipper3D_adjoint_branch self
                     = Inr (sdiag (map (ratio self (tipper_terms (orientation self)))
                                    [0..<nD self]), aN)
               \<and> length (adjoint_flat self (tipper_terms (orientation self)) aN v)
                   = 2 * mesh_nE mesh
               \<and> Point_tipper3D_evalDeriv self0 src mesh f v True
                   = Inr (CplxMat (polarization_columns (mesh_nE mesh)
                        (if component self = ''imag'' then \<i> else 1)
                        (adjoint_flat self (tipper_terms (orientation self)) aN v)))))
       \<and> (\<forall>n k x. length (polarization_columns n k x) = n
             \<and> (\<forall>row\<in>set (polarization_columns n k x). length row = 2)
             \<and> (\<forall>i<n. polarization_columns n k x ! i = [k * x ! i, k * x ! (n + i)]))
       \<and> (shapes_1D self nU \<longrightarrow>
            length (adjoint_flat_1D self v) = nU
            \<and> Point_impedance1D_evalDeriv self0 src mesh f v True
                = Inr (CplxArr (if component self = ''imag'' then smul \<i> (adjoint_flat_1D self v)
                                else adjoint_flat_1D self v)))
       \<and> (\<exists>a. Point_impedance1D_evalDeriv self0 src mesh f v True = Inr (CplxArr a))
       \<and> Point_impedance1D_evalDeriv (self0\<lparr>component := ''imag''\<rparr>) src mesh f v True
           = map_sum id times_i
               (Point_impedance1D_evalDeriv (self0\<lparr>component := ''real''\<rparr>) src mesh f v True)
       \<and> Point_impedance3D_evalDeriv (self0\<lparr>component := ''imag''\<rparr>) src mesh f v True
           = map_sum id times_i
               (Point_impedance3D_evalDeriv (self0\<lparr>component := ''real''\<rparr>) src mesh f v True)
       \<and> Point_tipper3D_evalDeriv (self0\<lparr>component := ''imag''\<rparr>) src mesh f v True
           = map_sum id times_i
               (Point_tipper3D_evalDeriv (self0\<lparr>component := ''real''\<rparr>) src mesh f v True)
       \<and> Point_horizontalmagvar3D_evalDeriv (self0\<lparr>component := ''imag''\<rparr>) src mesh f v True
           = map_sum id times_i
               (Point_horizontalmagvar3D_evalDeriv (self0\<lparr>component := ''real''\<rparr>) src mesh f v
                  True)"
proof -
  have c0: "component self0 = ''real'' \<or> component self0 = ''imag''"
    using c by (simp add: self)
  have t: "orientation self \<in> tensor_orientations \<Longrightarrow> orientation self \<in> {''xx'', ''xy'', ''yx'', ''yy''}"
    and p: "orientation self \<in> tipper_orientations \<Longrightarrow> orientation self \<in> {''zx'', ''zy''}"
    by (simp_all add: tensor_orientations_def tipper_orientations_def)
  show ?thesis
    using impedance3D_adjoint_columns [OF self _ t c, of v]
      horizontalmagvar3D_adjoint_columns [OF self _ t c, of v]
      tipper3D_adjoint_columns [OF self _ p c, of v]
      impedance1D_adjoint_vector [OF c0, of src mesh f v]
      impedance1D_adjoint_named [OF self _ c, of nU v]
    by (simp add: polarization_columns_shape impedance1D_imag_is_i_real impedance3D_imag_is_i_real
        tipper3D_imag_is_i_real horizontalmagvar3D_imag_is_i_real)
qed

text \<open>
  On the mesh with two edges, orientation \<open>xy\<close>, one receiver and \<open>v = [1]\<close>: the flat
  vector is \<open>[-1, -1/mu_0, 0, 0]\<close> and the result has the rows \<open>[-k, 0]\<close> and
  \<open>[-k/mu_0, 0]\<close>.
\<close>

theorem adjoint_output_shape_witness:
  "ex4_rx ''xy'' ''imag'' = rebind (ex4_rx ''xy'' ''imag'') () ex4_mesh ex4_fields
   \<and> component (ex4_rx ''xy'' ''imag'') = ''imag''
   \<and> mesh_nE ex4_mesh = 2
   \<and> shapes_3D (ex4_rx ''xy'' ''imag'') (2 * mesh_nE ex4_mesh)
   \<and> orientation (ex4_rx ''xy'' ''imag'') \<in> tensor_orientations
   \<and> (\<exists>aN. Point_impedance3D_adjoint_branch (ex4_rx ''xy'' ''imag'')
               = Inr (sdiag (map (ratio (ex4_rx ''xy'' ''imag'') (impedance_terms ''xy'')) [0..<1]),
                      aN)
         \<and> adjoint_flat (ex4_rx ''xy'' ''imag'') (impedance_terms ''xy'') aN [1]
             = [- 1, - (1 / mu_0), 0, 0]
         \<and> Point_impedance3D_evalDeriv (ex4_rx ''xy'' ''imag'') () ex4_mesh ex4_fields [1] True
             = Inr (CplxMat (polarization_columns 2 \<i>
                  (adjoint_flat (ex4_rx ''xy'' ''imag'') (impedance_terms ''xy'') aN [1]))))
   \<and> Point_impedance3D_evalDeriv (ex4_rx ''xy'' ''imag'') () ex4_mesh ex4_fields [1] True
       = Inr (CplxMat [[- \<i>, 0], [- (\<i> / mu_0), 0]])
   \<and> Point_impedance3D_evalDeriv (ex4_rx ''xy'' ''real'') () ex4_mesh ex4_fields [1] True
       = Inr (CplxMat [[- 1, 0], [- (1 / mu_0), 0]])
   \<and> ex1_rx ''imag'' = rebind (ex1_rx ''imag'') () ex1_mesh ex1_fields
   \<and> shapes_1D (ex1_rx ''imag'') 1
   \<and> adjoint_flat_1D (ex1_rx ''imag'') [1] = [- 1]
   \<and> Point_impedance1D_evalDeriv (ex1_rx ''imag'') () ex1_mesh ex1_fields [1] True
       = Inr (CplxArr [- \<i>])"
proof -
  let ?rx = "ex4_rx ''xy'' ''imag''"
  let ?r1 = "ex1_rx ''imag''"
  have a: "?rx = rebind ?rx () ex4_mesh ex4_fields" by simp
  have b: "component ?rx = ''real'' \<or> component ?rx = ''imag''" by (simp add: ex4_f)
  have n: "mesh_nE ex4_mesh = 2" by (simp add: ex4_f)
  have s: "shapes_3D ?rx (2 * mesh_nE ex4_mesh)"
    using ex4_shapes(1) [of "''xy''" "''imag''"] by (simp add: n)
  have o: "orientation ?rx \<in> tensor_orientations" by (simp add: ex4_f tensor_orientations_def)
  have k: "component ?rx = ''imag''" "orientation ?rx = ''xy''" "nD ?rx = 1"
    by (simp_all add: ex4_f ex4_shapes)
  obtain aN where br: "Point_impedance3D_adjoint_branch ?rx
               = Inr (sdiag (map (ratio ?rx (impedance_terms (orientation ?rx))) [0..<nD ?rx]), aN)"
    and ev: "Point_impedance3D_evalDeriv ?rx () ex4_mesh ex4_fields [1] True
             = Inr (CplxMat (polarization_columns (mesh_nE ex4_mesh)
                  (if component ?rx = ''imag'' then \<i> else 1)
                  (adjoint_flat ?rx (impedance_terms (orientation ?rx)) aN [1])))"
    using adjoint_output_shape [OF a b, where v = "[1]", THEN conjunct1, rule_format,
        OF conjI [OF s o], THEN conjunct1]
    by blast
  have p3: "\<exists>aN. Point_impedance3D_adjoint_branch ?rx
               = Inr (sdiag (map (ratio ?rx (impedance_terms ''xy'')) [0..<1]), aN)
         \<and> adjoint_flat ?rx (impedance_terms ''xy'') aN [1] = [- 1, - (1 / mu_0), 0, 0]
         \<and> Point_impedance3D_evalDeriv ?rx () ex4_mesh ex4_fields [1] True
             = Inr (CplxMat (polarization_columns 2 \<i>
                  (adjoint_flat ?rx (impedance_terms ''xy'') aN [1])))"
    using br ev ex4_flat [OF br] unfolding k n
    by (intro exI [of _ aN]) simp
  have a1: "?r1 = rebind ?r1 () ex1_mesh ex1_fields" by simp
  have b1: "component ?r1 = ''real'' \<or> component ?r1 = ''imag''" by (simp add: ex1_f)
  have s1: "shapes_1D ?r1 1" by (rule ex1_shapes)
  have k1: "component ?r1 = ''imag''" by (simp add: ex1_f)
  have "Point_impedance1D_evalDeriv ?r1 () ex1_mesh ex1_fields [1] True
       = Inr (CplxArr (if component ?r1 = ''imag'' then smul \<i> (adjoint_flat_1D ?r1 [1])
                                else adjoint_flat_1D ?r1 [1]))"
    using adjoint_output_shape [OF a1 b1, where v = "[1]" and nU = 1, THEN conjunct2,
        THEN conjunct2, THEN conjunct2, THEN conjunct1, rule_format, OF s1]
    by blast
  then have p1: "Point_impedance1D_evalDeriv ?r1 () ex1_mesh ex1_fields [1] True
       = Inr (CplxArr [- \<i>])"
    unfolding k1 by (simp add: ex1_flat smul_def)
  show ?thesis
    using a s o p3 p1 a1 s1 by (simp add: ex4_f ex1_flat ex4_adjoint_xy)
qed

text \<open>
  Claim C7 as stated fails for the 1D variant: on one receiver, with model space of size 1,
  the adjoint derivative is the 1D array \<open>[-1]\<close>, not an array with two columns.
\<close>

theorem impedance1D_adjoint_not_reshaped_counterexample:
  "shapes_1D (ex1_rx ''real'') 1 \<and> nD_1D (ex1_rx ''real'') = 1 \<and> mesh_nE ex1_mesh = 1
   \<and> Point_impedance1D_evalDeriv (ex1_rx ''real'') () ex1_mesh ex1_fields [1] True
       = Inr (CplxArr [- 1])"
proof -
  have "mesh_nE ex1_mesh = 1" by (simp add: ex1_mesh_def)
  moreover have "spmv (spmm (sdiag [- 1]) (sdiag [1])) [1] = [- 1 :: complex]"
    by (simp add: spmm_sdiag vmul_def spmv_sdiag1)
  then have "Point_impedance1D_evalDeriv (ex1_rx ''real'') () ex1_mesh ex1_fields [1] True
       = Inr (CplxArr [- 1])"
    by (simp add: Point_impedance1D_evalDeriv_def ex1_eval Hd_1D_def ex1_vals ex1_f recip_def
        spmv_sdiag1 vsub_def vneg_def)
  ultimately show ?thesis using ex1_shapes [of "''real''"] by simp
qed
subsection \<open>Forward and adjoint derivative as a pair\<close>

text \<open>Pairing a real data vector with the real or the imaginary part of a complex vector.\<close>

lemma real_pairing:
  assumes u: "list_all (\<lambda>z. Im z = 0) u" and n: "length u = n"
  shows "dot u (map (\<lambda>d. complex_of_real (Re (J d))) [0..<n])
           = complex_of_real (Re (dot u (map J [0..<n])))"
    "dot u (map (\<lambda>d. complex_of_real (Im (J d))) [0..<n])
           = - complex_of_real (Re (\<i> * dot u (map J [0..<n])))"
proof -
  have im: "Im (u ! i) = 0" if "i < n" for i
    using u n that by (simp add: list_all_length)
  show "dot u (map (\<lambda>d. complex_of_real (Re (J d))) [0..<n])
           = complex_of_real (Re (dot u (map J [0..<n])))"
    using im by (simp add: dot_def n complex_eq_iff)
  show "dot u (map (\<lambda>d. complex_of_real (Im (J d))) [0..<n])
           = - complex_of_real (Re (\<i> * dot u (map J [0..<n])))"
    using im by (simp add: dot_def n complex_eq_iff)
qed

text \<open>
  The 3D variants. The numerator closure is the exact transpose of the forward numerator
  derivative behind the determinant factor, and the whole flat vector pairs with \<open>v\<close> as
  the quotient-rule derivative pairs with \<open>u\<close>, up to the difference between \<open>_aHd_uV\<close> and
  the transpose of \<open>_Hd_uV\<close> at \<open>R Hd u\<close>.
\<close>

lemma impedance3D_adjoint_full:
  assumes self: "self = rebind self0 src mesh f"
    and sh: "shapes_3D self nU" and v: "length v = nU" and u: "length u = nD self"
    and ori: "orientation self \<in> {''xx'', ''xy'', ''yx'', ''yy''}"
    and c: "component self = ''real'' \<or> component self = ''imag''"
  shows "\<exists>aN N. Point_impedance3D_adjoint_branch self
             = Inr (sdiag (map (ratio self (impedance_terms (orientation self))) [0..<nD self]), aN)
           \<and> Point_impedance3D_ZijN_uV self v = Inr N
           \<and> (\<forall>d<nD self. N ! d = comb_u self (impedance_terms (orientation self)) v d)
           \<and> dot v (aN (over_det self u)) = dot u (spmv (Hd self) N)
           \<and> dot v (adjoint_flat self (impedance_terms (orientation self)) aN u)
               - dot u (map (ratio_u self (impedance_terms (orientation self)) v) [0..<nD self])
               = dot (ratio_over_det self (impedance_terms (orientation self)) u) (Hd_uV self v)
                 - dot v (aHd_uV self (ratio_over_det self (impedance_terms (orientation self)) u))
           \<and> (nU = 2 * mesh_nE mesh \<longrightarrow>
                Point_impedance3D_evalDeriv self0 src mesh f u True
                  = Inr (CplxMat (polarization_columns (mesh_nE mesh)
                       (if component self = ''imag'' then \<i> else 1)
                       (adjoint_flat self (impedance_terms (orientation self)) aN u))))"
proof -
  let ?ts = "impedance_terms (orientation self)"
  let ?y = "over_det self u"
  let ?z = "ratio_over_det self ?ts u"
  let ?R = "sdiag (map (ratio self ?ts) [0..<nD self])"
  have rows: "rows_agree self" by (rule shapes_3D_rows [OF sh])
  have ly: "length ?y = nD self" by (simp add: over_det_def)
  obtain Zij aN N where b: "Point_impedance3D_adjoint_branch self = Inr (Zij, aN)"
    and n: "Point_impedance3D_ZijN_uV self v = Inr N" and ln: "length N = nD self"
    and la: "length (aN ?y) = nU" and d: "dot v (aN ?y) = dot ?y N"
    using impedance3D_numerator_pair [OF sh v ly ori] by blast
  have z: "Zij = ?R" using impedance3D_adjoint_ratio [OF sh ori] b by auto
  have p: "\<forall>d<nD self. N ! d = comb_u self ?ts v d"
    using impedance3D_ZijN_uV [OF rows ori, of v] n by auto
  have t: "dot v (aN ?y) = dot u (spmv (Hd self) N)"
    using d dot_Hd [OF rows u ln] by (simp add: aHd_apply [OF sh, symmetric] aHd_eq [OF sh])
  have q: "dot u (map (ratio_u self ?ts v) [0..<nD self])
             = dot u (spmv (Hd self) N) - dot ?z (Hd_uV self v)"
    using p by (intro quotient_pairing [OF rows u ln]) simp
  have dv: "dot v (vsub (aN ?y) (aHd_uV self ?z)) = dot v (aN ?y) - dot v (aHd_uV self ?z)"
    by (rule dot_vsub) (simp_all add: la v length_aHd_uV [OF sh])
  have k: "dot v (vsub (aN ?y) (aHd_uV self ?z)) - dot u (map (ratio_u self ?ts v) [0..<nD self])
             = dot ?z (Hd_uV self v) - dot v (aHd_uV self ?z)"
    by (simp add: dv q t)
  have s: "Point_impedance3D_evalDeriv self0 src mesh f u True
             = Inr (CplxMat (polarization_columns (mesh_nE mesh)
                  (if component self = ''imag'' then \<i> else 1)
                  (vsub (aN ?y) (aHd_uV self ?z))))"
    if "nU = 2 * mesh_nE mesh"
    using impedance3D_adjoint_struct [OF self _ b ori c, of u] sh that
    by (simp add: z aHd_apply [OF sh] ratio_apply [OF sh, unfolded spT_sdiag])
  show ?thesis using b n p t k s unfolding z adjoint_flat_def by blast
qed

lemma tipper3D_adjoint_full:
  assumes self: "self = rebind self0 src mesh f"
    and sh: "shapes_3D self nU" and v: "length v = nU" and u: "length u = nD self"
    and ori: "orientation self \<in> {''zx'', ''zy''}"
    and c: "component self = ''real'' \<or> component self = ''imag''"
  shows "\<exists>aN N. Point_tipper3D_adjoint_branch self
             = Inr (sdiag (map (ratio self (tipper_terms (orientation self))) [0..<nD self]), aN)
           \<and> Point_tipper3D_TijN_uV self v = Inr N
           \<and> (\<forall>d<nD self. N ! d = comb_u self (tipper_terms (orientation self)) v d)
           \<and> dot v (aN (over_det self u)) = dot u (spmv (Hd self) N)
           \<and> dot v (adjoint_flat self (tipper_terms (orientation self)) aN u)
               - dot u (map (ratio_u self (tipper_terms (orientation self)) v) [0..<nD self])
               = dot (ratio_over_det self (tipper_terms (orientation self)) u) (Hd_uV self v)
                 - dot v (aHd_uV self (ratio_over_det self (tipper_terms (orientation self)) u))
           \<and> (nU = 2 * mesh_nE mesh \<longrightarrow>
                Point_tipper3D_evalDeriv self0 src mesh f u True
                  = Inr (CplxMat (polarization_columns (mesh_nE mesh)
                       (if component self = ''imag'' then \<i> else 1)
                       (adjoint_flat self (tipper_terms (orientation self)) aN u))))"
proof -
  let ?ts = "tipper_terms (orientation self)"
  let ?y = "over_det self u"
  let ?z = "ratio_over_det self ?ts u"
  let ?R = "sdiag (map (ratio self ?ts) [0..<nD self])"
  have rows: "rows_agree self" by (rule shapes_3D_rows [OF sh])
  have ly: "length ?y = nD self" by (simp add: over_det_def)
  obtain Zij aN N where b: "Point_tipper3D_adjoint_branch self = Inr (Zij, aN)"
    and n: "Point_tipper3D_TijN_uV self v = Inr N" and ln: "length N = nD self"
    and la: "length (aN ?y) = nU" and d: "dot v (aN ?y) = dot ?y N"
    using tipper3D_numerator_pair [OF sh v ly ori] by blast
  have z: "Zij = ?R" using tipper3D_adjoint_ratio [OF sh ori] b by auto
  have p: "\<forall>d<nD self. N ! d = comb_u self ?ts v d"
    using tipper3D_TijN_uV [OF rows ori, of v] n by auto
  have t: "dot v (aN ?y) = dot u (spmv (Hd self) N)"
    using d dot_Hd [OF rows u ln] by (simp add: aHd_apply [OF sh, symmetric] aHd_eq [OF sh])
  have q: "dot u (map (ratio_u self ?ts v) [0..<nD self])
             = dot u (spmv (Hd self) N) - dot ?z (Hd_uV self v)"
    using p by (intro quotient_pairing [OF rows u ln]) simp
  have dv: "dot v (vsub (aN ?y) (aHd_uV self ?z)) = dot v (aN ?y) - dot v (aHd_uV self ?z)"
    by (rule dot_vsub) (simp_all add: la v length_aHd_uV [OF sh])
  have k: "dot v (vsub (aN ?y) (aHd_uV self ?z)) - dot u (map (ratio_u self ?ts v) [0..<nD self])
             = dot ?z (Hd_uV self v) - dot v (aHd_uV self ?z)"
    by (simp add: dv q t)
  have s: "Point_tipper3D_evalDeriv self0 src mesh f u True
             = Inr (CplxMat (polarization_columns (mesh_nE mesh)
                  (if component self = ''imag'' then \<i> else 1)
                  (vsub (aN ?y) (aHd_uV self ?z))))"
    if "nU = 2 * mesh_nE mesh"
    using tipper3D_adjoint_struct [OF self _ b ori c, of u] sh that
    by (simp add: z aHd_apply [OF sh] ratio_apply [OF sh, unfolded spT_sdiag])
  show ?thesis using b n p t k s unfolding z adjoint_flat_def by blast
qed

lemma horizontalmagvar3D_adjoint_full:
  assumes self: "self = rebind self0 src mesh f"
    and sh: "shapes_3D self nU" and v: "length v = nU" and u: "length u = nD self"
    and ori: "orientation self \<in> {''xx'', ''xy'', ''yx'', ''yy''}"
    and c: "component self = ''real'' \<or> component self = ''imag''"
  shows "\<exists>aN N. Point_horizontalmagvar3D_adjoint_branch self
             = Inr (sdiag (map (ratio self (horizontalmagvar_terms (orientation self))) [0..<nD self]), aN)
           \<and> Point_horizontalmagvar3D_MijN_uV self v = Inr (N, schmucker (orientation self))
           \<and> (\<forall>d<nD self. N ! d = comb_u self (horizontalmagvar_terms (orientation self)) v d)
           \<and> dot v (aN (over_det self u)) = dot u (spmv (Hd self) N)
           \<and> dot v (adjoint_flat self (horizontalmagvar_terms (orientation self)) aN u)
               - dot u (map (ratio_u self (horizontalmagvar_terms (orientation self)) v) [0..<nD self])
               = dot (ratio_over_det self (horizontalmagvar_terms (orientation self)) u) (Hd_uV self v)
                 - dot v (aHd_uV self (ratio_over_det self (horizontalmagvar_terms (orientation self)) u))
           \<and> (nU = 2 * mesh_nE mesh \<longrightarrow>
                Point_horizontalmagvar3D_evalDeriv self0 src mesh f u True
                  = Inr (CplxMat (polarization_columns (mesh_nE mesh)
                       (if component self = ''imag'' then \<i> else 1)
                       (adjoint_flat self (horizontalmagvar_terms (orientation self)) aN u))))"
proof -
  let ?ts = "horizontalmagvar_terms (orientation self)"
  let ?y = "over_det self u"
  let ?z = "ratio_over_det self ?ts u"
  let ?R = "sdiag (map (ratio self ?ts) [0..<nD self])"
  have rows: "rows_agree self" by (rule shapes_3D_rows [OF sh])
  have ly: "length ?y = nD self" by (simp add: over_det_def)
  obtain Zij aN N cc where b: "Point_horizontalmagvar3D_adjoint_branch self = Inr (Zij, aN)"
    and n: "Point_horizontalmagvar3D_MijN_uV self v = Inr (N, cc)" and ln: "length N = nD self"
    and la: "length (aN ?y) = nU" and d: "dot v (aN ?y) = dot ?y N"
    using horizontalmagvar3D_numerator_pair [OF sh v ly ori] by blast
  have z: "Zij = ?R" using horizontalmagvar3D_adjoint_ratio [OF sh ori] b by auto
  have p: "cc = schmucker (orientation self) \<and> (\<forall>d<nD self. N ! d = comb_u self ?ts v d)"
    using horizontalmagvar3D_MijN_uV [OF rows ori, of v] n by auto
  have t: "dot v (aN ?y) = dot u (spmv (Hd self) N)"
    using d dot_Hd [OF rows u ln] by (simp add: aHd_apply [OF sh, symmetric] aHd_eq [OF sh])
  have q: "dot u (map (ratio_u self ?ts v) [0..<nD self])
             = dot u (spmv (Hd self) N) - dot ?z (Hd_uV self v)"
    using p by (intro quotient_pairing [OF rows u ln]) simp
  have dv: "dot v (vsub (aN ?y) (aHd_uV self ?z)) = dot v (aN ?y) - dot v (aHd_uV self ?z)"
    by (rule dot_vsub) (simp_all add: la v length_aHd_uV [OF sh])
  have k: "dot v (vsub (aN ?y) (aHd_uV self ?z)) - dot u (map (ratio_u self ?ts v) [0..<nD self])
             = dot ?z (Hd_uV self v) - dot v (aHd_uV self ?z)"
    by (simp add: dv q t)
  have s: "Point_horizontalmagvar3D_evalDeriv self0 src mesh f u True
             = Inr (CplxMat (polarization_columns (mesh_nE mesh)
                  (if component self = ''imag'' then \<i> else 1)
                  (vsub (aN ?y) (aHd_uV self ?z))))"
    if "nU = 2 * mesh_nE mesh"
    using horizontalmagvar3D_adjoint_struct [OF self _ b ori c, of u] sh that
    by (simp add: z aHd_apply [OF sh] ratio_apply [OF sh, unfolded spT_sdiag])
  show ?thesis using b n p t k s unfolding z adjoint_flat_def by blast
qed

text \<open>The 1D variant: forward and adjoint derivative on the same receiver.\<close>

lemma impedance1D_transpose:
  assumes self: "self = rebind self0 src mesh f"
    and sh: "shapes_1D self nU" and v: "length v = nU" and u: "length u = nD_1D self"
    and c: "component self = ''real'' \<or> component self = ''imag''"
  shows "\<exists>a r. Point_impedance1D_evalDeriv self0 src mesh f u True = Inr (CplxArr a)
           \<and> Point_impedance1D_evalDeriv self0 src mesh f v False = Inr (RealArr r)
           \<and> length a = nU
           \<and> r = map (\<lambda>d. part (component self) (ratio_u_1D self v d)) [0..<nD_1D self]
           \<and> dot v a = (if component self = ''imag'' then \<i> else 1)
                        * dot u (map (ratio_u_1D self v) [0..<nD_1D self])
           \<and> (list_all (\<lambda>z. Im z = 0) u \<longrightarrow>
                dot u (map complex_of_real r)
                  = (if component self = ''imag'' then - 1 else 1) * complex_of_real (Re (dot v a)))"
proof -
  have rows: "rows_agree_1D self" using sh by (simp add: shapes_1D_def)
  let ?J = "ratio_u_1D self v"
  let ?r = "map (\<lambda>d. part (component self) (?J d)) [0..<nD_1D self]"
  obtain a where a: "Point_impedance1D_evalDeriv self0 src mesh f u True = Inr (CplxArr a)"
    and la: "length a = nU"
    and d: "dot v a = (if component self = ''imag'' then \<i> else 1)
                        * dot u (map ?J [0..<nD_1D self])"
    using impedance1D_adjoint [OF self sh v u c] by blast
  have r: "Point_impedance1D_evalDeriv self0 src mesh f v False = Inr (RealArr ?r)"
    using impedance1D_evalDeriv_forward [OF self rows, of v] getattr_map_part [OF c]
    by simp
  have p: "dot u (map complex_of_real ?r)
             = (if component self = ''imag'' then - 1 else 1) * complex_of_real (Re (dot v a))"
    if "list_all (\<lambda>z. Im z = 0) u"
    using real_pairing [OF that u, of ?J] c d
    by (auto simp: part_def comp_def)
  show ?thesis using a r la d p by blast
qed

text \<open>
  Claim C1, as amended. Let the field object's derivative operators be exact
  forward/adjoint pairs of linear maps between model space (size \<open>nU\<close>) and the spaces the
  interpolation matrices act on, \<open>component\<close> be \<open>'real'\<close> or \<open>'imag'\<close>, \<open>u\<close> a data-space
  and \<open>v\<close> a model-space vector, and \<open>J v\<close> the complex quotient-rule derivative
  \<open>Hd (N' - R D')\<close> of the variant and orientation, \<open>R\<close> being the ratio.

  \<^item> 1D impedance: the forward mode returns the real array \<open>Re (J v)\<close> or \<open>Im (J v)\<close>, the
    adjoint mode returns the complex array \<open>a = k * J.T u\<close> with \<open>k = 1\<close> for \<open>'real'\<close> and
    \<open>k = 1j\<close> for \<open>'imag'\<close>. So \<open>dot(v, a) = k * dot(u, J v)\<close>, and for a real \<open>u\<close> the pairing
    with the forward result is \<open>dot(u, forward) = Re (dot(v, a))\<close> for \<open>'real'\<close> and
    \<open>- Re (dot(v, a))\<close> for \<open>'imag'\<close>.
  \<^item> 3D impedance, tipper and horizontal magnetic transfer function, for the orientations
    of the variant's table: the forward mode returns \<open>Re (J v)\<close> or \<open>Im (J v)\<close>; the adjoint
    mode (model space of size \<open>2 nE\<close>) returns the two columns of \<open>k * flat\<close> with
    \<open>flat = aN (Hd u) - _aHd_uV (R Hd u)\<close>, where the matrix \<open>Zij\<close> of the code is the diagonal
    matrix of the ratio \<open>R\<close>, and the numerator closure \<open>aN\<close> is the exact transpose of the
    forward numerator derivative \<open>N'\<close> behind the determinant factor:
    \<open>dot(v, aN (Hd u)) = dot(u, Hd N'(v))\<close>. Hence
    \<open>dot(v, flat) - dot(u, J v) = dot(R Hd u, _Hd_uV(v)) - dot(v, _aHd_uV (R Hd u))\<close>: the
    flat vector pairs as \<open>J.T u\<close> exactly where \<open>_aHd_uV\<close> transposes \<open>_Hd_uV\<close>.
\<close>

theorem adjoint_transpose_by_design:
  assumes self: "self = rebind self0 src mesh f"
    and c: "component self = ''real'' \<or> component self = ''imag''"
    and v: "length v = nU"
  shows
    "(shapes_1D self nU \<and> length u = nD_1D self \<longrightarrow>
        (\<exists>a r. Point_impedance1D_evalDeriv self0 src mesh f u True = Inr (CplxArr a)
           \<and> Point_impedance1D_evalDeriv self0 src mesh f v False = Inr (RealArr r)
           \<and> length a = nU
           \<and> r = map (\<lambda>d. part (component self) (ratio_u_1D self v d)) [0..<nD_1D self]
           \<and> dot v a = (if component self = ''imag'' then \<i> else 1)
                        * dot u (map (ratio_u_1D self v) [0..<nD_1D self])
           \<and> (list_all (\<lambda>z. Im z = 0) u \<longrightarrow>
                dot u (map complex_of_real r)
                  = (if component self = ''imag'' then - 1 else 1)
                    * complex_of_real (Re (dot v a)))))
     \<and> (shapes_3D self nU \<and> length u = nD self \<and> orientation self \<in> tensor_orientations \<longrightarrow>
        (\<exists>aN N. Point_impedance3D_adjoint_branch self
                 = Inr (sdiag (map (ratio self (impedance_terms (orientation self))) [0..<nD self]), aN)
           \<and> Point_impedance3D_ZijN_uV self v = Inr N
           \<and> (\<forall>d<nD self. N ! d = comb_u self (impedance_terms (orientation self)) v d)
           \<and> Point_impedance3D_evalDeriv self0 src mesh f v False
               = Inr (RealArr (map (\<lambda>d. part (component self)
                                         (ratio_u self (impedance_terms (orientation self)) v d))
                                 [0..<nD self]))
           \<and> dot v (aN (over_det self u)) = dot u (spmv (Hd self) N)
           \<and> dot v (adjoint_flat self (impedance_terms (orientation self)) aN u)
               - dot u (map (ratio_u self (impedance_terms (orientation self)) v) [0..<nD self])
               = dot (ratio_over_det self (impedance_terms (orientation self)) u) (Hd_uV self v)
                 - dot v (aHd_uV self (ratio_over_det self (impedance_terms (orientation self)) u))
           \<and> (nU = 2 * mesh_nE mesh \<longrightarrow>
                Point_impedance3D_evalDeriv self0 src mesh f u True
                  = Inr (CplxMat (polarization_columns (mesh_nE mesh)
                       (if component self = ''imag'' then \<i> else 1)
                       (adjoint_flat self (impedance_terms (orientation self)) aN u))))))
     \<and> (shapes_3D self nU \<and> length u = nD self \<and> orientation self \<in> tipper_orientations \<longrightarrow>
        (\<exists>aN N. Point_tipper3D_adjoint_branch self
                 = Inr (sdiag (map (ratio self (tipper_terms (orientation self))) [0..<nD self]), aN)
           \<and> Point_tipper3D_TijN_uV self v = Inr N
           \<and> (\<forall>d<nD self. N ! d = comb_u self (tipper_terms (orientation self)) v d)
           \<and> Point_tipper3D_evalDeriv self0 src mesh f v False
               = Inr (RealArr (map (\<lambda>d. part (component self)
                                         (ratio_u self (tipper_terms (orientation self)) v d))
                                 [0..<nD self]))
           \<and> dot v (aN (over_det self u)) = dot u (spmv (Hd self) N)
           \<and> dot v (adjoint_flat self (tipper_terms (orientation self)) aN u)
               - dot u (map (ratio_u self (tipper_terms (orientation self)) v) [0..<nD self])
               = dot (ratio_over_det self (tipper_terms (orientation self)) u) (Hd_uV self v)
                 - dot v (aHd_uV self (ratio_over_det self (tipper_terms (orientation self)) u))
           \<and> (nU = 2 * mesh_nE mesh \<longrightarrow>
                Point_tipper3D_evalDeriv self0 src mesh f u True
                  = Inr (CplxMat (polarization_columns (mesh_nE mesh)
                       (if component self = ''imag'' then \<i> else 1)
                       (adjoint_flat self (tipper_terms (orientation self)) aN u))))))
     \<and> (shapes_3D self nU \<and> length u = nD self \<and> orientation self \<in> tensor_orientations \<longrightarrow>
        (\<exists>aN N. Point_horizontalmagvar3D_adjoint_branch self
                 = Inr (sdiag (map (ratio self (horizontalmagvar_terms (orientation self))) [0..<nD self]), aN)
           \<and> Point_horizontalmagvar3D_MijN_uV self v = Inr (N, schmucker (orientation self))
           \<and> (\<forall>d<nD self. N ! d = comb_u self (horizontalmagvar_terms (orientation self)) v d)
           \<and> Point_horizontalmagvar3D_evalDeriv self0 src mesh f v False
               = Inr (RealArr (map (\<lambda>d. part (component self)
                                         (ratio_u self (horizontalmagvar_terms (orientation self)) v d))
                                 [0..<nD self]))
           \<and> dot v (aN (over_det self u)) = dot u (spmv (Hd self) N)
           \<and> dot v (adjoint_flat self (horizontalmagvar_terms (orientation self)) aN u)
               - dot u (map (ratio_u self (horizontalmagvar_terms (orientation self)) v) [0..<nD self])
               = dot (ratio_over_det self (horizontalmagvar_terms (orientation self)) u) (Hd_uV self v)
                 - dot v (aHd_uV self (ratio_over_det self (horizontalmagvar_terms (orientation self)) u))
           \<and> (nU = 2 * mesh_nE mesh \<longrightarrow>
                Point_horizontalmagvar3D_evalDeriv self0 src mesh f u True
                  = Inr (CplxMat (polarization_columns (mesh_nE mesh)
                       (if component self = ''imag'' then \<i> else 1)
                       (adjoint_flat self (horizontalmagvar_terms (orientation self)) aN u))))))"
proof (intro conjI impI)
  assume "shapes_1D self nU \<and> length u = nD_1D self"
  then show "\<exists>a r. Point_impedance1D_evalDeriv self0 src mesh f u True = Inr (CplxArr a)
           \<and> Point_impedance1D_evalDeriv self0 src mesh f v False = Inr (RealArr r)
           \<and> length a = nU
           \<and> r = map (\<lambda>d. part (component self) (ratio_u_1D self v d)) [0..<nD_1D self]
           \<and> dot v a = (if component self = ''imag'' then \<i> else 1)
                        * dot u (map (ratio_u_1D self v) [0..<nD_1D self])
           \<and> (list_all (\<lambda>z. Im z = 0) u \<longrightarrow>
                dot u (map complex_of_real r)
                  = (if component self = ''imag'' then - 1 else 1)
                    * complex_of_real (Re (dot v a)))"
    using impedance1D_transpose [OF self _ v _ c, of u] by blast
next
  assume a: "shapes_3D self nU \<and> length u = nD self \<and> orientation self \<in> tensor_orientations"
  then have o: "orientation self \<in> {''xx'', ''xy'', ''yx'', ''yy''}"
    by (simp add: tensor_orientations_def)
  have f: "Point_impedance3D_evalDeriv self0 src mesh f v False
               = Inr (RealArr (map (\<lambda>d. part (component self)
                                         (ratio_u self (impedance_terms (orientation self)) v d))
                                 [0..<nD self]))"
    using impedance3D_evalDeriv_forward [OF self shapes_3D_rows o, of nU v] a
      getattr_map_part [OF c]
    by simp
  show "\<exists>aN N. Point_impedance3D_adjoint_branch self
                 = Inr (sdiag (map (ratio self (impedance_terms (orientation self))) [0..<nD self]), aN)
           \<and> Point_impedance3D_ZijN_uV self v = Inr N
           \<and> (\<forall>d<nD self. N ! d = comb_u self (impedance_terms (orientation self)) v d)
           \<and> Point_impedance3D_evalDeriv self0 src mesh f v False
               = Inr (RealArr (map (\<lambda>d. part (component self)
                                         (ratio_u self (impedance_terms (orientation self)) v d))
                                 [0..<nD self]))
           \<and> dot v (aN (over_det self u)) = dot u (spmv (Hd self) N)
           \<and> dot v (adjoint_flat self (impedance_terms (orientation self)) aN u)
               - dot u (map (ratio_u self (impedance_terms (orientation self)) v) [0..<nD self])
               = dot (ratio_over_det self (impedance_terms (orientation self)) u) (Hd_uV self v)
                 - dot v (aHd_uV self (ratio_over_det self (impedance_terms (orientation self)) u))
           \<and> (nU = 2 * mesh_nE mesh \<longrightarrow>
                Point_impedance3D_evalDeriv self0 src mesh f u True
                  = Inr (CplxMat (polarization_columns (mesh_nE mesh)
                       (if component self = ''imag'' then \<i> else 1)
                       (adjoint_flat self (impedance_terms (orientation self)) aN u))))"
    using impedance3D_adjoint_full [OF self _ v _ o c, of u] a f by blast
next
  assume a: "shapes_3D self nU \<and> length u = nD self \<and> orientation self \<in> tipper_orientations"
  then have o: "orientation self \<in> {''zx'', ''zy''}"
    by (simp add: tipper_orientations_def)
  have f: "Point_tipper3D_evalDeriv self0 src mesh f v False
               = Inr (RealArr (map (\<lambda>d. part (component self)
                                         (ratio_u self (tipper_terms (orientation self)) v d))
                                 [0..<nD self]))"
    using tipper3D_evalDeriv_forward [OF self shapes_3D_rows o, of nU v] a
      getattr_map_part [OF c]
    by simp
  show "\<exists>aN N. Point_tipper3D_adjoint_branch self
                 = Inr (sdiag (map (ratio self (tipper_terms (orientation self))) [0..<nD self]), aN)
           \<and> Point_tipper3D_TijN_uV self v = Inr N
           \<and> (\<forall>d<nD self. N ! d = comb_u self (tipper_terms (orientation self)) v d)
           \<and> Point_tipper3D_evalDeriv self0 src mesh f v False
               = Inr (RealArr (map (\<lambda>d. part (component self)
                                         (ratio_u self (tipper_terms (orientation self)) v d))
                                 [0..<nD self]))
           \<and> dot v (aN (over_det self u)) = dot u (spmv (Hd self) N)
           \<and> dot v (adjoint_flat self (tipper_terms (orientation self)) aN u)
               - dot u (map (ratio_u self (tipper_terms (orientation self)) v) [0..<nD self])
               = dot (ratio_over_det self (tipper_terms (orientation self)) u) (Hd_uV self v)
                 - dot v (aHd_uV self (ratio_over_det self (tipper_terms (orientation self)) u))
           \<and> (nU = 2 * mesh_nE mesh \<longrightarrow>
                Point_tipper3D_evalDeriv self0 src mesh f u True
                  = Inr (CplxMat (polarization_columns (mesh_nE mesh)
                       (if component self = ''imag'' then \<i> else 1)
                       (adjoint_flat self (tipper_terms (orientation self)) aN u))))"
    using tipper3D_adjoint_full [OF self _ v _ o c, of u] a f by blast
next
  assume a: "shapes_3D self nU \<and> length u = nD self \<and> orientation self \<in> tensor_orientations"
  then have o: "orientation self \<in> {''xx'', ''xy'', ''yx'', ''yy''}"
    by (simp add: tensor_orientations_def)
  have f: "Point_horizontalmagvar3D_evalDeriv self0 src mesh f v False
               = Inr (RealArr (map (\<lambda>d. part (component self)
                                         (ratio_u self (horizontalmagvar_terms (orientation self)) v d))
                                 [0..<nD self]))"
    using horizontalmagvar3D_evalDeriv_forward [OF self shapes_3D_rows o, of nU v] a
      getattr_map_part [OF c]
    by simp
  show "\<exists>aN N. Point_horizontalmagvar3D_adjoint_branch self
                 = Inr (sdiag (map (ratio self (horizontalmagvar_terms (orientation self))) [0..<nD self]), aN)
           \<and> Point_horizontalmagvar3D_MijN_uV self v = Inr (N, schmucker (orientation self))
           \<and> (\<forall>d<nD self. N ! d = comb_u self (horizontalmagvar_terms (orientation self)) v d)
           \<and> Point_horizontalmagvar3D_evalDeriv self0 src mesh f v False
               = Inr (RealArr (map (\<lambda>d. part (component self)
                                         (ratio_u self (horizontalmagvar_terms (orientation self)) v d))
                                 [0..<nD self]))
           \<and> dot v (aN (over_det self u)) = dot u (spmv (Hd self) N)
           \<and> dot v (adjoint_flat self (horizontalmagvar_terms (orientation self)) aN u)
               - dot u (map (ratio_u self (horizontalmagvar_terms (orientation self)) v) [0..<nD self])
               = dot (ratio_over_det self (horizontalmagvar_terms (orientation self)) u) (Hd_uV self v)
                 - dot v (aHd_uV self (ratio_over_det self (horizontalmagvar_terms (orientation self)) u))
           \<and> (nU = 2 * mesh_nE mesh \<longrightarrow>
                Point_horizontalmagvar3D_evalDeriv self0 src mesh f u True
                  = Inr (CplxMat (polarization_columns (mesh_nE mesh)
                       (if component self = ''imag'' then \<i> else 1)
                       (adjoint_flat self (horizontalmagvar_terms (orientation self)) aN u))))"
    using horizontalmagvar3D_adjoint_full [OF self _ v _ o c, of u] a f by blast
qed

text \<open>
  On the 1D receiver with \<open>u = v = [1]\<close>, and on the 3D receiver of the mesh with two edges,
  orientation \<open>xy\<close>, \<open>u = [1]\<close> and \<open>v = [3, 5, 7, 11]\<close>.
\<close>

theorem adjoint_transpose_by_design_witness:
  "ex1_rx ''imag'' = rebind (ex1_rx ''imag'') () ex1_mesh ex1_fields
   \<and> component (ex1_rx ''imag'') = ''imag''
   \<and> shapes_1D (ex1_rx ''imag'') 1 \<and> length [1 :: complex] = nD_1D (ex1_rx ''imag'')
   \<and> list_all (\<lambda>z. Im z = 0) [1 :: complex]
   \<and> (\<exists>a r. Point_impedance1D_evalDeriv (ex1_rx ''imag'') () ex1_mesh ex1_fields [1] True
               = Inr (CplxArr a)
          \<and> Point_impedance1D_evalDeriv (ex1_rx ''imag'') () ex1_mesh ex1_fields [1] False
               = Inr (RealArr r)
          \<and> dot [1] a = \<i> * dot [1] (map (ratio_u_1D (ex1_rx ''imag'') [1]) [0..<1])
          \<and> dot [1] (map complex_of_real r) = - complex_of_real (Re (dot [1] a)))
   \<and> ex4_rx ''xy'' ''real'' = rebind (ex4_rx ''xy'' ''real'') () ex4_mesh ex4_fields
   \<and> component (ex4_rx ''xy'' ''real'') = ''real''
   \<and> shapes_3D (ex4_rx ''xy'' ''real'') 4 \<and> length [1 :: complex] = nD (ex4_rx ''xy'' ''real'')
   \<and> orientation (ex4_rx ''xy'' ''real'') \<in> tensor_orientations
   \<and> 4 = 2 * mesh_nE ex4_mesh
   \<and> (\<exists>aN N. Point_impedance3D_adjoint_branch (ex4_rx ''xy'' ''real'')
                 = Inr (sdiag (map (ratio (ex4_rx ''xy'' ''real'') (impedance_terms ''xy'')) [0..<1]),
                        aN)
          \<and> Point_impedance3D_ZijN_uV (ex4_rx ''xy'' ''real'') [3, 5, 7, 11] = Inr N
          \<and> Point_impedance3D_evalDeriv (ex4_rx ''xy'' ''real'') () ex4_mesh ex4_fields
                [3, 5, 7, 11] False
              = Inr (RealArr (map (\<lambda>d. Re (ratio_u (ex4_rx ''xy'' ''real'') (impedance_terms ''xy'')
                                              [3, 5, 7, 11] d)) [0..<1]))
          \<and> dot [3, 5, 7, 11] (aN (over_det (ex4_rx ''xy'' ''real'') [1]))
              = dot [1] (spmv (Hd (ex4_rx ''xy'' ''real'')) N)
          \<and> adjoint_flat (ex4_rx ''xy'' ''real'') (impedance_terms ''xy'') aN [1]
              = [- 1, - (1 / mu_0), 0, 0]
          \<and> dot [3, 5, 7, 11] (adjoint_flat (ex4_rx ''xy'' ''real'') (impedance_terms ''xy'') aN [1])
              - dot [1] (map (ratio_u (ex4_rx ''xy'' ''real'') (impedance_terms ''xy'') [3, 5, 7, 11])
                           [0..<1])
              = dot (ratio_over_det (ex4_rx ''xy'' ''real'') (impedance_terms ''xy'') [1])
                    (Hd_uV (ex4_rx ''xy'' ''real'') [3, 5, 7, 11])
                - dot [3, 5, 7, 11]
                    (aHd_uV (ex4_rx ''xy'' ''real'')
                       (ratio_over_det (ex4_rx ''xy'' ''real'') (impedance_terms ''xy'') [1]))
          \<and> Point_impedance3D_evalDeriv (ex4_rx ''xy'' ''real'') () ex4_mesh ex4_fields [1] True
              = Inr (CplxMat (polarization_columns 2 1
                   (adjoint_flat (ex4_rx ''xy'' ''real'') (impedance_terms ''xy'') aN [1]))))"
proof -
  let ?r1 = "ex1_rx ''imag''"
  let ?r3 = "ex4_rx ''xy'' ''real''"
  let ?v = "[3, 5, 7, 11 :: complex]"
  have a1: "?r1 = rebind ?r1 () ex1_mesh ex1_fields" by simp
  have c1: "component ?r1 = ''real'' \<or> component ?r1 = ''imag''" by (simp add: ex1_f)
  have s1: "shapes_1D ?r1 1" "length [1 :: complex] = nD_1D ?r1"
    using ex1_shapes [of "''imag''"] by simp_all
  have a3: "?r3 = rebind ?r3 () ex4_mesh ex4_fields" by simp
  have c3: "component ?r3 = ''real'' \<or> component ?r3 = ''imag''" by (simp add: ex4_f)
  have s3: "shapes_3D ?r3 4" "length [1 :: complex] = nD ?r3"
    using ex4_shapes [of "''xy''" "''real''"] by simp_all
  have o3: "orientation ?r3 \<in> tensor_orientations" by (simp add: ex4_f tensor_orientations_def)
  have n: "4 = 2 * mesh_nE ex4_mesh" by (simp add: ex4_f)
  have l1: "length [1 :: complex] = 1" and l3: "length ?v = 4" by simp_all
  have r1: "list_all (\<lambda>z. Im z = 0) [1 :: complex]" by simp
  have k1: "component ?r1 = ''imag''" and d1: "nD_1D ?r1 = 1"
    using ex1_shapes [of "''imag''"] by (simp_all add: ex1_f)
  have k3: "component ?r3 = ''real''" "orientation ?r3 = ''xy''" "nD ?r3 = 1" "mesh_nE ex4_mesh = 2"
    by (simp_all add: ex4_f ex4_shapes)
  obtain a r where "Point_impedance1D_evalDeriv ?r1 () ex1_mesh ex1_fields [1] True
               = Inr (CplxArr a)"
    "Point_impedance1D_evalDeriv ?r1 () ex1_mesh ex1_fields [1] False = Inr (RealArr r)"
    "dot [1] a = (if component ?r1 = ''imag'' then \<i> else 1)
                   * dot [1] (map (ratio_u_1D ?r1 [1]) [0..<nD_1D ?r1])"
    "list_all (\<lambda>z. Im z = 0) [1 :: complex] \<longrightarrow>
       dot [1] (map complex_of_real r)
         = (if component ?r1 = ''imag'' then - 1 else 1) * complex_of_real (Re (dot [1] a))"
    using adjoint_transpose_by_design [OF a1 c1 l1, where u = "[1]", THEN conjunct1,
        rule_format, OF conjI [OF s1]]
    by blast
  then have p1: "\<exists>a r. Point_impedance1D_evalDeriv ?r1 () ex1_mesh ex1_fields [1] True
               = Inr (CplxArr a)
          \<and> Point_impedance1D_evalDeriv ?r1 () ex1_mesh ex1_fields [1] False = Inr (RealArr r)
          \<and> dot [1] a = \<i> * dot [1] (map (ratio_u_1D ?r1 [1]) [0..<1])
          \<and> dot [1] (map complex_of_real r) = - complex_of_real (Re (dot [1] a))"
    using r1 by (simp only: k1 d1 if_True) simp
  obtain aN N where br: "Point_impedance3D_adjoint_branch ?r3
        = Inr (sdiag (map (ratio ?r3 (impedance_terms (orientation ?r3))) [0..<nD ?r3]), aN)"
    and q: "Point_impedance3D_ZijN_uV ?r3 ?v = Inr N"
      "Point_impedance3D_evalDeriv ?r3 () ex4_mesh ex4_fields ?v False
         = Inr (RealArr (map (\<lambda>d. part (component ?r3)
                                     (ratio_u ?r3 (impedance_terms (orientation ?r3)) ?v d))
                           [0..<nD ?r3]))"
      "dot ?v (aN (over_det ?r3 [1])) = dot [1] (spmv (Hd ?r3) N)"
      "dot ?v (adjoint_flat ?r3 (impedance_terms (orientation ?r3)) aN [1])
         - dot [1] (map (ratio_u ?r3 (impedance_terms (orientation ?r3)) ?v) [0..<nD ?r3])
         = dot (ratio_over_det ?r3 (impedance_terms (orientation ?r3)) [1]) (Hd_uV ?r3 ?v)
           - dot ?v (aHd_uV ?r3 (ratio_over_det ?r3 (impedance_terms (orientation ?r3)) [1]))"
      "4 = 2 * mesh_nE ex4_mesh \<longrightarrow>
         Point_impedance3D_evalDeriv ?r3 () ex4_mesh ex4_fields [1] True
           = Inr (CplxMat (polarization_columns (mesh_nE ex4_mesh)
                (if component ?r3 = ''imag'' then \<i> else 1)
                (adjoint_flat ?r3 (impedance_terms (orientation ?r3)) aN [1])))"
    using adjoint_transpose_by_design [OF a3 c3 l3, where u = "[1]", THEN conjunct2,
        THEN conjunct1, rule_format, OF conjI [OF s3(1) conjI [OF s3(2) o3]]]
    by blast
  have pr: "part ''real'' = Re" by (simp add: part_def fun_eq_iff)
  have kk: "(if ''real'' = ''imag'' then \<i> else 1) = (1 :: complex)" by simp
  have fl: "adjoint_flat ?r3 (impedance_terms ''xy'') aN [1] = [- 1, - (1 / mu_0), 0, 0]"
    by (rule ex4_flat [OF br])
  note q5 = q(5) [rule_format, OF n]
  note w = br q(1-4) q5
  have p3: "\<exists>aN N. Point_impedance3D_adjoint_branch ?r3
                 = Inr (sdiag (map (ratio ?r3 (impedance_terms ''xy'')) [0..<1]), aN)
          \<and> Point_impedance3D_ZijN_uV ?r3 ?v = Inr N
          \<and> Point_impedance3D_evalDeriv ?r3 () ex4_mesh ex4_fields ?v False
              = Inr (RealArr (map (\<lambda>d. Re (ratio_u ?r3 (impedance_terms ''xy'') ?v d)) [0..<1]))
          \<and> dot ?v (aN (over_det ?r3 [1])) = dot [1] (spmv (Hd ?r3) N)
          \<and> adjoint_flat ?r3 (impedance_terms ''xy'') aN [1] = [- 1, - (1 / mu_0), 0, 0]
          \<and> dot ?v (adjoint_flat ?r3 (impedance_terms ''xy'') aN [1])
              - dot [1] (map (ratio_u ?r3 (impedance_terms ''xy'') ?v) [0..<1])
              = dot (ratio_over_det ?r3 (impedance_terms ''xy'') [1]) (Hd_uV ?r3 ?v)
                - dot ?v (aHd_uV ?r3 (ratio_over_det ?r3 (impedance_terms ''xy'') [1]))
          \<and> Point_impedance3D_evalDeriv ?r3 () ex4_mesh ex4_fields [1] True
              = Inr (CplxMat (polarization_columns 2 1
                   (adjoint_flat ?r3 (impedance_terms ''xy'') aN [1])))"
    using w [unfolded k3 pr kk] fl
    by (intro exI [of _ aN] exI [of _ N] conjI)
  have g: "component ?r1 = ''imag''" "component ?r3 = ''real''" "length [1 :: complex] = nD ?r3"
    by (rule k1, rule k3(1), rule s3(2))
  show ?thesis
    by (intro conjI a1 g s1 r1 p1 a3 s3 o3 n p3)
qed

text \<open>
  Claim C1 as stated fails: on the 1D receiver with component \<open>'imag'\<close>, whose derivative
  operators are exact pairs, and \<open>u = v = [1]\<close>, the forward derivative is the real array
  \<open>[0]\<close> and the adjoint derivative is the complex array \<open>[-1j]\<close>, so
  \<open>dot(u, forward) = 0\<close> and \<open>dot(v, adjoint) = -1j\<close>.
\<close>

theorem adjoint_identity_imag_counterexample:
  "shapes_1D (ex1_rx ''imag'') 1 \<and> nD_1D (ex1_rx ''imag'') = 1
   \<and> Point_impedance1D_evalDeriv (ex1_rx ''imag'') () ex1_mesh ex1_fields [1] False
       = Inr (RealArr [0])
   \<and> Point_impedance1D_evalDeriv (ex1_rx ''imag'') () ex1_mesh ex1_fields [1] True
       = Inr (CplxArr [- \<i>])
   \<and> dot [1] (map complex_of_real [0]) \<noteq> dot [1] [- \<i>]"
  using ex1_shapes [of "''imag''"]
  by (simp add: ex1_fwd_imag ex1_adj_imag dot_def)

text \<open>
  The determinant part. \<open>_Hd_uV\<close> is
  \<open>hy_py hx_px' + hx_px hy_py' - hx_py hy_px' - hy_px hx_py'\<close>; \<open>_aHd_uV\<close> has the term
  \<open>_ahx_px_u (sdiag(_ahy_py) x)\<close> twice and no \<open>_ahy_py_u (sdiag(_ahx_px) x)\<close>. With
  \<open>hx_px = hy_py = 1\<close> and \<open>hx_py = hy_px = 0\<close> the two are not transposes of each other.
\<close>

lemma ex2_P:
  "Pex (ex2_rx ori c) = \<lparr>nrows = 1, ncols = 1, entry = (\<lambda>i j. 1)\<rparr>"
  "Pey (ex2_rx ori c) = \<lparr>nrows = 1, ncols = 1, entry = (\<lambda>i j. 2)\<rparr>"
  "Pbx (ex2_rx ori c) = \<lparr>nrows = 1, ncols = 2, entry = (\<lambda>i j. if j = 0 then 1 else 0)\<rparr>"
  "Pby (ex2_rx ori c) = \<lparr>nrows = 1, ncols = 2, entry = (\<lambda>i j. if j = 1 then 1 else 0)\<rparr>"
  "Pbz (ex2_rx ori c) = \<lparr>nrows = 1, ncols = 2, entry = (\<lambda>i j. 1)\<rparr>"
  "Pbx_num (ex2_rx ori c) = \<lparr>nrows = 1, ncols = 2, entry = (\<lambda>i j. if j = 0 then 1 else 0)\<rparr>"
  "Pby_num (ex2_rx ori c) = \<lparr>nrows = 1, ncols = 2, entry = (\<lambda>i j. if j = 1 then 1 else 0)\<rparr>"
  by (simp_all add: Pex_def Pey_def Pbx_def Pby_def Pbz_def Pbx_num_def Pby_num_def ex_rx_def
      ex2_rx_def ex_mesh_def)

lemma ex2_f:
  "f_get (ex2_rx ori c) ''e_px'' = [1]" "f_get (ex2_rx ori c) ''e_py'' = [0]"
  "f_get (ex2_rx ori c) ''b_px'' = [complex_of_real mu_0, 0]"
  "f_get (ex2_rx ori c) ''b_py'' = [0, complex_of_real mu_0]"
  "rx_f (ex2_rx ori c) = ex2_fields" "rx_src (ex2_rx ori c) = ()"
  by (simp_all add: f_get_def ex_rx_def ex2_rx_def ex2_fields_def)

lemma ex2_pairs:
  "adjoint_pair (e_pxDeriv_u ex2_fields ()) 2 (Suc 0)"
  "adjoint_pair (e_pyDeriv_u ex2_fields ()) 2 (Suc 0)"
  "adjoint_pair (b_pxDeriv_u ex2_fields ()) 2 2"
  "adjoint_pair (b_pyDeriv_u ex2_fields ()) 2 2"
  unfolding adjoint_pair_def
  by (auto simp: ex2_fields_def dot_def sum2 dest!: len2 len1)

lemma ex2_shapes: "shapes_3D (ex2_rx ori c) 2"
  by (simp add: shapes_3D_def rows_agree_def nD_def ex2_P ex2_f ex2_pairs)

lemma ex2_interp:
  "hx_px (ex2_rx ori c) = [1]" "hy_px (ex2_rx ori c) = [0]"
  "hx_py (ex2_rx ori c) = [0]" "hy_py (ex2_rx ori c) = [1]"
  by (simp_all add: interp_defs ex2_P ex2_f spmv_def vdivs_def sum2)

lemma ex2_ainterp:
  "ahx_px (ex2_rx ori c) = [1]" "ahy_px (ex2_rx ori c) = [0]"
  "ahx_py (ex2_rx ori c) = [0]" "ahy_py (ex2_rx ori c) = [1]"
  using ainterp_eq [OF ex2_shapes, of ori c Hx_px] ainterp_eq [OF ex2_shapes, of ori c Hy_px]
    ainterp_eq [OF ex2_shapes, of ori c Hx_py] ainterp_eq [OF ex2_shapes, of ori c Hy_py]
  by (simp_all add: ex2_interp)

lemma ex2_interp_u:
  "hx_px_u (ex2_rx ori c) [a, b] = [a / mu_0]" "hy_px_u (ex2_rx ori c) [a, b] = [b / mu_0]"
  "hx_py_u (ex2_rx ori c) [a, b] = [2 * a / mu_0]" "hy_py_u (ex2_rx ori c) [a, b] = [2 * b / mu_0]"
  by (simp_all add: interp_u_defs ex2_P ex2_f spmv_def vdivs_def ex2_fields_def sum2)

lemma ex2_ainterp_u:
  "ahx_px_u (ex2_rx ori c) [y] = [y / mu_0, 0]" "ahy_px_u (ex2_rx ori c) [y] = [0, y / mu_0]"
  "ahx_py_u (ex2_rx ori c) [y] = [2 * y / mu_0, 0]" "ahy_py_u (ex2_rx ori c) [y] = [0, 2 * y / mu_0]"
  by (simp_all add: ainterp_u_defs ex2_P ex2_f spmv_def vdivs_def spT_def ex2_fields_def upt_rec)

lemma aHd_uV_duplicated_term:
  "shapes_3D (ex2_rx ori c) 2"
  "Hd_uV (ex2_rx ori c) [0, 1] = [2 / mu_0]"
  "aHd_uV (ex2_rx ori c) [1] = [2 / mu_0, 0]"
  "dot [0, 1] (aHd_uV (ex2_rx ori c) [1]) \<noteq> dot [1] (Hd_uV (ex2_rx ori c) [0, 1])"
proof -
  show "shapes_3D (ex2_rx ori c) 2" by (rule ex2_shapes)
  show h: "Hd_uV (ex2_rx ori c) [0, 1] = [2 / mu_0]"
    by (simp add: Hd_uV_def ex2_interp ex2_interp_u spmv_sdiag1 vadd_def vsub_def)
  show a: "aHd_uV (ex2_rx ori c) [1] = [2 / mu_0, 0]"
    by (simp add: aHd_uV_def ex2_ainterp ex2_ainterp_u spmv_sdiag1 vadd_def vsub_def)
  show "dot [0, 1] (aHd_uV (ex2_rx ori c) [1]) \<noteq> dot [1] (Hd_uV (ex2_rx ori c) [0, 1])"
    by (simp add: h a dot_def sum2)
qed
end
